theory Spec2Isabelle
  imports Complex_Main "HOL-Library.Sublist"
begin

section \<open>Tensor shapes and the layers of \<open>CIFAR10Net\<close>\<close>

text \<open>
  The notebook \<^verbatim>\<open>Exercises/interactive_cifar10.ipynb\<close> defines the class
  \<^verbatim>\<open>CIFAR10Net(nn.Module)\<close>. Its constructor stores ten library layers, its
  \<^verbatim>\<open>forward\<close> chains them. The numbers inside a tensor are floating point values
  produced by the library; what the repository's code fixes is the shape of every
  intermediate tensor, so a tensor is modelled by its shape, a list of dimension sizes.
  A layer applied to a tensor of the wrong shape raises \<^verbatim>\<open>RuntimeError\<close> or
  \<^verbatim>\<open>ValueError\<close> in the library.
\<close>

datatype error =
    IndexError
  | ZeroDivisionError
  | NameError string
  | StopIteration
  | ImportError string
  | RuntimeError string
  | ValueError string

type_synonym shape = "nat list"

record conv2d =
  in_channels :: nat
  out_channels :: nat
  kernel_size :: nat
  padding :: nat

record maxpool2d =
  pool_kernel :: nat
  pool_stride :: nat

record linear =
  in_features :: nat
  out_features :: nat

record batchnorm2d =
  num_features :: nat
  training :: bool

record cifar10net =
  conv1 :: conv2d
  conv2 :: conv2d
  conv3 :: conv2d
  pool :: maxpool2d
  fc1 :: linear
  fc2 :: linear
  dropout_p :: rat
  batch_norm1 :: batchnorm2d
  batch_norm2 :: batchnorm2d
  batch_norm3 :: batchnorm2d

text \<open>
  \<^verbatim>\<open>nn.Conv2d(cin, cout, k, padding=p)\<close> (stride 1, dilation 1) on a batch
  \<open>[n, c, h, w]\<close> or on a single image \<open>[c, h, w]\<close>: the channel count must be
  \<open>cin\<close>, the padded image must hold the kernel, and each spatial size becomes
  \<open>h + 2 p - k + 1\<close>.
\<close>

definition conv2d_apply :: "conv2d \<Rightarrow> shape \<Rightarrow> error + shape" where
  "conv2d_apply l x =
     (case x of
        [n, c, h, w] \<Rightarrow>
          if c = in_channels l \<and> kernel_size l \<le> h + 2 * padding l
             \<and> kernel_size l \<le> w + 2 * padding l
          then Inr [n, out_channels l,
                    h + 2 * padding l - kernel_size l + 1,
                    w + 2 * padding l - kernel_size l + 1]
          else Inl (RuntimeError ''conv2d'')
      | [c, h, w] \<Rightarrow>
          if c = in_channels l \<and> kernel_size l \<le> h + 2 * padding l
             \<and> kernel_size l \<le> w + 2 * padding l
          then Inr [out_channels l,
                    h + 2 * padding l - kernel_size l + 1,
                    w + 2 * padding l - kernel_size l + 1]
          else Inl (RuntimeError ''conv2d'')
      | _ \<Rightarrow> Inl (RuntimeError ''conv2d''))"

text \<open>
  \<^verbatim>\<open>nn.BatchNorm2d(c)\<close> keeps the shape of a 4-D batch with \<open>c\<close> channels. It
  raises \<^verbatim>\<open>ValueError\<close> for an input that is not 4-D and, in training mode, for an
  input with a single value per channel; a wrong channel count fails in the
  normalisation itself.
\<close>

definition batchnorm2d_apply :: "batchnorm2d \<Rightarrow> shape \<Rightarrow> error + shape" where
  "batchnorm2d_apply l x =
     (case x of
        [n, c, h, w] \<Rightarrow>
          if training l \<and> n * h * w = 1 then Inl (ValueError ''batch_norm'')
          else if c = num_features l then Inr x
          else Inl (RuntimeError ''batch_norm'')
      | _ \<Rightarrow> Inl (ValueError ''batch_norm''))"

text \<open>\<^verbatim>\<open>torch.relu\<close> and \<^verbatim>\<open>nn.Dropout\<close> work elementwise.\<close>

definition relu :: "shape \<Rightarrow> error + shape" where
  "relu x = Inr x"

definition dropout :: "shape \<Rightarrow> error + shape" where
  "dropout x = Inr x"

text \<open>
  \<^verbatim>\<open>nn.MaxPool2d(k, s)\<close> (no padding, floor mode) on a batch or on a single image:
  each spatial size becomes \<open>(h - k) div s + 1\<close>; a window larger than the image is an
  error.
\<close>

definition maxpool2d_apply :: "maxpool2d \<Rightarrow> shape \<Rightarrow> error + shape" where
  "maxpool2d_apply l x =
     (case x of
        [n, c, h, w] \<Rightarrow>
          if pool_kernel l \<le> h \<and> pool_kernel l \<le> w \<and> 0 < pool_stride l
          then Inr [n, c, (h - pool_kernel l) div pool_stride l + 1,
                    (w - pool_kernel l) div pool_stride l + 1]
          else Inl (RuntimeError ''max_pool2d'')
      | [c, h, w] \<Rightarrow>
          if pool_kernel l \<le> h \<and> pool_kernel l \<le> w \<and> 0 < pool_stride l
          then Inr [c, (h - pool_kernel l) div pool_stride l + 1,
                    (w - pool_kernel l) div pool_stride l + 1]
          else Inl (RuntimeError ''max_pool2d'')
      | _ \<Rightarrow> Inl (RuntimeError ''max_pool2d''))"

text \<open>
  \<^verbatim>\<open>x.view(-1, k)\<close>: the number of elements must be a multiple of \<open>k\<close>; the
  inferred first dimension is the quotient.
\<close>

definition view_rows :: "nat \<Rightarrow> shape \<Rightarrow> error + shape" where
  "view_rows k x =
     (if 0 < k \<and> prod_list x mod k = 0 then Inr [prod_list x div k, k]
      else Inl (RuntimeError ''view''))"

text \<open>\<^verbatim>\<open>nn.Linear(fin, fout)\<close> replaces a last dimension \<open>fin\<close> by \<open>fout\<close>.\<close>

definition linear_apply :: "linear \<Rightarrow> shape \<Rightarrow> error + shape" where
  "linear_apply l x =
     (if x \<noteq> [] \<and> last x = in_features l then Inr (butlast x @ [out_features l])
      else Inl (RuntimeError ''linear''))"

text \<open>Sequencing of calls that may raise: the first error ends the chain.\<close>

definition and_then :: "error + 'a \<Rightarrow> ('a \<Rightarrow> error + 'b) \<Rightarrow> error + 'b" where
  "and_then r f = (case r of Inl e \<Rightarrow> Inl e | Inr v \<Rightarrow> f v)"

text \<open>
  \<^verbatim>\<open>CIFAR10Net.__init__\<close>: the layers with the constants of the source. A module
  is in training mode when it is constructed; \<^verbatim>\<open>model.train()\<close> and
  \<^verbatim>\<open>model.eval()\<close> set the mode of the module and of its layers
  (\<open>set_training\<close>).
\<close>

definition CIFAR10Net_init :: cifar10net where
  "CIFAR10Net_init =
     \<lparr> conv1 = \<lparr> in_channels = 3, out_channels = 32, kernel_size = 3, padding = 1 \<rparr>,
       conv2 = \<lparr> in_channels = 32, out_channels = 64, kernel_size = 3, padding = 1 \<rparr>,
       conv3 = \<lparr> in_channels = 64, out_channels = 128, kernel_size = 3, padding = 1 \<rparr>,
       pool = \<lparr> pool_kernel = 2, pool_stride = 2 \<rparr>,
       fc1 = \<lparr> in_features = 128 * 4 * 4, out_features = 512 \<rparr>,
       fc2 = \<lparr> in_features = 512, out_features = 10 \<rparr>,
       dropout_p = 1 / 4,
       batch_norm1 = \<lparr> num_features = 32, training = True \<rparr>,
       batch_norm2 = \<lparr> num_features = 64, training = True \<rparr>,
       batch_norm3 = \<lparr> num_features = 128, training = True \<rparr> \<rparr>"

definition set_training :: "bool \<Rightarrow> cifar10net \<Rightarrow> cifar10net" where
  "set_training mode self =
     self\<lparr> batch_norm1 := (batch_norm1 self)\<lparr> training := mode \<rparr>,
           batch_norm2 := (batch_norm2 self)\<lparr> training := mode \<rparr>,
           batch_norm3 := (batch_norm3 self)\<lparr> training := mode \<rparr> \<rparr>"

text \<open>
  One line of \<^verbatim>\<open>forward\<close> of the form
  \<^verbatim>\<open>x = self.pool(torch.relu(self.batch_normK(self.convK(x))))\<close>.
\<close>

definition conv_stage :: "conv2d \<Rightarrow> batchnorm2d \<Rightarrow> maxpool2d \<Rightarrow> shape \<Rightarrow> error + shape" where
  "conv_stage cv bn pl x =
     and_then (conv2d_apply cv x) (\<lambda>x.
     and_then (batchnorm2d_apply bn x) (\<lambda>x.
     and_then (relu x) (\<lambda>x.
     maxpool2d_apply pl x)))"

text \<open>\<^verbatim>\<open>CIFAR10Net.forward\<close>, statement by statement.\<close>

definition forward :: "cifar10net \<Rightarrow> shape \<Rightarrow> error + shape" where
  "forward self x =
     and_then (conv_stage (conv1 self) (batch_norm1 self) (pool self) x) (\<lambda>x.
     and_then (conv_stage (conv2 self) (batch_norm2 self) (pool self) x) (\<lambda>x.
     and_then (conv_stage (conv3 self) (batch_norm3 self) (pool self) x) (\<lambda>x.
     and_then (view_rows (128 * 4 * 4) x) (\<lambda>x.
     and_then (and_then (linear_apply (fc1 self) x) relu) (\<lambda>x.
     and_then (dropout x) (\<lambda>x.
     linear_apply (fc2 self) x))))))"

section \<open>Effects, errors and loops\<close>

text \<open>
  The notebooks are sequences of library calls. What a cell or a function of the
  repository does is modelled by the list of effects it requests, in order, together
  with its outcome: the value it returns or the exception that leaves it. A printed
  line is a list of pieces: literal text of the source (non-ASCII symbols left out, long
  literals cut after their first line), strings and numbers computed by the code, and
  values that a library call returned and the code only displays (\<open>Ext\<close>, named by the
  expression of the source). Number formatting is not modelled, and Python floats are
  idealised as real numbers. A call made only for its value (tensor arithmetic, a query
  of the platform or of the CUDA runtime, reading the clock) is not an effect; what the
  code does with the value is. Besides the requests of the code, the list records three
  events of the control flow: that an \<^verbatim>\<open>import\<close> statement was executed, that an
  \<^verbatim>\<open>except\<close> clause took an exception, and that an exception left a function of
  the repository.
\<close>

datatype piece = Lit string | Str string | Num real | Ext string

datatype effect =
    Print "piece list"
  | Shell string
  | Lib string
  | WandbLog "(string \<times> piece) list"
  | Download string bool
  | MkLoader nat bool nat
  | Import string
  | Caught error
  | Escape string error

text \<open>
  \<open>Shell c\<close> is the IPython escape \<^verbatim>\<open>!c\<close>; \<open>Lib f\<close> a call of the library
  function \<open>f\<close> made for its effect, as a statement or to build or change an object of
  the library; \<open>WandbLog\<close> a call of \<^verbatim>\<open>wandb.log\<close> with its dictionary;
  \<open>Download root train\<close> the construction
  \<^verbatim>\<open>torchvision.datasets.CIFAR10(root=root, train=train, download=True)\<close>;
  \<open>MkLoader batch_size shuffle num_workers\<close> the construction of a
  \<^verbatim>\<open>torch.utils.data.DataLoader\<close>; \<open>Import m\<close> the execution of
  \<^verbatim>\<open>import m\<close> (or \<^verbatim>\<open>from m import ...\<close>), whether it succeeds or raises;
  \<open>Caught e\<close> the entry into an \<^verbatim>\<open>except\<close> clause that matches the raised
  exception \<open>e\<close>; \<open>Escape f e\<close> the end of a call of the repository's function
  \<open>f\<close> by the exception \<open>e\<close>.
\<close>

type_synonym 'a io = "effect list \<times> (error + 'a)"

definition io_return :: "'a \<Rightarrow> 'a io" where
  "io_return v = ([], Inr v)"

definition io_raise :: "error \<Rightarrow> 'a io" where
  "io_raise e = ([], Inl e)"

definition emit :: "effect \<Rightarrow> unit io" where
  "emit ev = ([ev], Inr ())"

definition io_bind :: "'a io \<Rightarrow> ('a \<Rightarrow> 'b io) \<Rightarrow> 'b io" where
  "io_bind m f =
     (case m of
        (t, Inl e) \<Rightarrow> (t, Inl e)
      | (t, Inr v) \<Rightarrow> (case f v of (t', r) \<Rightarrow> (t @ t', r)))"

definition io_seq :: "'a io \<Rightarrow> 'b io \<Rightarrow> 'b io" where
  "io_seq m n = io_bind m (\<lambda>_. n)"

text \<open>A \<^verbatim>\<open>for\<close> loop over a finite sequence, threading the loop's variables.\<close>

fun for_io :: "('a \<Rightarrow> 's \<Rightarrow> 's io) \<Rightarrow> 'a list \<Rightarrow> 's \<Rightarrow> 's io" where
  "for_io body [] s = io_return s"
| "for_io body (x # xs) s = io_bind (body x s) (for_io body xs)"

text \<open>\<^verbatim>\<open>range(n)\<close> for a Python integer: empty when \<open>n \<le> 0\<close>.\<close>

definition py_range :: "int \<Rightarrow> int list" where
  "py_range n = map int [0..<nat n]"

text \<open>
  The \<^verbatim>\<open>for\<close> statement itself asks an iterator for its next item until the iterator
  is exhausted, so it ends only when that happens or when the body raises. An iterator is
  modelled by the answers to the successive calls of \<^verbatim>\<open>next\<close>, \<open>None\<close> standing for
  \<^verbatim>\<open>StopIteration\<close>. \<open>for_loop body it i t s\<close> runs the statement from the
  \<open>i\<close>-th answer on, \<open>t\<close> being the effects requested so far and \<open>s\<close> the loop's
  variables; it has no value when the statement does not end. \<open>for_io\<close> above is the
  same statement for an iterator that delivers the items of a list and stops.
\<close>

type_synonym 'a iterator = "nat \<Rightarrow> 'a option"

partial_function (option) for_loop ::
  "('a \<Rightarrow> 's \<Rightarrow> 's io) \<Rightarrow> 'a iterator \<Rightarrow> nat \<Rightarrow> effect list \<Rightarrow> 's \<Rightarrow> 's io option" where
  "for_loop body it i t s =
     (case it i of
        None \<Rightarrow> Some (t, Inr s)
      | Some x \<Rightarrow>
          (case body x s of
             (t', Inl e) \<Rightarrow> Some (t @ t', Inl e)
           | (t', Inr s') \<Rightarrow> for_loop body it (Suc i) (t @ t') s'))"

definition for_statement :: "('a \<Rightarrow> 's \<Rightarrow> 's io) \<Rightarrow> 'a iterator \<Rightarrow> 's \<Rightarrow> 's io option" where
  "for_statement body it s = for_loop body it 0 [] s"

text \<open>
  The iterators of the repository's loops: \<^verbatim>\<open>range(n)\<close>, a list, and
  \<^verbatim>\<open>enumerate(it, start)\<close> over another iterator.
\<close>

definition range_iter :: "int \<Rightarrow> int iterator" where
  "range_iter n i = (if int i < n then Some (int i) else None)"

definition list_iter :: "'a list \<Rightarrow> 'a iterator" where
  "list_iter xs i = (if i < length xs then Some (xs ! i) else None)"

definition enumerate_iter :: "'a iterator \<Rightarrow> nat \<Rightarrow> (nat \<times> 'a) iterator" where
  "enumerate_iter it start i = map_option (\<lambda>x. (start + i, x)) (it i)"

text \<open>True division \<^verbatim>\<open>a / b\<close> raises on a zero divisor.\<close>

definition py_div :: "real \<Rightarrow> real \<Rightarrow> real io" where
  "py_div a b = (if b = 0 then io_raise ZeroDivisionError else io_return (a / b))"

text \<open>
  The position that \<^verbatim>\<open>xs[i]\<close> reads in a Python list: a negative index counts from
  the end, an index outside the list raises \<^verbatim>\<open>IndexError\<close>.
\<close>

definition list_index :: "'a list \<Rightarrow> int \<Rightarrow> nat io" where
  "list_index xs i =
     (if 0 \<le> i \<and> i < int (length xs) then io_return (nat i)
      else if i < 0 \<and> - int (length xs) \<le> i then io_return (nat (int (length xs) + i))
      else io_raise IndexError)"

text \<open>
  A one-dimensional tensor after \<^verbatim>\<open>.squeeze()\<close>: a tensor with exactly one element
  loses its only dimension, and a zero-dimensional tensor cannot be indexed.
\<close>

datatype 'a tensor = Scalar 'a | Vector "'a list"

definition squeeze :: "'a list \<Rightarrow> 'a tensor" where
  "squeeze xs = (case xs of [x] \<Rightarrow> Scalar x | _ \<Rightarrow> Vector xs)"

definition tensor_index :: "'a tensor \<Rightarrow> nat \<Rightarrow> 'a io" where
  "tensor_index c i =
     (case c of
        Scalar _ \<Rightarrow> io_raise IndexError
      | Vector xs \<Rightarrow> if i < length xs then io_return (xs ! i) else io_raise IndexError)"

text \<open>
  The global namespace of the notebook kernel: the names of the functions that the
  cells run so far have defined. Python resolves a global name when the call is
  executed, so a call of a function that no cell has defined yet raises
  \<^verbatim>\<open>NameError\<close>. In a call with arguments the name is resolved first
  (\<open>resolve\<close>), then the arguments are evaluated, then the function runs. An
  exception that the function does not handle ends the call and goes on to the caller.
\<close>

type_synonym globals = "string set"

definition resolve :: "globals \<Rightarrow> string \<Rightarrow> unit io" where
  "resolve g name = (if name \<in> g then io_return () else io_raise (NameError name))"

definition call :: "globals \<Rightarrow> string \<Rightarrow> 'a io \<Rightarrow> 'a io" where
  "call g name body =
     (if name \<in> g
      then (case body of
              (t, Inl e) \<Rightarrow> (t @ [Escape name e], Inl e)
            | (t, Inr v) \<Rightarrow> (t, Inr v))
      else io_raise (NameError name))"

section \<open>What the libraries and the host return\<close>

text \<open>
  Everything a run of the notebooks reads from outside the repository's code is a field
  of \<open>world\<close>: the outcome of importing a module, the answers of the platform and of
  the CUDA runtime that the code branches on, the configured numbers of epochs
  (\<open>wandb_config_epochs w\<close> in the first experiment, \<open>sweep_config_epochs w run\<close> in
  run number \<open>run\<close> of the sweep), and the data the loaders and the network deliver.
  The process environment and the command line are fields as well. The answers are
  taken to be the same throughout a run, with one exception: a shell command can
  install packages, so \<open>import_after_shell w c m\<close> is the outcome of importing the
  module \<open>m\<close> once the command \<open>c\<close> has run, and \<open>host_after\<close> gives the world
  as it is after an effect.

  A training batch is observed as the value of \<^verbatim>\<open>loss.item()\<close> and, for each sample,
  the pair of the class predicted by \<^verbatim>\<open>torch.max(outputs.data, 1)\<close> and the label.
  \<open>train_stream w e\<close> lists the batches that \<^verbatim>\<open>trainloader\<close> yields during epoch
  \<open>e\<close>, \<open>epoch_test_stream w e\<close> the batches of \<^verbatim>\<open>testloader\<close> in the evaluation
  that follows epoch \<open>e\<close>, \<open>test_stream w\<close> those of an evaluation after training, and
  \<open>preview_stream w\<close> the label tensors of the batches of the preview iteration.
\<close>

datatype import_result = Imported string | Missing string | Broken string

record world =
  environ :: "string \<Rightarrow> string option"
  argv :: "string list"
  module_import :: "string \<Rightarrow> import_result"
  import_after_shell :: "string \<Rightarrow> string \<Rightarrow> import_result"
  platform_system :: string
  has_linux_distribution :: bool
  cuda_available :: bool
  device_count :: int
  wandb_config_epochs :: int
  sweep_config_epochs :: "int \<Rightarrow> int"
  train_stream :: "nat \<Rightarrow> (real \<times> (int \<times> int) list) list"
  epoch_test_stream :: "nat \<Rightarrow> (int \<times> int) list list"
  test_stream :: "(int \<times> int) list list"
  preview_stream :: "int list list"

fun host_after :: "effect \<Rightarrow> world \<Rightarrow> world" where
  "host_after (Shell c) w = w\<lparr>module_import := import_after_shell w c\<rparr>"
| "host_after ev w = w"

section \<open>The CIFAR-10 notebook: evaluation and training\<close>

definition classes :: "string list" where
  "classes = [''plane'', ''car'', ''bird'', ''cat'', ''deer'',
              ''dog'', ''frog'', ''horse'', ''ship'', ''truck'']"

record counts =
  correct :: int
  total :: int

record eval_acc = counts +
  class_correct :: "real list"
  class_total :: "real list"

record train_acc = counts +
  running_loss :: real

text \<open>
  The body of \<^verbatim>\<open>for i in range(len(labels))\<close> in \<^verbatim>\<open>evaluate_model\<close>:
  \<^verbatim>\<open>label = labels[i]; class_correct[label] += c[i].item(); class_total[label] += 1\<close>.
  The augmented assignment reads \<^verbatim>\<open>class_correct[label]\<close> before it evaluates
  \<^verbatim>\<open>c[i]\<close>. Here \<open>i\<close> is below the length of \<open>labels\<close>.
\<close>

definition count_sample :: "bool tensor \<Rightarrow> int list \<Rightarrow> nat \<Rightarrow> eval_acc \<Rightarrow> eval_acc io" where
  "count_sample c labels i s =
     (let label = labels ! i in
      io_bind (list_index (class_correct s) label) (\<lambda>k.
      io_bind (tensor_index c i) (\<lambda>hit.
      let s = s\<lparr>class_correct :=
                   (class_correct s)[k := class_correct s ! k + (if hit then 1 else 0)]\<rparr> in
      io_bind (list_index (class_total s) label) (\<lambda>k.
      io_return (s\<lparr>class_total := (class_total s)[k := class_total s ! k + 1]\<rparr>)))))"

text \<open>The body of \<^verbatim>\<open>for data in testloader\<close>.\<close>

definition eval_batch :: "(int \<times> int) list \<Rightarrow> eval_acc \<Rightarrow> eval_acc io" where
  "eval_batch data s =
     (let predicted = map fst data;
          labels = map snd data;
          s = s\<lparr>total := total s + int (length labels)\<rparr>;
          s = s\<lparr>correct := correct s + int (length (filter id (map2 (=) predicted labels)))\<rparr>;
          c = squeeze (map2 (=) predicted labels)
      in for_io (count_sample c labels) [0..<length labels] s)"

text \<open>The body of \<^verbatim>\<open>for i in range(10)\<close>, which prints one class accuracy.\<close>

definition print_class_accuracy :: "eval_acc \<Rightarrow> nat \<Rightarrow> unit \<Rightarrow> unit io" where
  "print_class_accuracy s i u =
     io_bind (py_div (100 * (class_correct s ! i)) (class_total s ! i)) (\<lambda>a.
     emit (Print [Lit ''Accuracy of '', Str (classes ! i), Lit '': '', Num a, Lit ''%'']))"

definition evaluate_model :: "(int \<times> int) list list \<Rightarrow> real io" where
  "evaluate_model testloader =
     io_seq (emit (Lib ''model.eval''))
    (io_bind (for_io eval_batch testloader
               \<lparr>correct = 0, total = 0,
                class_correct = replicate 10 0, class_total = replicate 10 0\<rparr>) (\<lambda>s.
     io_seq (for_io (print_class_accuracy s) [0..<10] ())
    (py_div (100 * of_int (correct s)) (of_int (total s)))))"

text \<open>
  The body of \<^verbatim>\<open>for i, data in enumerate(trainloader, 0)\<close> in \<^verbatim>\<open>train_model\<close>.
\<close>

definition train_batch :: "int \<Rightarrow> nat \<times> real \<times> (int \<times> int) list \<Rightarrow> train_acc \<Rightarrow> train_acc io" where
  "train_batch epoch idata s =
     (case idata of (i, loss, data) \<Rightarrow>
        let predicted = map fst data; labels = map snd data in
        io_seq (emit (Lib ''optimizer.zero_grad''))
       (io_seq (emit (Lib ''loss.backward''))
       (io_seq (emit (Lib ''optimizer.step''))
       (let s = s\<lparr>running_loss := running_loss s + loss\<rparr>;
            s = s\<lparr>total := total s + int (length labels)\<rparr>;
            s = s\<lparr>correct := correct s + int (length (filter id (map2 (=) predicted labels)))\<rparr>
        in if i mod 100 = 99
           then io_bind (py_div (100 * of_int (correct s)) (of_int (total s))) (\<lambda>accuracy.
                io_seq (emit (WandbLog [(''epoch'', Num (of_int epoch)),
                                        (''loss'', Num (running_loss s / 100)),
                                        (''accuracy'', Num accuracy)]))
               (io_seq (emit (Print [Lit ''['', Num (of_int (epoch + 1)), Lit '', '',
                                     Num (of_nat (i + 1)), Lit ''] loss: '',
                                     Num (running_loss s / 100), Lit '', accuracy: '',
                                     Num accuracy, Lit ''%'']))
               (io_return (s\<lparr>running_loss := 0, correct := 0, total := 0\<rparr>))))
           else io_return s))))"

text \<open>The body of \<^verbatim>\<open>for epoch in range(epochs)\<close>.\<close>

definition train_epoch :: "globals \<Rightarrow> world \<Rightarrow> int \<Rightarrow> unit \<Rightarrow> unit io" where
  "train_epoch g w epoch u =
     io_seq (emit (Lib ''model.train''))
    (io_seq (for_io (train_batch epoch) (enumerate 0 (train_stream w (nat epoch)))
               \<lparr>correct = 0, total = 0, running_loss = 0\<rparr>)
    (io_bind (call g ''evaluate_model'' (evaluate_model (epoch_test_stream w (nat epoch))))
       (\<lambda>test_accuracy.
     io_seq (emit (WandbLog [(''test_accuracy'', Num test_accuracy)]))
            (emit (Print [Lit ''Epoch '', Num (of_int (epoch + 1)),
                          Lit '' Test Accuracy: '', Num test_accuracy, Lit ''%''])))))"

definition train_model :: "globals \<Rightarrow> world \<Rightarrow> int \<Rightarrow> unit io" where
  "train_model g w epochs =
     io_seq (for_io (train_epoch g w) (py_range epochs) ())
    (io_seq (emit (Print [Lit ''Finished Training'']))
            (emit (Lib ''wandb.finish'')))"

section \<open>Statements, imports and cells\<close>

text \<open>
  A sequence of statements without a value, and \<^verbatim>\<open>print\<close>.
\<close>

definition block :: "unit io list \<Rightarrow> unit io" where
  "block stmts = foldr io_seq stmts (io_return ())"

definition say :: "piece list \<Rightarrow> unit io" where
  "say ps = emit (Print ps)"

text \<open>
  \<^verbatim>\<open>import m\<close>: a module that is not installed raises \<^verbatim>\<open>ImportError\<close>; a module
  whose own code fails raises some other exception, modelled as \<^verbatim>\<open>RuntimeError\<close>.
\<close>

definition import_module :: "world \<Rightarrow> string \<Rightarrow> unit io" where
  "import_module w m =
     io_seq (emit (Import m))
       (case module_import w m of
          Imported v \<Rightarrow> io_return ()
        | Missing msg \<Rightarrow> io_raise (ImportError msg)
        | Broken msg \<Rightarrow> io_raise (RuntimeError msg))"

definition import_modules :: "world \<Rightarrow> string list \<Rightarrow> unit io" where
  "import_modules w ms = for_io (\<lambda>m u. import_module w m) ms ()"

definition version_of :: "world \<Rightarrow> string \<Rightarrow> piece" where
  "version_of w m = (case module_import w m of Imported v \<Rightarrow> Str v | _ \<Rightarrow> Ext ''__version__'')"

text \<open>
  \<^verbatim>\<open>try: body except ImportError as e: handler(str(e))\<close>. No other exception is
  caught. The entry into the handler is recorded.
\<close>

definition except_ImportError :: "'a io \<Rightarrow> (string \<Rightarrow> 'a io) \<Rightarrow> 'a io" where
  "except_ImportError body handler =
     (case body of
        (t, Inl (ImportError msg)) \<Rightarrow>
          (case handler msg of (t', r) \<Rightarrow> (t @ Caught (ImportError msg) # t', r))
      | _ \<Rightarrow> body)"

text \<open>
  A cell runs in the namespace left by the cells before it and returns the namespace it
  leaves. Running a notebook from top to bottom stops at the first cell that raises; a
  cell finds the host as the effects of the cells before it have left it.
\<close>

type_synonym cell = "world \<Rightarrow> globals \<Rightarrow> globals io"

fun run_from :: "cell list \<Rightarrow> world \<Rightarrow> globals \<Rightarrow> globals io" where
  "run_from [] w g = io_return g"
| "run_from (c # cs) w g = io_bind (c w g) (run_from cs (fold host_after (fst (c w g)) w))"

definition run_cells :: "cell list \<Rightarrow> world \<Rightarrow> globals io" where
  "run_cells cells w = run_from cells w {}"

section \<open>The CIFAR-10 notebook: the remaining functions and the cells\<close>

definition imshow :: "unit io" where
  "imshow = emit (Lib ''plt.imshow'')"

text \<open>
  The body of \<^verbatim>\<open>for idx in range(num_images)\<close> in \<^verbatim>\<open>visualize_predictions\<close>.
  \<open>shown\<close> is the first batch of \<^verbatim>\<open>testloader\<close>. In \<^verbatim>\<open>imshow(images[idx])\<close>
  the name \<^verbatim>\<open>imshow\<close> is resolved before the argument is evaluated.
\<close>

definition show_prediction :: "globals \<Rightarrow> (int \<times> int) list \<Rightarrow> int \<Rightarrow> unit \<Rightarrow> unit io" where
  "show_prediction g shown idx u =
     io_seq (emit (Lib ''fig.add_subplot''))
    (io_seq (resolve g ''imshow'')
    (io_bind (list_index shown idx) (\<lambda>k.
     let predicted = fst (shown ! k); label = snd (shown ! k) in
     io_seq (call g ''imshow'' imshow)
    (io_seq (list_index classes predicted)
    (io_seq (emit (Lib ''ax.set_title''))
    (if predicted = label then emit (Lib ''plt.setp'')
     else io_seq (emit (Lib ''plt.setp''))
         (io_seq (list_index classes label)
                 (emit (Lib ''ax.set_title'')))))))))"

definition visualize_predictions :: "globals \<Rightarrow> world \<Rightarrow> int \<Rightarrow> unit io" where
  "visualize_predictions g w num_images =
     io_seq (emit (Lib ''model.eval''))
    (case test_stream w of
       [] \<Rightarrow> io_raise StopIteration
     | shown # _ \<Rightarrow>
         io_seq (emit (Lib ''plt.figure''))
        (io_seq (for_io (show_prediction g shown) (py_range num_images) ())
        (io_seq (emit (Lib ''plt.tight_layout''))
                (emit (Lib ''plt.show'')))))"

text \<open>The seven code cells, in the order of the file.\<close>

definition cifar_cell_setup :: cell where
  "cifar_cell_setup w g =
     io_seq (import_modules w [''torch'', ''torch.nn'', ''torch.optim'', ''torchvision'',
                               ''torchvision.transforms'', ''matplotlib.pyplot'', ''numpy'',
                               ''wandb''])
    (io_seq (emit (Lib ''torch.manual_seed''))
    (io_seq (if cuda_available w then emit (Lib ''torch.cuda.manual_seed'') else io_return ())
    (io_seq (say [Lit ''Using device: '', Str (if cuda_available w then ''cuda'' else ''cpu'')])
            (io_return g))))"

definition cifar_cell_data :: cell where
  "cifar_cell_data w g =
     io_seq (emit (Download ''./data'' True))
    (io_seq (emit (MkLoader 128 True 2))
    (io_seq (emit (Download ''./data'' False))
    (io_seq (emit (MkLoader 100 False 2))
            (io_return g))))"

definition cifar_cell_preview :: cell where
  "cifar_cell_preview w g =
     (let g = insert ''imshow'' g in
      case preview_stream w of
        [] \<Rightarrow> io_raise StopIteration
      | labels # _ \<Rightarrow>
          io_seq (emit (Lib ''plt.figure''))
         (io_seq (call g ''imshow'' imshow)
         (io_seq (emit (Lib ''plt.axis''))
         (io_bind (for_io (\<lambda>j names.
                     io_bind (list_index labels j) (\<lambda>k.
                     io_bind (list_index classes (labels ! k)) (\<lambda>c.
                     io_return (names @ [Str (classes ! c)]))))
                   (py_range 16) []) (\<lambda>names.
          io_seq (say names) (io_return g))))))"

definition cifar_cell_model :: cell where
  "cifar_cell_model w g =
     (let g = insert ''CIFAR10Net'' g in
      io_seq (call g ''CIFAR10Net'' (say [Ext ''model''])) (io_return g))"

definition cifar_cell_train :: cell where
  "cifar_cell_train w g =
     io_seq (emit (Lib ''wandb.init''))
    (let g = insert ''train_model'' g in
     io_seq (call g ''train_model'' (train_model g w 10)) (io_return g))"

definition cifar_cell_evaluate :: cell where
  "cifar_cell_evaluate w g =
     (let g = insert ''evaluate_model'' g in
      io_bind (call g ''evaluate_model'' (evaluate_model (test_stream w))) (\<lambda>a.
      io_seq (say [Lit ''Overall Test Accuracy: '', Num a, Lit ''%'']) (io_return g)))"

definition cifar_cell_predict :: cell where
  "cifar_cell_predict w g =
     (let g = insert ''visualize_predictions'' g in
      io_seq (call g ''visualize_predictions'' (visualize_predictions g w 5)) (io_return g))"

definition interactive_cifar10 :: "cell list" where
  "interactive_cifar10 =
     [cifar_cell_setup, cifar_cell_data, cifar_cell_preview, cifar_cell_model,
      cifar_cell_train, cifar_cell_evaluate, cifar_cell_predict]"

section \<open>The Weights and Biases tutorial notebook\<close>

text \<open>
  \<^verbatim>\<open>check_wandb_installation\<close>: the import and the print of the version are inside
  \<^verbatim>\<open>try\<close>; the handler of \<^verbatim>\<open>ImportError\<close> prints, runs the shell command
  \<^verbatim>\<open>!pip install wandb -q\<close> and returns \<^verbatim>\<open>False\<close>.
\<close>

definition check_wandb_installation :: "world \<Rightarrow> bool io" where
  "check_wandb_installation w =
     except_ImportError
       (io_seq (import_module w ''wandb'')
       (io_seq (say [Lit ''W&B is installed (version '', version_of w ''wandb'', Lit '')''])
               (io_return True)))
       (\<lambda>msg.
        io_seq (say [Lit ''W&B is not installed. Installing now...''])
       (io_seq (emit (Shell ''pip install wandb -q''))
               (io_return False)))"

text \<open>
  The function \<^verbatim>\<open>train_model\<close> of this notebook, run by the sweep agent; it is named
  \<open>sweep_train_model\<close> here because the CIFAR-10 notebook has a function of the same
  name. \<open>epochs\<close> stands for the value of \<^verbatim>\<open>wandb.config.epochs\<close> that the run reads.
\<close>

definition fit_step :: "int \<Rightarrow> unit \<Rightarrow> unit io" where
  "fit_step epoch u =
     block [emit (Lib ''optimizer.zero_grad''), emit (Lib ''loss.backward''),
            emit (Lib ''optimizer.step'')]"

definition sweep_train_model :: "int \<Rightarrow> unit io" where
  "sweep_train_model epochs =
     io_seq (emit (Lib ''wandb.init''))
    (for_io (\<lambda>epoch u. io_seq (fit_step epoch u)
                               (emit (WandbLog [(''loss'', Ext ''loss.item()'')])))
       (py_range epochs) ())"

definition wandb_cell_check :: cell where
  "wandb_cell_check w g =
     (let g = insert ''check_wandb_installation'' g in
      io_seq (call g ''check_wandb_installation'' (check_wandb_installation w)) (io_return g))"

definition wandb_cell_login :: cell where
  "wandb_cell_login w g =
     io_seq (import_module w ''wandb'') (io_seq (emit (Lib ''wandb.login'')) (io_return g))"

definition wandb_cell_first_experiment :: cell where
  "wandb_cell_first_experiment w g =
     io_seq (import_modules w [''numpy'', ''torch'', ''torch.nn'', ''torch.optim''])
    (io_seq (emit (Lib ''wandb.init''))
    (io_seq (for_io (\<lambda>epoch u. io_seq (fit_step epoch u)
                       (emit (WandbLog [(''loss'', Ext ''loss.item()''),
                                        (''weight'', Ext ''model.weight.item()''),
                                        (''bias'', Ext ''model.bias.item()'')])))
               (py_range (wandb_config_epochs w)) ())
    (io_seq (emit (Lib ''wandb.finish'')) (io_return g))))"

definition wandb_cell_tracking :: cell where
  "wandb_cell_tracking w g =
     io_seq (import_module w ''matplotlib.pyplot'')
    (io_seq (block [emit (Lib ''wandb.init''), emit (Lib ''plt.figure''),
                    emit (Lib ''plt.scatter''), emit (Lib ''plt.plot''),
                    emit (Lib ''plt.legend''), emit (Lib ''plt.title''),
                    emit (WandbLog [(''regression_plot'', Ext ''wandb.Image(plt)'')]),
                    emit (Lib ''wandb.watch''),
                    emit (WandbLog [(''predictions'', Ext ''table'')]),
                    emit (Lib ''wandb.finish'')])
            (io_return g))"

text \<open>
  \<^verbatim>\<open>wandb.agent(sweep_id, function=train_model, count=5)\<close>: the library runs the
  function five times; its calls are listed after the call of the agent.
\<close>

definition wandb_cell_sweep :: cell where
  "wandb_cell_sweep w g =
     io_seq (emit (Lib ''wandb.sweep''))
    (let g = insert ''train_model'' g in
     io_seq (emit (Lib ''wandb.agent''))
    (io_seq (for_io (\<lambda>run u. call g ''train_model'' (sweep_train_model (sweep_config_epochs w run)))
               (py_range 5) ())
            (io_return g)))"

definition interactive_wandb_tutorial :: "cell list" where
  "interactive_wandb_tutorial =
     [wandb_cell_check, wandb_cell_login, wandb_cell_first_experiment, wandb_cell_tracking,
      wandb_cell_sweep]"

section \<open>The PyTorch GPU notebook\<close>

definition check_gpu_availability :: "world \<Rightarrow> unit io" where
  "check_gpu_availability w =
     block [say [Lit ''PyTorch version: '', Ext ''torch.__version__''],
            say [Lit ''Python version: '', Ext ''sys.version.split()[0]''],
            say [Lit ''Operating System: '', Str (platform_system w), Lit '' '',
                 Ext ''platform.version()''],
            if cuda_available w
            then block [say [Lit ''CUDA is available!''],
                        say [Lit ''CUDA version: '', Ext ''torch.version.cuda''],
                        say [Lit ''GPU device: '', Ext ''torch.cuda.get_device_name(0)''],
                        say [Lit ''Number of GPUs: '', Num (of_int (device_count w))],
                        say [Lit ''GPU Memory:''],
                        say [Lit ''- Allocated: '', Ext ''memory_allocated/1024**2'', Lit '' MB''],
                        say [Lit ''- Reserved:  '', Ext ''memory_reserved/1024**2'', Lit '' MB'']]
            else say [Lit ''CUDA is not available. Running on CPU only.'']]"

definition demonstrate_gpu_operations :: "world \<Rightarrow> unit io" where
  "demonstrate_gpu_operations w =
     block [say [Lit ''1. Creating tensors:''],
            say [Lit ''CPU tensor device: '', Ext ''cpu_tensor.device''],
            if cuda_available w
            then block [say [Lit ''GPU tensor device: '', Ext ''gpu_tensor.device''],
                        say [Lit ''Direct GPU tensor device: '', Ext ''direct_gpu_tensor.device''],
                        say [Lit ''2. Basic operations on GPU:''],
                        say [Lit ''Matrix multiplication result device: '', Ext ''result.device''],
                        say [Lit ''3. Moving back to CPU:''],
                        say [Lit ''Result moved back to CPU device: '', Ext ''cpu_result.device'']]
            else say [Lit ''GPU operations not available'']]"

text \<open>
  \<^verbatim>\<open>benchmark_operations\<close>: the first loop times one matrix product per size and
  appends one entry to \<^verbatim>\<open>results\<close>; the second prints one row per entry. The measured
  times are values of the library and the clock.
\<close>

definition benchmark_size :: "world \<Rightarrow> int \<Rightarrow> int list \<Rightarrow> int list io" where
  "benchmark_size w sz results =
     io_seq (if cuda_available w
             then block [emit (Lib ''torch.cuda.synchronize''), emit (Lib ''torch.cuda.synchronize'')]
             else io_return ())
            (io_return (results @ [sz]))"

definition benchmark_operations :: "world \<Rightarrow> unit io" where
  "benchmark_operations w =
     io_bind (for_io (benchmark_size w) [1000, 2000, 4000] []) (\<lambda>results.
     block [say [Lit ''Matrix Multiplication Performance Comparison:''],
            say [Lit ''Size  CPU (s)  GPU (s)  Speedup''],
            say [Lit (replicate 60 (CHR ''-''))],
            for_io (\<lambda>r u. say [Num (of_int r), Lit ''x'', Num (of_int r), Ext ''cpu_time'',
                                Ext ''gpu_time'', Ext ''speedup'', Lit ''x''])
              results ()])"

definition demonstrate_memory_management :: "world \<Rightarrow> unit io" where
  "demonstrate_memory_management w =
     (if \<not> cuda_available w then say [Lit ''GPU not available'']
      else block [say [Lit ''Initial GPU Memory Usage:''],
                  say [Lit ''Allocated: '', Ext ''torch.cuda.memory_allocated()/1024**2'', Lit '' MB''],
                  say [Lit ''Cached:    '', Ext ''torch.cuda.memory_reserved()/1024**2'', Lit '' MB''],
                  for_io (\<lambda>i u.
                     block [say [Lit ''After creating tensor '', Num (of_int (i + 1)), Lit '':''],
                            say [Lit ''Allocated: '', Ext ''torch.cuda.memory_allocated()/1024**2'',
                                 Lit '' MB''],
                            say [Lit ''Cached:    '', Ext ''torch.cuda.memory_reserved()/1024**2'',
                                 Lit '' MB'']])
                    (py_range 5) (),
                  say [Lit ''Clearing tensors...''],
                  emit (Lib ''torch.cuda.empty_cache''),
                  say [Lit ''Final GPU Memory Usage:''],
                  say [Lit ''Allocated: '', Ext ''torch.cuda.memory_allocated()/1024**2'', Lit '' MB''],
                  say [Lit ''Cached:    '', Ext ''torch.cuda.memory_reserved()/1024**2'', Lit '' MB'']])"

definition check_multi_gpu :: "world \<Rightarrow> unit io" where
  "check_multi_gpu w =
     (if \<not> cuda_available w then say [Lit ''GPU not available'']
      else let num_gpus = device_count w in
           block [say [Lit ''Number of GPUs available: '', Num (of_int num_gpus)],
                  if 1 < num_gpus
                  then block [say [Lit ''GPU Details:''],
                              for_io (\<lambda>i u.
                                 block [say [Lit ''GPU '', Num (of_int i), Lit '':''],
                                        say [Lit ''Name: '', Ext ''torch.cuda.get_device_name(i)''],
                                        say [Lit ''Memory Allocated: '',
                                             Ext ''torch.cuda.memory_allocated(i)/1024**2'', Lit '' MB''],
                                        say [Lit ''Memory Cached: '',
                                             Ext ''torch.cuda.memory_reserved(i)/1024**2'', Lit '' MB'']])
                                (py_range num_gpus) (),
                              emit (Lib ''torch.nn.DataParallel''),
                              say [Lit ''Model using DataParallel: '', Ext ''model.device_ids'']]
                  else say [Lit ''Multi-GPU training not available (only one GPU detected)'']])"

definition gpu_cell_check :: cell where
  "gpu_cell_check w g =
     io_seq (import_modules w [''torch'', ''sys'', ''platform''])
    (let g = insert ''check_gpu_availability'' g in
     io_seq (call g ''check_gpu_availability'' (check_gpu_availability w)) (io_return g))"

definition gpu_cell_operations :: cell where
  "gpu_cell_operations w g =
     (let g = insert ''demonstrate_gpu_operations'' g in
      io_seq (call g ''demonstrate_gpu_operations'' (demonstrate_gpu_operations w)) (io_return g))"

definition gpu_cell_benchmark :: cell where
  "gpu_cell_benchmark w g =
     io_seq (import_modules w [''time'', ''numpy''])
    (let g = insert ''benchmark_operations'' g in
     io_seq (call g ''benchmark_operations'' (benchmark_operations w)) (io_return g))"

definition gpu_cell_memory :: cell where
  "gpu_cell_memory w g =
     (let g = insert ''demonstrate_memory_management'' g in
      io_seq (call g ''demonstrate_memory_management'' (demonstrate_memory_management w))
             (io_return g))"

definition gpu_cell_multi :: cell where
  "gpu_cell_multi w g =
     (let g = insert ''check_multi_gpu'' g in
      io_seq (call g ''check_multi_gpu'' (check_multi_gpu w)) (io_return g))"

definition interactive_pytorch_gpu :: "cell list" where
  "interactive_pytorch_gpu =
     [gpu_cell_check, gpu_cell_operations, gpu_cell_benchmark, gpu_cell_memory, gpu_cell_multi]"

section \<open>The local setup notebook\<close>

text \<open>
  The file \<^verbatim>\<open>Exercises/interactive_pytorch_gpu.ipynb\<close> holds a second notebook after the
  first, the setup guide for personal computers.
\<close>

definition get_os_info :: "world \<Rightarrow> string \<times> piece" where
  "get_os_info w =
     (let os_name = platform_system w in
      if os_name = ''Darwin'' then (''MacOS'', Ext ''platform.mac_ver()[0]'')
      else if os_name = ''Windows'' then (''Windows'', Ext ''platform.win32_ver()[0]'')
      else if os_name = ''Linux''
           then (''Linux'', if has_linux_distribution w
                            then Ext ''platform.linux_distribution()[0]'' else Str ''Unknown'')
      else (''Unknown'', Str ''Unknown''))"

text \<open>\<^verbatim>\<open>d.get(key, dflt)\<close> for a dictionary written as a list of pairs.\<close>

definition dict_get :: "(string \<times> string) list \<Rightarrow> string \<Rightarrow> string \<Rightarrow> string" where
  "dict_get d key dflt = (case map_of d key of Some v \<Rightarrow> v | None \<Rightarrow> dflt)"

definition show_conda_instructions :: "globals \<Rightarrow> world \<Rightarrow> string io" where
  "show_conda_instructions g w =
     io_bind (call g ''get_os_info'' (io_return (get_os_info w))) (\<lambda>(os_name, _).
     io_return (dict_get [(''Windows'', ''Windows Installation Steps: ...''),
                          (''MacOS'', ''MacOS Installation Steps: ...''),
                          (''Linux'', ''Linux Installation Steps: ...'')]
                  os_name
                  ''Operating system not detected. Please refer to https://docs.conda.io/en/latest/miniconda.html''))"

definition show_environment_setup :: "unit io" where
  "show_environment_setup = say [Lit ''Run these commands in your terminal/command prompt: ...'']"

definition show_package_installation :: "globals \<Rightarrow> world \<Rightarrow> unit io" where
  "show_package_installation g w =
     io_bind (call g ''get_os_info'' (io_return (get_os_info w))) (\<lambda>(os_name, _).
     block [say [Lit ''First, let's check if you have a NVIDIA GPU available...''],
            if os_name = ''Windows''
            then say [Lit ''To check for NVIDIA GPU on Windows: ...'']
            else say [Lit ''To check for NVIDIA GPU on Linux/MacOS: ...''],
            say [Lit ''Based on whether you have a GPU or not, use one of these installation commands: ...'']])"

text \<open>
  \<^verbatim>\<open>verify_setup\<close>: six imports and the prints of the versions are inside \<^verbatim>\<open>try\<close>;
  the handler of \<^verbatim>\<open>ImportError\<close> prints two lines.
\<close>

definition verify_setup :: "world \<Rightarrow> unit io" where
  "verify_setup w =
     except_ImportError
       (io_seq (import_modules w [''torch'', ''torchvision'', ''matplotlib'', ''pandas'',
                                  ''sklearn'', ''wandb''])
       (block [say [Lit ''All required packages are installed!''],
               say [Lit ''PyTorch version: '', version_of w ''torch''],
               say [Lit ''CUDA available: '', Str (if cuda_available w then ''True'' else ''False'')],
               if cuda_available w
               then block [say [Lit ''CUDA version: '', Ext ''torch.version.cuda''],
                           say [Lit ''GPU device: '', Ext ''torch.cuda.get_device_name(0)'']]
               else io_return ()]))
       (\<lambda>msg.
        block [say [Lit ''Some packages are missing: '', Str msg],
               say [Lit ''Please follow the installation instructions above.'']])"

definition show_troubleshooting :: "globals \<Rightarrow> world \<Rightarrow> unit io" where
  "show_troubleshooting g w =
     io_bind (call g ''get_os_info'' (io_return (get_os_info w))) (\<lambda>(os_name, _).
     block [say [Str (dict_get [(''Windows'', ''Common Windows Issues: ...''),
                                (''MacOS'', ''Common MacOS Issues: ...''),
                                (''Linux'', ''Common Linux Issues: ...'')]
                       os_name
                       ''Please refer to the Conda documentation for troubleshooting.'')],
            say [Lit ''General Troubleshooting: ...'']])"

definition setup_cell_os :: cell where
  "setup_cell_os w g =
     io_seq (import_modules w [''platform'', ''sys''])
    (let g = insert ''get_os_info'' g in
     io_bind (call g ''get_os_info'' (io_return (get_os_info w))) (\<lambda>(os_name, os_version).
     io_seq (say [Lit ''Detected Operating System: '', Str os_name, Lit '' (Version: '',
                  os_version, Lit '')''])
    (io_seq (say [Lit ''Python Version: '', Ext ''sys.version''])
            (io_return g))))"

definition setup_cell_conda :: cell where
  "setup_cell_conda w g =
     (let g = insert ''show_conda_instructions'' g in
      io_bind (call g ''show_conda_instructions'' (show_conda_instructions g w)) (\<lambda>text.
      io_seq (say [Str text]) (io_return g)))"

definition setup_cell_environment :: cell where
  "setup_cell_environment w g =
     (let g = insert ''show_environment_setup'' g in
      io_seq (call g ''show_environment_setup'' show_environment_setup) (io_return g))"

definition setup_cell_packages :: cell where
  "setup_cell_packages w g =
     (let g = insert ''show_package_installation'' g in
      io_seq (call g ''show_package_installation'' (show_package_installation g w))
             (io_return g))"

definition setup_cell_verify :: cell where
  "setup_cell_verify w g =
     (let g = insert ''verify_setup'' g in
      io_seq (call g ''verify_setup'' (verify_setup w)) (io_return g))"

definition setup_cell_troubleshooting :: cell where
  "setup_cell_troubleshooting w g =
     (let g = insert ''show_troubleshooting'' g in
      io_seq (call g ''show_troubleshooting'' (show_troubleshooting g w)) (io_return g))"

definition interactive_local_setup :: "cell list" where
  "interactive_local_setup =
     [setup_cell_os, setup_cell_conda, setup_cell_environment, setup_cell_packages,
      setup_cell_verify, setup_cell_troubleshooting]"

text \<open>The four notebooks of the repository.\<close>

definition notebooks :: "cell list list" where
  "notebooks =
     [interactive_cifar10, interactive_wandb_tutorial, interactive_pytorch_gpu,
      interactive_local_setup]"

text \<open>
  The trace that the batch loop of one epoch is expected to leave. Every batch requests
  the three library calls of \<open>batch_effects\<close>. \<open>window_report epoch i win\<close> is what
  is logged and printed at batch index \<open>i\<close> for the 100 batches \<open>win\<close> that end
  there: the sum of their losses divided by 100 and the percentage of correctly
  predicted samples among all their samples. \<open>windows_trace epoch k0 bs\<close> is the trace
  for the batches \<open>bs\<close> when the first of them has index \<open>100 * k0\<close>: one report
  after every complete group of 100 batches, none for the batches left over.
\<close>

definition batch_effects :: "effect list" where
  "batch_effects = [Lib ''optimizer.zero_grad'', Lib ''loss.backward'', Lib ''optimizer.step'']"

definition window_report :: "int \<Rightarrow> nat \<Rightarrow> (real \<times> (int \<times> int) list) list \<Rightarrow> effect list" where
  "window_report epoch i win =
     (let loss = sum_list (map fst win) / 100;
          samples = concat (map snd win);
          accuracy = 100 * real (length (filter (\<lambda>(p, l). p = l) samples))
                       / real (length samples)
      in [WandbLog [(''epoch'', Num (of_int epoch)), (''loss'', Num loss),
                    (''accuracy'', Num accuracy)],
          Print [Lit ''['', Num (of_int (epoch + 1)), Lit '', '', Num (of_nat (i + 1)),
                 Lit ''] loss: '', Num loss, Lit '', accuracy: '', Num accuracy, Lit ''%'']])"

definition windows_trace :: "int \<Rightarrow> nat \<Rightarrow> (real \<times> (int \<times> int) list) list \<Rightarrow> effect list" where
  "windows_trace epoch k0 bs =
     concat (map (\<lambda>k. concat (replicate 100 batch_effects)
                       @ window_report epoch (100 * (k0 + k) + 99) (take 100 (drop (100 * k) bs)))
                 [0..<length bs div 100])
     @ concat (replicate (length bs mod 100) batch_effects)"

text \<open>
  Two notions used in the proofs. \<open>absorb s b\<close> is the state of the three running
  variables of the batch loop after batch \<open>b\<close>. \<open>tallied S s\<close> is the invariant of the
  evaluation loop: both per-class lists have ten entries, no count is negative, and the
  count of every label in \<open>S\<close> is positive.
\<close>

definition absorb :: "train_acc \<Rightarrow> real \<times> (int \<times> int) list \<Rightarrow> train_acc" where
  "absorb s b = s\<lparr>running_loss := running_loss s + fst b,
                  total := total s + int (length (snd b)),
                  correct := correct s + int (length (filter (\<lambda>(p, l). p = l) (snd b)))\<rparr>"

definition tallied :: "int set \<Rightarrow> eval_acc \<Rightarrow> bool" where
  "tallied S s \<longleftrightarrow>
     length (class_correct s) = 10 \<and> length (class_total s) = 10
     \<and> (\<forall>k<10. 0 \<le> class_total s ! k)
     \<and> (\<forall>l\<in>S. 0 < class_total s ! nat l)"

text \<open>
  The trace of a complete epoch of \<^verbatim>\<open>train_model\<close>: the switch to training mode, the
  batch loop, one evaluation, and the log and the printed line of its result.
\<close>

definition epoch_trace :: "world \<Rightarrow> nat \<Rightarrow> effect list" where
  "epoch_trace w e =
     Lib ''model.train'' # windows_trace (int e) 0 (train_stream w e)
     @ fst (evaluate_model (epoch_test_stream w e))
     @ (case snd (evaluate_model (epoch_test_stream w e)) of
          Inl err \<Rightarrow> []
        | Inr test_accuracy \<Rightarrow>
            [WandbLog [(''test_accuracy'', Num test_accuracy)],
             Print [Lit ''Epoch '', Num (of_int (int e + 1)), Lit '' Test Accuracy: '',
                    Num test_accuracy, Lit ''%'']])"

text \<open>
  A trace in which training has not finished: \<^verbatim>\<open>wandb.finish\<close> was not called and
  nothing was logged under \<^verbatim>\<open>test_accuracy\<close>.
\<close>

definition unfinished :: "effect list \<Rightarrow> bool" where
  "unfinished t \<longleftrightarrow>
     Lib ''wandb.finish'' \<notin> set t \<and> (\<forall>a. WandbLog [(''test_accuracy'', a)] \<notin> set t)"

text \<open>
  The preview cell of the CIFAR-10 notebook prints \<^verbatim>\<open>classes[labels[j]]\<close> for the
  first sixteen positions \<open>j\<close>. \<open>label_ok labels j\<close>: position \<open>j\<close> exists in
  the batch and its label is an index of \<^verbatim>\<open>classes\<close> (a negative one counting from
  the end); \<open>class_at labels j\<close> is the position that is read then.
\<close>

definition label_ok :: "int list \<Rightarrow> nat \<Rightarrow> bool" where
  "label_ok labels j \<longleftrightarrow> j < length labels \<and> - 10 \<le> labels ! j \<and> labels ! j < 10"

definition class_at :: "int list \<Rightarrow> nat \<Rightarrow> nat" where
  "class_at labels j = (if 0 \<le> labels ! j then nat (labels ! j) else nat (10 + labels ! j))"

text \<open>
  A world for concrete runs: every module is installed, no GPU, one training batch of
  two samples per epoch, a test set of ten samples in two batches.
\<close>

definition example_world :: world where
  "example_world =
     \<lparr> environ = Map.empty, argv = [],
       module_import = (\<lambda>m. Imported ''1.0''),
       import_after_shell = (\<lambda>c m. Imported ''1.0''),
       platform_system = ''Linux'', has_linux_distribution = False,
       cuda_available = False, device_count = 0,
       wandb_config_epochs = 100, sweep_config_epochs = (\<lambda>run. 50),
       train_stream = (\<lambda>e. [(1 / 2, [(3, 3), (5, 3)])]),
       epoch_test_stream = (\<lambda>e. [[(0, 0), (1, 1), (2, 2), (3, 3), (4, 4)],
                                   [(5, 5), (6, 6), (7, 7), (8, 8), (0, 9)]]),
       test_stream = [[(0, 0), (1, 1), (2, 2), (3, 3), (4, 4)],
                      [(5, 5), (6, 6), (7, 7), (8, 8), (0, 9)]],
       preview_stream = [[6, 9, 9, 4, 1, 1, 2, 7, 8, 3, 4, 7, 7, 2, 9, 9]] \<rparr>"

text \<open>
  The same world with the \<^verbatim>\<open>wandb\<close> package not installed; the shell command of
  \<^verbatim>\<open>check_wandb_installation\<close> installs it.
\<close>

definition no_wandb_world :: world where
  "no_wandb_world =
     example_world\<lparr>module_import :=
       (\<lambda>m. if m = ''wandb'' then Missing ''No module named wandb'' else Imported ''1.0'')\<rparr>"

text \<open>
  The same world with a \<^verbatim>\<open>wandb\<close> package whose import fails with an exception other
  than \<^verbatim>\<open>ImportError\<close>.
\<close>

definition broken_wandb_world :: world where
  "broken_wandb_world =
     example_world\<lparr>module_import :=
       (\<lambda>m. if m = ''wandb'' then Broken ''partially initialized module''
            else Imported ''1.0'')\<rparr>"

section \<open>The names that occur in the notebooks\<close>

text \<open>
  The library functions that the cells and functions of the four notebooks call for their
  effect, and the modules they import, collected from the source. The method calls are
  written with the receiver of the source (\<^verbatim>\<open>plt\<close> is \<^verbatim>\<open>matplotlib.pyplot\<close>).
\<close>

definition library_functions :: "string list" where
  "library_functions =
     [''torch.manual_seed'', ''torch.cuda.manual_seed'', ''torch.cuda.synchronize'',
      ''torch.cuda.empty_cache'', ''torch.nn.DataParallel'',
      ''model.train'', ''model.eval'', ''optimizer.zero_grad'', ''loss.backward'',
      ''optimizer.step'',
      ''plt.figure'', ''plt.imshow'', ''plt.axis'', ''plt.scatter'', ''plt.plot'', ''plt.legend'',
      ''plt.title'', ''plt.setp'', ''plt.tight_layout'', ''plt.show'', ''fig.add_subplot'',
      ''ax.set_title'',
      ''wandb.init'', ''wandb.login'', ''wandb.watch'', ''wandb.sweep'', ''wandb.agent'',
      ''wandb.finish'']"

definition imported_modules :: "string list" where
  "imported_modules =
     [''torch'', ''torch.nn'', ''torch.optim'', ''torchvision'', ''torchvision.transforms'',
      ''matplotlib.pyplot'', ''matplotlib'', ''numpy'', ''pandas'', ''sklearn'', ''wandb'',
      ''sys'', ''platform'', ''time'']"

text \<open>
  \<open>listed\<close> holds of the effects that the notebooks request at all: any printed line
  and any call of \<^verbatim>\<open>wandb.log\<close>, a call of a listed library function, an import of a
  listed module, a dataset construction with the root \<^verbatim>\<open>./data\<close>, one of the two
  data loaders, the shell command \<^verbatim>\<open>pip install wandb -q\<close>, the entry into a
  handler of \<^verbatim>\<open>ImportError\<close>, and the end of a call by an exception.
\<close>

fun listed :: "effect \<Rightarrow> bool" where
  "listed (Print ps) = True"
| "listed (WandbLog kv) = True"
| "listed (Lib f) = (f \<in> set library_functions)"
| "listed (Import m) = (m \<in> set imported_modules)"
| "listed (Download dir train) = (dir = ''./data'')"
| "listed (MkLoader bsize shuf workers)
     = ((bsize = 128 \<and> shuf \<or> bsize = 100 \<and> \<not> shuf) \<and> workers = 2)"
| "listed (Shell c) = (c = ''pip install wandb -q'')"
| "listed (Caught e) = (case e of ImportError msg \<Rightarrow> True | _ \<Rightarrow> False)"
| "listed (Escape f e) = True"

definition only :: "(effect \<Rightarrow> bool) \<Rightarrow> 'a io \<Rightarrow> bool" where
  "only P m \<longleftrightarrow> list_all P (fst m)"

fun is_loader :: "effect \<Rightarrow> bool" where
  "is_loader (MkLoader bsize shuf workers) = True"
| "is_loader ev = False"

fun is_download :: "effect \<Rightarrow> bool" where
  "is_download (Download dir train) = True"
| "is_download ev = False"

fun is_shell :: "effect \<Rightarrow> bool" where
  "is_shell (Shell c) = True"
| "is_shell ev = False"

fun is_import :: "effect \<Rightarrow> bool" where
  "is_import (Import m) = True"
| "is_import ev = False"

fun is_caught :: "effect \<Rightarrow> bool" where
  "is_caught (Caught e) = True"
| "is_caught ev = False"

fun is_escape :: "effect \<Rightarrow> bool" where
  "is_escape (Escape f e) = True"
| "is_escape ev = False"

text \<open>
  \<open>ordinary\<close>: a listed effect that is neither a shell command nor the entry into a
  handler.
\<close>

definition ordinary :: "effect \<Rightarrow> bool" where
  "ordinary ev \<longleftrightarrow> listed ev \<and> \<not> is_shell ev \<and> \<not> is_caught ev"

text \<open>
  The modules of the Python standard library and of PyTorch through which a program
  creates threads, processes or asynchronous tasks itself. \<open>in_module p n\<close>: the name
  \<open>n\<close> is the module \<open>p\<close> or lies inside it.
\<close>

definition concurrency_modules :: "string list" where
  "concurrency_modules =
     [''threading'', ''_thread'', ''multiprocessing'', ''torch.multiprocessing'',
      ''subprocess'', ''os'', ''concurrent'', ''asyncio'']"

definition in_module :: "string \<Rightarrow> string \<Rightarrow> bool" where
  "in_module p n \<longleftrightarrow> n = p \<or> prefix (p @ ''.'') n"

definition concurrency_name :: "string \<Rightarrow> bool" where
  "concurrency_name n \<longleftrightarrow> list_ex (\<lambda>p. in_module p n) concurrency_modules"

text \<open>
  The functions and modules through which a program opens, writes or removes files, or
  talks to the network, itself.
\<close>

definition file_functions :: "string list" where
  "file_functions =
     [''open'', ''torch.save'', ''torch.load'', ''torch.jit.save'', ''plt.savefig'',
      ''fig.savefig'', ''np.save'', ''np.savez'', ''np.savetxt'', ''np.load'', ''wandb.save'',
      ''wandb.log_artifact'']"

definition file_modules :: "string list" where
  "file_modules =
     [''os'', ''io'', ''pathlib'', ''shutil'', ''tempfile'', ''glob'', ''pickle'', ''json'',
      ''csv'', ''zipfile'', ''tarfile'', ''sqlite3'', ''socket'', ''http'', ''urllib'',
      ''requests'']"

definition file_name :: "string \<Rightarrow> bool" where
  "file_name n \<longleftrightarrow> n \<in> set file_functions \<or> list_ex (\<lambda>p. in_module p n) file_modules"

text \<open>
  \<open>escapes_decide r\<close>: every exception that left a function during the run \<open>r\<close>
  is the exception with which the run ended.
\<close>

definition escapes_decide :: "'a io \<Rightarrow> bool" where
  "escapes_decide r \<longleftrightarrow>
     list_all (\<lambda>ev. case ev of Escape f e \<Rightarrow> snd r = Inl e | _ \<Rightarrow> True) (fst r)"

text \<open>
  \<open>imports_decide w r\<close>: every import that the run \<open>r\<close> executed either succeeded,
  or raised the exception with which the run ended, or raised an \<^verbatim>\<open>ImportError\<close>
  that a handler of the run took.
\<close>

definition imports_decide :: "world \<Rightarrow> 'a io \<Rightarrow> bool" where
  "imports_decide w r \<longleftrightarrow>
     list_all (\<lambda>ev. case ev of
                 Import m \<Rightarrow>
                   (case module_import w m of
                      Imported v \<Rightarrow> True
                    | Missing msg \<Rightarrow> snd r = Inl (ImportError msg)
                                       \<or> Caught (ImportError msg) \<in> set (fst r)
                    | Broken msg \<Rightarrow> snd r = Inl (RuntimeError msg))
               | _ \<Rightarrow> True) (fst r)"

section \<open>Properties\<close>

lemma and_then_Inr [simp]: "and_then (Inr v) f = f v"
  by (simp add: and_then_def)

lemma and_then_Inl [simp]: "and_then (Inl e) f = Inl e"
  by (simp add: and_then_def)

subsection \<open>Sequencing and loops\<close>

lemma io_bind_Inr [simp]: "io_bind (t, Inr v) f = (t @ fst (f v), snd (f v))"
  by (simp add: io_bind_def split: prod.splits)

lemma io_bind_Inl [simp]: "io_bind (t, Inl e) f = (t, Inl e)"
  by (simp add: io_bind_def)

lemma io_bind_return [simp]: "io_bind (io_return v) f = f v"
  by (simp add: io_return_def)

lemma io_bind_raise [simp]: "io_bind (io_raise e) f = io_raise e"
  by (simp add: io_raise_def)

lemma io_bind_emit [simp]: "io_bind (emit ev) f = (ev # fst (f ()), snd (f ()))"
  by (simp add: emit_def)

lemma io_seq_emit [simp]: "io_seq (emit ev) m = (ev # fst m, snd m)"
  by (simp add: io_seq_def)

lemma snd_io_bind_Inr:
  "snd (io_bind m f) = Inr v \<longleftrightarrow> (\<exists>x. snd m = Inr x \<and> snd (f x) = Inr v)"
  by (cases m; cases "snd m") (auto simp: io_bind_def split: prod.splits)

lemma snd_io_seq_Inr:
  "snd (io_seq m n) = Inr v \<longleftrightarrow> (\<exists>x. snd m = Inr x) \<and> snd n = Inr v"
  by (auto simp: io_seq_def snd_io_bind_Inr)

lemma fst_io_bind:
  "fst (io_bind m f) = (case snd m of Inl e \<Rightarrow> fst m | Inr x \<Rightarrow> fst m @ fst (f x))"
  by (cases m; cases "snd m") (auto simp: io_bind_def split: prod.splits)

lemma snd_io_return [simp]: "snd (io_return v) = Inr v" and fst_io_return [simp]: "fst (io_return v) = []"
  by (simp_all add: io_return_def)

lemma snd_io_raise [simp]: "snd (io_raise e) = Inl e" and fst_io_raise [simp]: "fst (io_raise e) = []"
  by (simp_all add: io_raise_def)

lemma snd_py_div_Inr: "snd (py_div a b) = Inr v \<longleftrightarrow> b \<noteq> 0 \<and> v = a / b"
  by (auto simp: py_div_def)

lemma for_io_Inr_invariant:
  assumes "snd (for_io body xs s) = Inr s'" and "P s"
    and "\<And>x s s'. x \<in> set xs \<Longrightarrow> P s \<Longrightarrow> snd (body x s) = Inr s' \<Longrightarrow> P s'"
  shows "P s'"
  using assms
proof (induction xs arbitrary: s)
  case Nil
  then show ?case by simp
next
  case (Cons x xs)
  from Cons.prems(1) obtain s1 where s1: "snd (body x s) = Inr s1"
    and rest: "snd (for_io body xs s1) = Inr s'"
    by (auto simp: snd_io_bind_Inr)
  have "P s1"
    by (rule Cons.prems(3) [of x s s1]) (simp_all add: Cons.prems(2) s1)
  then show ?case
    by (rule Cons.IH [OF rest]) (rule Cons.prems(3), simp_all)
qed

lemma fst_io_seq: "fst (io_seq m n) = (case snd m of Inl e \<Rightarrow> fst m | Inr x \<Rightarrow> fst m @ fst n)"
  by (simp add: io_seq_def fst_io_bind)

lemma snd_io_bind: "snd (io_bind m f) = (case snd m of Inl e \<Rightarrow> Inl e | Inr x \<Rightarrow> snd (f x))"
  by (cases m; cases "snd m") (auto simp: io_bind_def split: prod.splits)

lemma snd_io_seq: "snd (io_seq m n) = (case snd m of Inl e \<Rightarrow> Inl e | Inr x \<Rightarrow> snd n)"
  by (simp add: io_seq_def snd_io_bind)

lemma fst_emit [simp]: "fst (emit ev) = [ev]" and snd_emit [simp]: "snd (emit ev) = Inr ()"
  by (simp_all add: emit_def)

lemma io_bind_pair: "io_bind m f = (case snd m of Inl e \<Rightarrow> (fst m, Inl e) | Inr x \<Rightarrow> (fst m @ fst (f x), snd (f x)))"
  by (cases m; cases "snd m") (auto simp: io_bind_def split: prod.splits)

lemma io_seq_pair: "io_seq m n = (case snd m of Inl e \<Rightarrow> (fst m, Inl e) | Inr x \<Rightarrow> (fst m @ fst n, snd n))"
  by (simp add: io_seq_def io_bind_pair)

lemma fst_call:
  "fst (call g name body)
     = (if name \<in> g
        then (case snd body of Inl e \<Rightarrow> fst body @ [Escape name e] | Inr v \<Rightarrow> fst body)
        else [])"
  and snd_call: "snd (call g name body) = (if name \<in> g then snd body else Inl (NameError name))"
  by (cases body; cases "snd body"; simp add: call_def)+

lemma call_returns: "name \<in> g \<Longrightarrow> snd body = Inr v \<Longrightarrow> call g name body = body"
  by (cases body) (simp add: call_def)

lemma fst_resolve [simp]: "fst (resolve g name) = []"
  and snd_resolve: "snd (resolve g name) = (if name \<in> g then Inr () else Inl (NameError name))"
  by (simp_all add: resolve_def)

lemma fst_say [simp]: "fst (say ps) = [Print ps]" and snd_say [simp]: "snd (say ps) = Inr ()"
  by (simp_all add: say_def)

lemma except_ImportError_simps [simp]:
  "except_ImportError (t, Inr v) h = (t, Inr v)"
  "except_ImportError (t, Inl (ImportError msg)) h
     = (t @ Caught (ImportError msg) # fst (h msg), snd (h msg))"
  "except_ImportError (t, Inl IndexError) h = (t, Inl IndexError)"
  "except_ImportError (t, Inl ZeroDivisionError) h = (t, Inl ZeroDivisionError)"
  "except_ImportError (t, Inl StopIteration) h = (t, Inl StopIteration)"
  "except_ImportError (t, Inl (NameError n)) h = (t, Inl (NameError n))"
  "except_ImportError (t, Inl (RuntimeError msg)) h = (t, Inl (RuntimeError msg))"
  "except_ImportError (t, Inl (ValueError msg)) h = (t, Inl (ValueError msg))"
  by (simp_all add: except_ImportError_def split: prod.splits)

lemma block_simps [simp]:
  "block [] = io_return ()"
  "block (m # ms) = io_seq m (block ms)"
  by (simp_all add: block_def)

subsection \<open>\<^verbatim>\<open>CIFAR10Net.forward\<close>\<close>

text \<open>
  Claim C10. For every batch size \<open>N\<close>, \<^verbatim>\<open>CIFAR10Net.forward\<close> maps a tensor of shape
  \<open>(N, 3, 32, 32)\<close> to a tensor of shape \<open>(N, 10)\<close> without raising. Each convolution
  keeps the spatial size, each pooling halves it (32, 16, 8, 4), the flattening
  \<^verbatim>\<open>view(-1, 128 * 4 * 4)\<close> is exact and yields \<open>N\<close> rows of 2048 features, which the
  two linear layers map to 512 and then to 10.
\<close>

theorem forward_shape:
  "conv2d_apply (conv1 CIFAR10Net_init) [N, 3, 32, 32] = Inr [N, 32, 32, 32]
   \<and> conv_stage (conv1 CIFAR10Net_init) (batch_norm1 CIFAR10Net_init) (pool CIFAR10Net_init)
        [N, 3, 32, 32] = Inr [N, 32, 16, 16]
   \<and> conv2d_apply (conv2 CIFAR10Net_init) [N, 32, 16, 16] = Inr [N, 64, 16, 16]
   \<and> conv_stage (conv2 CIFAR10Net_init) (batch_norm2 CIFAR10Net_init) (pool CIFAR10Net_init)
        [N, 32, 16, 16] = Inr [N, 64, 8, 8]
   \<and> conv2d_apply (conv3 CIFAR10Net_init) [N, 64, 8, 8] = Inr [N, 128, 8, 8]
   \<and> conv_stage (conv3 CIFAR10Net_init) (batch_norm3 CIFAR10Net_init) (pool CIFAR10Net_init)
        [N, 64, 8, 8] = Inr [N, 128, 4, 4]
   \<and> view_rows (128 * 4 * 4) [N, 128, 4, 4] = Inr [N, 2048]
   \<and> linear_apply (fc1 CIFAR10Net_init) [N, 2048] = Inr [N, 512]
   \<and> linear_apply (fc2 CIFAR10Net_init) [N, 512] = Inr [N, 10]
   \<and> forward CIFAR10Net_init [N, 3, 32, 32] = Inr [N, 10]"
  by (simp add: forward_def conv_stage_def conv2d_apply_def batchnorm2d_apply_def relu_def
      dropout_def maxpool2d_apply_def view_rows_def linear_apply_def CIFAR10Net_init_def)

text \<open>
  The module of the theorem is in training mode, as constructed. The shapes are the same
  after \<^verbatim>\<open>model.eval()\<close> and after \<^verbatim>\<open>model.train()\<close>.
\<close>

lemma forward_shape_any_mode:
  "forward (set_training mode CIFAR10Net_init) [N, 3, 32, 32] = Inr [N, 10]"
  by (simp add: forward_def conv_stage_def conv2d_apply_def batchnorm2d_apply_def relu_def
      dropout_def maxpool2d_apply_def view_rows_def linear_apply_def CIFAR10Net_init_def
      set_training_def)

text \<open>
  Outside the shapes of the claim the layers do raise: a single image without the batch
  dimension passes the first convolution and is refused by the batch normalisation, and
  a batch with a single value per channel is refused in training mode.
\<close>

lemma forward_unbatched:
  "conv2d_apply (conv1 CIFAR10Net_init) [3, 32, 32] = Inr [32, 32, 32]
   \<and> forward CIFAR10Net_init [3, 32, 32] = Inl (ValueError ''batch_norm'')"
  by (simp add: forward_def conv_stage_def conv2d_apply_def batchnorm2d_apply_def
      CIFAR10Net_init_def)

lemma batchnorm2d_single_value:
  "batchnorm2d_apply \<lparr> num_features = c, training = True \<rparr> [1, c, 1, 1]
     = Inl (ValueError ''batch_norm'')
   \<and> batchnorm2d_apply \<lparr> num_features = c, training = False \<rparr> [1, c, 1, 1]
     = Inr [1, c, 1, 1]"
  by (simp add: batchnorm2d_apply_def)

subsection \<open>\<^verbatim>\<open>evaluate_model\<close>\<close>

lemma hits_map2: "length (filter id (map2 (=) (map fst d) (map snd d))) = length (filter (\<lambda>(p, l). p = l) d)"
  by (induction d) auto

lemma count_sample_counts:
  assumes "snd (count_sample c labels i s) = Inr s'"
  shows "correct s' = correct s \<and> total s' = total s"
  using assms
  by (auto simp: count_sample_def Let_def snd_io_bind_Inr)

lemma eval_batch_counts:
  assumes "snd (eval_batch d s) = Inr s'"
  shows "correct s' = correct s + int (length (filter (\<lambda>(p, l). p = l) d))
         \<and> total s' = total s + int (length d)"
proof -
  let ?s1 = "s\<lparr>total := total s + int (length d),
               correct := correct s + int (length (filter (\<lambda>(p, l). p = l) d))\<rparr>"
  have run: "snd (for_io (count_sample (squeeze (map2 (=) (map fst d) (map snd d))) (map snd d))
               [0..<length d] ?s1) = Inr s'"
    using assms unfolding eval_batch_def Let_def hits_map2 by simp
  have "correct s' = correct ?s1 \<and> total s' = total ?s1"
    by (rule for_io_Inr_invariant [OF run]) (auto dest: count_sample_counts)
  then show ?thesis by simp
qed

lemma eval_loop_counts:
  assumes "snd (for_io eval_batch bs s) = Inr s'"
  shows "correct s' = correct s + int (length (filter (\<lambda>(p, l). p = l) (concat bs)))
         \<and> total s' = total s + int (length (concat bs))"
  using assms
proof (induction bs arbitrary: s)
  case Nil
  then show ?case by simp
next
  case (Cons d bs)
  from Cons.prems obtain s1 where s1: "snd (eval_batch d s) = Inr s1"
    and rest: "snd (for_io eval_batch bs s1) = Inr s'"
    by (auto simp: snd_io_bind_Inr)
  show ?case
    using Cons.IH [OF rest] eval_batch_counts [OF s1] by simp
qed

lemma evaluate_model_value:
  assumes "snd (evaluate_model bs) = Inr v"
  shows "v = 100 * real (length (filter (\<lambda>(p, l). p = l) (concat bs))) / real (length (concat bs))"
    and "concat bs \<noteq> []"
proof -
  from assms obtain s where loop: "snd (for_io eval_batch bs
      \<lparr>correct = 0, total = 0, class_correct = replicate 10 0, class_total = replicate 10 0\<rparr>) = Inr s"
    and div: "snd (py_div (100 * of_int (correct s)) (of_int (total s))) = Inr v"
    by (auto simp: evaluate_model_def snd_io_bind_Inr snd_io_seq_Inr)
  from eval_loop_counts [OF loop]
  have c: "correct s = int (length (filter (\<lambda>(p, l). p = l) (concat bs)))"
    and t: "total s = int (length (concat bs))" by simp_all
  from div show "v = 100 * real (length (filter (\<lambda>(p, l). p = l) (concat bs))) / real (length (concat bs))"
    by (simp add: snd_py_div_Inr c t)
  from div show "concat bs \<noteq> []"
    by (simp add: snd_py_div_Inr t)
qed

lemma list_index_in_range:
  "0 \<le> i \<Longrightarrow> i < int (length xs) \<Longrightarrow> list_index xs i = io_return (nat i)"
  by (simp add: list_index_def)

lemma count_sample_ok:
  assumes "i < length hs" and "0 \<le> labels ! i" and "labels ! i < 10" and "tallied S s"
  shows "\<exists>s'. count_sample (Vector hs) labels i s = io_return s'
               \<and> tallied (insert (labels ! i) S) s'"
proof -
  let ?k = "nat (labels ! i)"
  let ?s' = "s\<lparr>class_correct := (class_correct s)[?k := class_correct s ! ?k + (if hs ! i then 1 else 0)],
               class_total := (class_total s)[?k := class_total s ! ?k + 1]\<rparr>"
  have len: "length (class_correct s) = 10" "length (class_total s) = 10"
    using assms(4) by (simp_all add: tallied_def)
  have k: "?k < 10" using assms(2,3) by simp
  have run: "count_sample (Vector hs) labels i s = io_return ?s'"
    using assms(1-3) len
    by (simp add: count_sample_def Let_def list_index_in_range tensor_index_def)
  have nonneg: "\<forall>j<10. 0 \<le> class_total s ! j"
    and seen: "\<forall>l\<in>S. 0 < class_total s ! nat l"
    using assms(4) by (simp_all add: tallied_def)
  have "tallied (insert (labels ! i) S) ?s'"
    unfolding tallied_def
  proof (intro conjI allI impI ballI)
    show "length (class_correct ?s') = 10" using len by simp
    show "length (class_total ?s') = 10" using len by simp
  next
    fix j :: nat assume "j < 10"
    then show "0 \<le> class_total ?s' ! j"
      using nonneg len k by (cases "j = ?k") (auto simp: nth_list_update)
  next
    fix l assume l: "l \<in> insert (labels ! i) S"
    show "0 < class_total ?s' ! nat l"
    proof (cases "nat l = ?k")
      case True
      have "0 \<le> class_total s ! ?k" using nonneg k by simp
      then show ?thesis using True len k by simp
    next
      case False
      then have "l \<in> S" using l by auto
      then show ?thesis using seen False len by (simp add: nth_list_update)
    qed
  qed
  with run show ?thesis by blast
qed

lemma sample_loop_ok:
  assumes "\<forall>i\<in>set ixs. i < length hs \<and> 0 \<le> labels ! i \<and> labels ! i < 10" and "tallied S s"
  shows "\<exists>s'. for_io (count_sample (Vector hs) labels) ixs s = io_return s'
               \<and> tallied (S \<union> (\<lambda>i. labels ! i) ` set ixs) s'"
  using assms
proof (induction ixs arbitrary: S s)
  case Nil
  then show ?case by auto
next
  case (Cons i ixs)
  have "i < length hs" "0 \<le> labels ! i" "labels ! i < 10" using Cons.prems(1) by simp_all
  from count_sample_ok [OF this Cons.prems(2)]
  obtain s1 where s1: "count_sample (Vector hs) labels i s = io_return s1"
    and t1: "tallied (insert (labels ! i) S) s1" by blast
  have "\<forall>i\<in>set ixs. i < length hs \<and> 0 \<le> labels ! i \<and> labels ! i < 10"
    using Cons.prems(1) by simp
  from Cons.IH [OF this t1]
  obtain s' where "for_io (count_sample (Vector hs) labels) ixs s1 = io_return s'"
    and "tallied (insert (labels ! i) S \<union> (\<lambda>i. labels ! i) ` set ixs) s'" by blast
  then show ?case using s1 by auto
qed

lemma squeeze_Vector: "length xs \<noteq> 1 \<Longrightarrow> squeeze xs = Vector xs"
  by (cases xs; cases "tl xs") (simp_all add: squeeze_def)

lemma eval_batch_ok:
  assumes "length d \<noteq> 1" and "\<forall>x\<in>set d. 0 \<le> snd x \<and> snd x < 10" and "tallied S s"
  shows "\<exists>s'. eval_batch d s = io_return s' \<and> tallied (S \<union> snd ` set d) s'"
proof -
  let ?labels = "map snd d"
  let ?hs = "map2 (=) (map fst d) ?labels"
  let ?s1 = "s\<lparr>total := total s + int (length ?labels),
               correct := correct s + int (length (filter id ?hs))\<rparr>"
  have sq: "squeeze ?hs = Vector ?hs" using assms(1) by (intro squeeze_Vector) simp
  have t1: "tallied S ?s1" using assms(3) by (simp add: tallied_def)
  have idx: "\<forall>i\<in>set [0..<length ?labels]. i < length ?hs \<and> 0 \<le> ?labels ! i \<and> ?labels ! i < 10"
    using assms(2) by simp
  from sample_loop_ok [OF idx t1]
  obtain s' where run: "for_io (count_sample (Vector ?hs) ?labels) [0..<length ?labels] ?s1 = io_return s'"
    and t': "tallied (S \<union> (\<lambda>i. ?labels ! i) ` set [0..<length ?labels]) s'" by blast
  have "(\<lambda>i. ?labels ! i) ` set [0..<length ?labels] = set ?labels"
    by (metis map_nth set_map)
  then have "tallied (S \<union> snd ` set d) s'" using t' by simp
  moreover have "eval_batch d s = io_return s'"
    unfolding eval_batch_def Let_def sq using run by simp
  ultimately show ?thesis by blast
qed

lemma eval_loop_ok:
  assumes "\<forall>d\<in>set bs. length d \<noteq> 1" and "\<forall>x\<in>set (concat bs). 0 \<le> snd x \<and> snd x < 10"
    and "tallied S s"
  shows "\<exists>s'. for_io eval_batch bs s = io_return s' \<and> tallied (S \<union> snd ` set (concat bs)) s'"
  using assms
proof (induction bs arbitrary: S s)
  case Nil
  then show ?case by auto
next
  case (Cons d bs)
  have "length d \<noteq> 1" "\<forall>x\<in>set d. 0 \<le> snd x \<and> snd x < 10" using Cons.prems(1,2) by simp_all
  from eval_batch_ok [OF this Cons.prems(3)]
  obtain s1 where s1: "eval_batch d s = io_return s1" and t1: "tallied (S \<union> snd ` set d) s1"
    by blast
  have "\<forall>d\<in>set bs. length d \<noteq> 1" "\<forall>x\<in>set (concat bs). 0 \<le> snd x \<and> snd x < 10"
    using Cons.prems(1,2) by simp_all
  from Cons.IH [OF this t1]
  obtain s' where "for_io eval_batch bs s1 = io_return s'"
    and "tallied (S \<union> snd ` set d \<union> snd ` set (concat bs)) s'" by blast
  then show ?case using s1 by (auto simp: Un_assoc image_Un)
qed

lemma print_loop_ok:
  assumes "\<forall>k\<in>set ks. class_total s ! k \<noteq> 0"
  shows "snd (for_io (print_class_accuracy s) ks ()) = Inr ()
         \<and> length (fst (for_io (print_class_accuracy s) ks ())) = length ks"
  using assms
  by (induction ks) (simp_all add: print_class_accuracy_def py_div_def fst_io_bind snd_io_bind_Inr)

lemma evaluate_model_defined:
  assumes pre: "concat testloader \<noteq> []
        \<and> (\<forall>k\<in>{0..<10}. k \<in> snd ` set (concat testloader))
        \<and> (\<forall>x\<in>set (concat testloader). 0 \<le> snd x \<and> snd x < 10)
        \<and> (\<forall>d\<in>set testloader. 2 \<le> length d)"
  shows "\<exists>a. snd (evaluate_model testloader) = Inr a \<and> 0 \<le> a \<and> a \<le> 100"
    and "length (fst (evaluate_model testloader)) = 11"
proof -
  let ?s0 = "\<lparr>correct = 0, total = 0, class_correct = replicate 10 0,
              class_total = replicate 10 0\<rparr> :: eval_acc"
  let ?hits = "length (filter (\<lambda>(p, l). p = l) (concat testloader))"
  let ?n = "length (concat testloader)"
  have t0: "tallied {} ?s0" by (simp add: tallied_def)
  have sizes: "\<forall>d\<in>set testloader. length d \<noteq> 1" using pre by fastforce
  have labels: "\<forall>x\<in>set (concat testloader). 0 \<le> snd x \<and> snd x < 10" using pre by blast
  from eval_loop_ok [OF sizes labels t0]
  obtain s where loop: "for_io eval_batch testloader ?s0 = io_return s"
    and ts: "tallied ({} \<union> snd ` set (concat testloader)) s" by blast
  have "snd (for_io eval_batch testloader ?s0) = Inr s" using loop by simp
  from eval_loop_counts [OF this]
  have c: "correct s = int ?hits" and t: "total s = int ?n" by simp_all
  have "\<forall>k\<in>set [0..<10]. class_total s ! k \<noteq> 0"
  proof
    fix k :: nat assume "k \<in> set [0..<10]"
    then have "int k \<in> {0..<10}" by simp
    then have "int k \<in> snd ` set (concat testloader)" using pre by blast
    moreover have "\<forall>l\<in>snd ` set (concat testloader). 0 < class_total s ! nat l"
      using ts unfolding tallied_def by simp
    ultimately have "0 < class_total s ! nat (int k)" by blast
    then show "class_total s ! k \<noteq> 0" by simp
  qed
  from print_loop_ok [OF this]
  have p: "snd (for_io (print_class_accuracy s) [0..<10] ()) = Inr ()"
    and pl: "length (fst (for_io (print_class_accuracy s) [0..<10] ())) = 10" by simp_all
  have n: "?n \<noteq> 0" using pre by simp
  have run: "snd (evaluate_model testloader) = Inr (100 * real ?hits / real ?n)"
    using n by (simp add: evaluate_model_def loop io_seq_def snd_io_bind_Inr p py_div_def c t)
  have "?hits \<le> ?n" by simp
  then have "100 * real ?hits / real ?n \<le> 100" using n by (simp add: field_simps)
  moreover have "0 \<le> 100 * real ?hits / real ?n" by simp
  ultimately show "\<exists>a. snd (evaluate_model testloader) = Inr a \<and> 0 \<le> a \<and> a \<le> 100"
    using run by blast
  show "length (fst (evaluate_model testloader)) = 11"
    using n by (simp add: evaluate_model_def loop io_seq_def fst_io_bind p pl py_div_def c t)
qed

text \<open>
  Claim C8. Whenever \<^verbatim>\<open>evaluate_model\<close> returns, its value is \<open>100 * correct / total\<close>,
  where \<open>correct\<close> counts the samples of the test stream whose predicted class equals
  their label and \<open>total\<close> counts all samples. If the test stream is not empty, every
  label is one of the class indices 0 to 9, every one of the ten classes occurs, and every
  batch holds at least two samples, then no index and no division of the function
  fails: it returns, after the call of \<^verbatim>\<open>model.eval\<close> and ten printed lines, a value
  between 0 and 100.
\<close>

theorem evaluate_model_accuracy:
  "(snd (evaluate_model testloader) = Inr v \<longrightarrow>
      v = 100 * real (length (filter (\<lambda>(p, l). p = l) (concat testloader)))
            / real (length (concat testloader)))
   \<and> (concat testloader \<noteq> []
        \<and> (\<forall>k\<in>{0..<10}. k \<in> snd ` set (concat testloader))
        \<and> (\<forall>x\<in>set (concat testloader). 0 \<le> snd x \<and> snd x < 10)
        \<and> (\<forall>d\<in>set testloader. 2 \<le> length d) \<longrightarrow>
       (\<exists>a. snd (evaluate_model testloader) = Inr a \<and> 0 \<le> a \<and> a \<le> 100)
       \<and> length (fst (evaluate_model testloader)) = 11)"
proof (intro conjI impI)
  assume "snd (evaluate_model testloader) = Inr v"
  then show "v = 100 * real (length (filter (\<lambda>(p, l). p = l) (concat testloader)))
            / real (length (concat testloader))"
    by (rule evaluate_model_value)
next
  assume pre: "concat testloader \<noteq> []
        \<and> (\<forall>k\<in>{0..<10}. k \<in> snd ` set (concat testloader))
        \<and> (\<forall>x\<in>set (concat testloader). 0 \<le> snd x \<and> snd x < 10)
        \<and> (\<forall>d\<in>set testloader. 2 \<le> length d)"
  then show "\<exists>a. snd (evaluate_model testloader) = Inr a \<and> 0 \<le> a \<and> a \<le> 100"
    by (rule evaluate_model_defined(1))
  from pre show "length (fst (evaluate_model testloader)) = 11"
    by (rule evaluate_model_defined(2))
qed

theorem evaluate_model_accuracy_witness:
  "snd (evaluate_model [[(0, 0), (1, 1), (2, 2), (3, 3), (4, 4)],
                        [(5, 5), (6, 6), (7, 7), (8, 8), (0, 9)]]) = Inr 90
   \<and> length (fst (evaluate_model [[(0, 0), (1, 1), (2, 2), (3, 3), (4, 4)],
                        [(5, 5), (6, 6), (7, 7), (8, 8), (0, 9)]])) = 11"
proof -
  let ?tl = "[[(0, 0), (1, 1), (2, 2), (3, 3), (4, 4)],
              [(5, 5), (6, 6), (7, 7), (8, 8), (0, 9)]] :: (int \<times> int) list list"
  have classes: "\<forall>k\<in>{0..<10}. k \<in> snd ` set (concat ?tl)"
  proof
    fix k :: int assume "k \<in> {0..<10}"
    then have "k = 0 \<or> k = 1 \<or> k = 2 \<or> k = 3 \<or> k = 4 \<or> k = 5 \<or> k = 6 \<or> k = 7 \<or> k = 8 \<or> k = 9"
      by simp presburger
    then show "k \<in> snd ` set (concat ?tl)" by auto
  qed
  have pre: "concat ?tl \<noteq> [] \<and> (\<forall>k\<in>{0..<10}. k \<in> snd ` set (concat ?tl))
        \<and> (\<forall>x\<in>set (concat ?tl). 0 \<le> snd x \<and> snd x < 10)
        \<and> (\<forall>d\<in>set ?tl. 2 \<le> length d)"
    using classes by simp
  from evaluate_model_accuracy [of ?tl] pre
  obtain a where a: "snd (evaluate_model ?tl) = Inr a"
    and len: "length (fst (evaluate_model ?tl)) = 11" by blast
  from evaluate_model_accuracy [of ?tl a] a have "a = 90" by simp
  with a len show ?thesis by simp
qed

text \<open>
  Both preconditions are needed: a batch with a single sample makes the squeezed tensor
  zero-dimensional, and a class without samples makes its count zero.
\<close>

lemma evaluate_model_one_sample_batch:
  "snd (evaluate_model [[(3, 3), (5, 3)], [(7, 7)]]) = Inl IndexError"
  by (simp add: evaluate_model_def eval_batch_def count_sample_def Let_def snd_io_seq snd_io_bind
      list_index_def squeeze_def tensor_index_def)

lemma evaluate_model_missing_class:
  "snd (evaluate_model [[(3, 3), (5, 3)]]) = Inl ZeroDivisionError"
  by (simp add: evaluate_model_def eval_batch_def count_sample_def Let_def snd_io_seq snd_io_bind
      list_index_def squeeze_def tensor_index_def print_class_accuracy_def py_div_def upt_rec)

subsection \<open>The batch loop of \<^verbatim>\<open>train_model\<close>\<close>

lemma hits_zip:
  "length (filter (\<lambda>(x, y). x = y) (zip (map fst d) (map snd d))) = length (filter (\<lambda>(p, l). p = l) d)"
  by (induction d) auto

lemma for_io_append: "for_io body (xs @ ys) s = io_bind (for_io body xs s) (for_io body ys)"
proof (induction xs arbitrary: s)
  case Nil
  then show ?case by simp
next
  case (Cons x xs)
  show ?case
    by (cases "body x s"; cases "snd (body x s)")
       (auto simp: Cons.IH io_bind_def split: prod.splits sum.splits)
qed

lemma train_batch_quiet:
  assumes "i mod 100 \<noteq> 99"
  shows "train_batch epoch (i, b) s = (batch_effects, Inr (absorb s b))"
  using assms
  by (cases b) (simp add: train_batch_def Let_def hits_zip batch_effects_def absorb_def io_return_def)

lemma train_batch_report:
  assumes "i mod 100 = 99"
  shows "train_batch epoch (i, b) s =
           (if total (absorb s b) = 0 then (batch_effects, Inl ZeroDivisionError)
            else (batch_effects @
                  [WandbLog [(''epoch'', Num (of_int epoch)),
                             (''loss'', Num (running_loss (absorb s b) / 100)),
                             (''accuracy'', Num (100 * of_int (correct (absorb s b)) / of_int (total (absorb s b))))],
                   Print [Lit ''['', Num (of_int (epoch + 1)), Lit '', '', Num (of_nat (i + 1)),
                          Lit ''] loss: '', Num (running_loss (absorb s b) / 100), Lit '', accuracy: '',
                          Num (100 * of_int (correct (absorb s b)) / of_int (total (absorb s b))), Lit ''%'']],
                  Inr \<lparr>correct = 0, total = 0, running_loss = 0\<rparr>))"
  using assms
  by (cases b) (simp add: train_batch_def Let_def hits_zip batch_effects_def absorb_def
      io_return_def io_raise_def py_div_def io_seq_def emit_def)

lemma foldl_absorb:
  "running_loss (foldl absorb s bs) = running_loss s + sum_list (map fst bs)"
  "total (foldl absorb s bs) = total s + int (length (concat (map snd bs)))"
  "correct (foldl absorb s bs)
     = correct s + int (length (filter (\<lambda>(p, l). p = l) (concat (map snd bs))))"
  by (induction bs arbitrary: s) (simp_all add: absorb_def)

lemma quiet_run:
  assumes "i mod 100 + length bs \<le> 99"
  shows "for_io (train_batch epoch) (enumerate i bs) s
           = (concat (replicate (length bs) batch_effects), Inr (foldl absorb s bs))"
  using assms
proof (induction bs arbitrary: i s)
  case Nil
  then show ?case by (simp add: io_return_def)
next
  case (Cons b bs)
  have q: "i mod 100 \<noteq> 99" using Cons.prems by simp
  have "Suc i mod 100 = Suc (i mod 100)" using q by (simp add: mod_Suc)
  then have "Suc i mod 100 + length bs \<le> 99" using Cons.prems by simp
  from Cons.IH [OF this] show ?case
    by (simp add: train_batch_quiet [OF q])
qed

lemma concat_replicate_snoc: "concat (replicate n xs) @ xs = concat (replicate (Suc n) xs)"
  by (induction n) simp_all

lemma window_run:
  assumes "length w = 100" and "i mod 100 = 0"
  shows "for_io (train_batch epoch) (enumerate i w) \<lparr>correct = 0, total = 0, running_loss = 0\<rparr>
           = (if concat (map snd w) = []
              then (concat (replicate 100 batch_effects), Inl ZeroDivisionError)
              else (concat (replicate 100 batch_effects) @ window_report epoch (i + 99) w,
                    Inr \<lparr>correct = 0, total = 0, running_loss = 0\<rparr>))"
proof -
  let ?z = "\<lparr>correct = 0, total = 0, running_loss = 0\<rparr> :: train_acc"
  have w: "w = butlast w @ [last w]" using assms(1) by (cases w rule: rev_cases) auto
  have len: "length (butlast w) = 99" using assms(1) by simp
  have len': "length w - Suc 0 = 99" using assms(1) by simp
  have en: "enumerate i w = enumerate i (butlast w) @ [(i + 99, last w)]"
    by (subst w) (simp add: enumerate_append_eq len')
  have "i mod 100 + length (butlast w) \<le> 99" using assms(2) len by simp
  from quiet_run [OF this]
  have first: "for_io (train_batch epoch) (enumerate i (butlast w)) ?z
                 = (concat (replicate 99 batch_effects), Inr (foldl absorb ?z (butlast w)))"
    by (simp add: len')
  have "(i + 99) mod 100 = (i mod 100 + 99 mod 100) mod 100" by (rule mod_add_eq [symmetric])
  then have hit: "(i + 99) mod 100 = 99" by (simp add: assms(2))
  have all: "absorb (foldl absorb ?z (butlast w)) (last w) = foldl absorb ?z w"
    by (subst (2) w) simp
  have rep: "concat (replicate 99 batch_effects) @ batch_effects = concat (replicate 100 batch_effects)"
    using concat_replicate_snoc [of 99 batch_effects] by (simp)
  have tot: "total (foldl absorb ?z w) = 0 \<longleftrightarrow> concat (map snd w) = []"
    by (simp add: foldl_absorb)
  show ?thesis
    unfolding en for_io_append first
    by (simp add: train_batch_report [OF hit] all tot foldl_absorb window_report_def Let_def
        io_return_def rep [symmetric])
qed

lemma windows_trace_short:
  assumes "length bs < 100"
  shows "windows_trace epoch k0 bs = concat (replicate (length bs) batch_effects)"
  using assms by (simp add: windows_trace_def)

lemma windows_trace_window:
  assumes "length w = 100"
  shows "windows_trace epoch k0 (w @ rest)
           = concat (replicate 100 batch_effects) @ window_report epoch (100 * k0 + 99) w
             @ windows_trace epoch (Suc k0) rest"
proof -
  have d: "length (w @ rest) div 100 = Suc (length rest div 100)"
    and m: "length (w @ rest) mod 100 = length rest mod 100"
    using assms by simp_all
  have u: "[0..<Suc (length rest div 100)] = 0 # map Suc [0..<length rest div 100]"
    by (simp add: upt_conv_Cons map_Suc_upt del: upt_Suc)
  show ?thesis
    unfolding windows_trace_def d m u
    by (simp add: assms comp_def)
qed

lemma windows_run:
  assumes "length bs div 100 = q"
  shows "prefix (fst (for_io (train_batch epoch) (enumerate (100 * k0) bs)
                       \<lparr>correct = 0, total = 0, running_loss = 0\<rparr>))
                (windows_trace epoch k0 bs)
         \<and> (\<forall>s. snd (for_io (train_batch epoch) (enumerate (100 * k0) bs)
                       \<lparr>correct = 0, total = 0, running_loss = 0\<rparr>) = Inr s \<longrightarrow>
                fst (for_io (train_batch epoch) (enumerate (100 * k0) bs)
                       \<lparr>correct = 0, total = 0, running_loss = 0\<rparr>) = windows_trace epoch k0 bs)
         \<and> ((\<forall>b\<in>set bs. snd b \<noteq> []) \<longrightarrow>
              (\<exists>s. snd (for_io (train_batch epoch) (enumerate (100 * k0) bs)
                       \<lparr>correct = 0, total = 0, running_loss = 0\<rparr>) = Inr s))"
  using assms
proof (induction q arbitrary: bs k0)
  case 0
  then have short: "length bs < 100" by simp
  then have "(100 * k0) mod 100 + length bs \<le> 99" by simp
  from quiet_run [OF this] show ?case
    by (simp add: windows_trace_short [OF short])
next
  case (Suc q)
  let ?z = "\<lparr>correct = 0, total = 0, running_loss = 0\<rparr> :: train_acc"
  let ?w = "take 100 bs" and ?rest = "drop 100 bs"
  have long: "100 \<le> length bs" using Suc.prems by (cases "length bs < 100") simp_all
  have lw: "length ?w = 100" using long by simp
  have bs: "bs = ?w @ ?rest" by simp
  have "length ?rest div 100 = q" using Suc.prems long le_div_geq [of 100 "length bs"] by simp
  note IH = Suc.IH [OF this, of "Suc k0"]
  have en: "enumerate (100 * k0) bs
              = enumerate (100 * k0) ?w @ enumerate (100 * Suc k0) ?rest"
    using long by (subst bs) (simp add: enumerate_append_eq min_absorb2 add.commute del: append_take_drop_id)
  have tr: "windows_trace epoch k0 bs
              = concat (replicate 100 batch_effects) @ window_report epoch (100 * k0 + 99) ?w
                @ windows_trace epoch (Suc k0) ?rest"
    by (subst bs) (rule windows_trace_window [OF lw])
  have wr: "for_io (train_batch epoch) (enumerate (100 * k0) ?w) ?z
           = (if concat (map snd ?w) = []
              then (concat (replicate 100 batch_effects), Inl ZeroDivisionError)
              else (concat (replicate 100 batch_effects) @ window_report epoch (100 * k0 + 99) ?w,
                    Inr ?z))"
    by (rule window_run [OF lw]) simp
  show ?case
  proof (cases "concat (map snd ?w) = []")
    case True
    have wr': "for_io (train_batch epoch) (enumerate (100 * k0) ?w) ?z
                 = (concat (replicate 100 batch_effects), Inl ZeroDivisionError)"
      by (simp only: wr True if_True refl)
    have "?w \<noteq> []" using lw by auto
    then obtain b where "b \<in> set ?w" by (cases ?w) auto
    then have "b \<in> set bs" "snd b = []" using True by (auto dest: in_set_takeD)
    then have neg: "\<not> (\<forall>b\<in>set bs. snd b \<noteq> [])" by blast
    show ?thesis
      unfolding en for_io_append wr' tr using neg by simp
  next
    case False
    have wr': "for_io (train_batch epoch) (enumerate (100 * k0) ?w) ?z
                 = (concat (replicate 100 batch_effects) @ window_report epoch (100 * k0 + 99) ?w,
                    Inr ?z)"
      by (simp only: wr False if_False refl)
    have sub: "(\<forall>b\<in>set bs. snd b \<noteq> []) \<Longrightarrow> (\<forall>b\<in>set ?rest. snd b \<noteq> [])"
      by (auto dest: in_set_dropD)
    show ?thesis
      unfolding en for_io_append wr' tr using IH sub
      by (simp add: fst_io_bind snd_io_bind_Inr split: sum.splits)
  qed
qed

lemma epoch_loop_trace:
  "prefix (fst (for_io (train_batch epoch) (enumerate 0 bs)
                  \<lparr>correct = 0, total = 0, running_loss = 0\<rparr>))
          (windows_trace epoch 0 bs)
   \<and> (\<forall>s. snd (for_io (train_batch epoch) (enumerate 0 bs)
                  \<lparr>correct = 0, total = 0, running_loss = 0\<rparr>) = Inr s \<longrightarrow>
          fst (for_io (train_batch epoch) (enumerate 0 bs)
                  \<lparr>correct = 0, total = 0, running_loss = 0\<rparr>) = windows_trace epoch 0 bs)
   \<and> ((\<forall>b\<in>set bs. snd b \<noteq> []) \<longrightarrow>
        (\<exists>s. snd (for_io (train_batch epoch) (enumerate 0 bs)
                  \<lparr>correct = 0, total = 0, running_loss = 0\<rparr>) = Inr s))"
  using windows_run [of bs "length bs div 100" epoch 0] by simp

text \<open>
  Claim C9. The batch loop of an epoch of \<^verbatim>\<open>train_model\<close>, started with index 0 and
  the three running variables at zero, leaves a trace that is an initial part of
  \<open>windows_trace epoch 0 bs\<close>, and exactly that trace when it completes: the metrics
  \<^verbatim>\<open>epoch\<close>, \<^verbatim>\<open>loss\<close> and \<^verbatim>\<open>accuracy\<close> are logged right after the batches with
  \<open>i mod 100 = 99\<close> and nowhere else, each log is computed from exactly the 100 batches
  that end there, and the batches after the last complete group of 100 are followed by
  no log. The loop completes whenever no batch is empty.
\<close>

theorem train_epoch_logging:
  "prefix (fst (for_io (train_batch epoch) (enumerate 0 bs)
                  \<lparr>correct = 0, total = 0, running_loss = 0\<rparr>))
          (windows_trace epoch 0 bs)
   \<and> (\<forall>s. snd (for_io (train_batch epoch) (enumerate 0 bs)
                  \<lparr>correct = 0, total = 0, running_loss = 0\<rparr>) = Inr s \<longrightarrow>
          fst (for_io (train_batch epoch) (enumerate 0 bs)
                  \<lparr>correct = 0, total = 0, running_loss = 0\<rparr>) = windows_trace epoch 0 bs)
   \<and> ((\<forall>b\<in>set bs. snd b \<noteq> []) \<longrightarrow>
        (\<exists>s. snd (for_io (train_batch epoch) (enumerate 0 bs)
                  \<lparr>correct = 0, total = 0, running_loss = 0\<rparr>) = Inr s))"
  by (rule epoch_loop_trace)

theorem train_epoch_logging_witness:
  "fst (for_io (train_batch 0) (enumerate 0 (replicate 100 (1 / 2, [(1, 1), (0, 1)]) @ [(7, [(0, 0)])]))
          \<lparr>correct = 0, total = 0, running_loss = 0\<rparr>)
     = concat (replicate 100 batch_effects)
       @ [WandbLog [(''epoch'', Num 0), (''loss'', Num (1 / 2)), (''accuracy'', Num 50)],
          Print [Lit ''['', Num 1, Lit '', '', Num 100, Lit ''] loss: '', Num (1 / 2),
                 Lit '', accuracy: '', Num 50, Lit ''%'']]
       @ batch_effects"
proof -
  let ?bs = "replicate 100 (1 / 2, [(1, 1), (0, 1)]) @ [(7, [(0, 0)])] :: (real \<times> (int \<times> int) list) list"
  let ?r = "for_io (train_batch 0) (enumerate 0 ?bs) \<lparr>correct = 0, total = 0, running_loss = 0\<rparr>"
  have "\<forall>b\<in>set ?bs. snd b \<noteq> []" by simp
  with train_epoch_logging [of 0 ?bs] obtain s where "snd ?r = Inr s" by blast
  with train_epoch_logging [of 0 ?bs] have "fst ?r = windows_trace 0 0 ?bs" by blast
  moreover have "windows_trace 0 0 ?bs
     = concat (replicate 100 batch_effects)
       @ [WandbLog [(''epoch'', Num 0), (''loss'', Num (1 / 2)), (''accuracy'', Num 50)],
          Print [Lit ''['', Num 1, Lit '', '', Num 100, Lit ''] loss: '', Num (1 / 2),
                 Lit '', accuracy: '', Num 50, Lit ''%'']]
       @ batch_effects"
    by (simp add: windows_trace_def window_report_def Let_def sum_list_replicate
        filter_concat length_concat comp_def)
  ultimately show ?thesis by simp
qed

subsection \<open>The effects that occur in the notebooks\<close>

named_theorems only_intros

lemma only_return [only_intros]: "only P (io_return v)"
  by (simp add: only_def)

lemma only_raise [only_intros]: "only P (io_raise e)"
  by (simp add: only_def)

lemma only_emit [only_intros]: "P ev \<Longrightarrow> only P (emit ev)"
  by (simp add: only_def)

lemma only_say [only_intros]: "P (Print ps) \<Longrightarrow> only P (say ps)"
  by (simp add: only_def)

lemma only_bind [only_intros]: "only P m \<Longrightarrow> (\<And>x. only P (f x)) \<Longrightarrow> only P (io_bind m f)"
  by (simp add: only_def fst_io_bind split: sum.splits)

lemma only_seq [only_intros]: "only P m \<Longrightarrow> only P n \<Longrightarrow> only P (io_seq m n)"
  by (simp add: io_seq_def only_bind)

lemma only_for [only_intros]: "(\<And>x s. only P (body x s)) \<Longrightarrow> only P (for_io body xs s)"
  by (induction xs arbitrary: s) (simp_all add: only_intros)

lemma only_block_Nil [only_intros]: "only P (block [])"
  by (simp add: only_intros)

lemma only_block_Cons [only_intros]: "only P m \<Longrightarrow> only P (block ms) \<Longrightarrow> only P (block (m # ms))"
  by (simp add: only_intros)

lemma only_call [only_intros]:
  "only P body \<Longrightarrow> (\<And>e. P (Escape name e)) \<Longrightarrow> only P (call g name body)"
  by (cases "snd body") (simp_all add: only_def fst_call)

lemma only_resolve [only_intros]: "only P (resolve g name)"
  by (simp add: only_def)

lemma only_except [only_intros]:
  "only P body \<Longrightarrow> (\<And>msg. only P (handler msg)) \<Longrightarrow> (\<And>msg. P (Caught (ImportError msg)))
     \<Longrightarrow> only P (except_ImportError body handler)"
  by (cases body; cases "snd body"; cases "projl (snd body)") (auto simp: only_def)

lemma only_py_div [only_intros]: "only P (py_div a b)"
  by (simp add: py_div_def only_intros)

lemma only_list_index [only_intros]: "only P (list_index xs i)"
  by (simp add: list_index_def only_intros)

lemma only_tensor_index [only_intros]: "only P (tensor_index c i)"
  by (simp add: tensor_index_def only_intros split: tensor.splits)

lemma only_import_module [only_intros]: "P (Import m) \<Longrightarrow> only P (import_module w m)"
  unfolding import_module_def
  by (cases "module_import w m") (simp_all add: only_def)

lemma only_import_modules [only_intros]:
  "(\<And>m. m \<in> set ms \<Longrightarrow> P (Import m)) \<Longrightarrow> only P (import_modules w ms)"
  unfolding import_modules_def
  by (induction ms) (simp_all add: only_intros)

lemma only_if [only_intros]: "only P m \<Longrightarrow> only P n \<Longrightarrow> only P (if b then m else n)"
  by simp

lemma only_case_prod [only_intros]: "(\<And>a b. only P (f a b)) \<Longrightarrow> only P (case p of (a, b) \<Rightarrow> f a b)"
  by (cases p) simp

lemma only_case_list [only_intros]:
  "only P m \<Longrightarrow> (\<And>x xs. only P (f x xs)) \<Longrightarrow> only P (case l of [] \<Rightarrow> m | x # xs \<Rightarrow> f x xs)"
  by (cases l) simp_all

lemma only_let [only_intros]: "only P (f v) \<Longrightarrow> only P (Let v f)"
  by simp

lemma only_mono: "only P m \<Longrightarrow> (\<And>ev. P ev \<Longrightarrow> Q ev) \<Longrightarrow> only Q m"
  by (auto simp: only_def list_all_iff)

lemma ordinary_simps [simp]:
  "ordinary (Print ps)"
  "ordinary (WandbLog kv)"
  "ordinary (Escape fn e)"
  "ordinary (Lib f) \<longleftrightarrow> f \<in> set library_functions"
  "ordinary (Import m) \<longleftrightarrow> m \<in> set imported_modules"
  "ordinary (Download dir train) \<longleftrightarrow> dir = ''./data''"
  "ordinary (MkLoader bsize shuf workers)
     \<longleftrightarrow> (bsize = 128 \<and> shuf \<or> bsize = 100 \<and> \<not> shuf) \<and> workers = 2"
  "\<not> ordinary (Shell c)"
  "\<not> ordinary (Caught e)"
  by (simp_all add: ordinary_def)

lemma only_evaluate_model: "only ordinary (evaluate_model ts)"
  unfolding evaluate_model_def eval_batch_def count_sample_def print_class_accuracy_def
  by (intro only_intros) (simp_all add: library_functions_def)

lemma only_train_model: "only ordinary (train_model g w epochs)"
  unfolding train_model_def train_epoch_def train_batch_def
  by (intro only_intros only_evaluate_model) (simp_all add: library_functions_def)

lemma only_visualize_predictions: "only ordinary (visualize_predictions g w n)"
  unfolding visualize_predictions_def show_prediction_def imshow_def
  by (intro only_intros) (simp_all add: library_functions_def)

lemma only_sweep_train_model: "only ordinary (sweep_train_model n)"
  unfolding sweep_train_model_def fit_step_def
  by (intro only_intros) (simp_all add: library_functions_def)

lemma only_cifar_cells:
  "only ordinary (cifar_cell_setup w g)"
  "only ordinary (cifar_cell_data w g)"
  "only ordinary (cifar_cell_preview w g)"
  "only ordinary (cifar_cell_model w g)"
  "only ordinary (cifar_cell_train w g)"
  "only ordinary (cifar_cell_evaluate w g)"
  "only ordinary (cifar_cell_predict w g)"
  unfolding cifar_cell_setup_def cifar_cell_data_def cifar_cell_preview_def cifar_cell_model_def
    cifar_cell_train_def cifar_cell_evaluate_def cifar_cell_predict_def imshow_def
  by (intro only_intros only_evaluate_model only_train_model only_visualize_predictions;
      auto simp: library_functions_def imported_modules_def)+

lemma only_wandb_cells:
  "only listed (wandb_cell_check w g)"
  "only ordinary (wandb_cell_login w g)"
  "only ordinary (wandb_cell_first_experiment w g)"
  "only ordinary (wandb_cell_tracking w g)"
  "only ordinary (wandb_cell_sweep w g)"
  unfolding wandb_cell_check_def wandb_cell_login_def wandb_cell_first_experiment_def
    wandb_cell_tracking_def wandb_cell_sweep_def check_wandb_installation_def fit_step_def
  by (intro only_intros only_sweep_train_model;
      auto simp: library_functions_def imported_modules_def)+

lemma only_gpu_cells:
  "only ordinary (gpu_cell_check w g)"
  "only ordinary (gpu_cell_operations w g)"
  "only ordinary (gpu_cell_benchmark w g)"
  "only ordinary (gpu_cell_memory w g)"
  "only ordinary (gpu_cell_multi w g)"
  unfolding gpu_cell_check_def gpu_cell_operations_def gpu_cell_benchmark_def gpu_cell_memory_def
    gpu_cell_multi_def check_gpu_availability_def demonstrate_gpu_operations_def
    benchmark_operations_def benchmark_size_def demonstrate_memory_management_def
    check_multi_gpu_def
  by (intro only_intros; auto simp: library_functions_def imported_modules_def)+

lemma only_setup_cells:
  "only ordinary (setup_cell_os w g)"
  "only ordinary (setup_cell_conda w g)"
  "only ordinary (setup_cell_environment w g)"
  "only ordinary (setup_cell_packages w g)"
  "only listed (setup_cell_verify w g)"
  "only ordinary (setup_cell_troubleshooting w g)"
  unfolding setup_cell_os_def setup_cell_conda_def setup_cell_environment_def
    setup_cell_packages_def setup_cell_verify_def setup_cell_troubleshooting_def
    show_conda_instructions_def show_environment_setup_def show_package_installation_def
    verify_setup_def show_troubleshooting_def
  by (intro only_intros; auto simp: library_functions_def imported_modules_def)+

lemma only_notebooks:
  assumes "nb \<in> set notebooks" and "c \<in> set nb"
  shows "only listed (c w g)"
proof -
  have up: "only listed m" if "only ordinary m" for m :: "globals io"
    using that by (rule only_mono) (simp add: ordinary_def)
  have "only listed (c w g)"
    if "c \<in> {cifar_cell_setup, cifar_cell_data, cifar_cell_preview, cifar_cell_model,
                cifar_cell_train, cifar_cell_evaluate, cifar_cell_predict,
                wandb_cell_check, wandb_cell_login, wandb_cell_first_experiment,
                wandb_cell_tracking, wandb_cell_sweep,
                gpu_cell_check, gpu_cell_operations, gpu_cell_benchmark, gpu_cell_memory,
                gpu_cell_multi,
                setup_cell_os, setup_cell_conda, setup_cell_environment, setup_cell_packages,
                setup_cell_verify, setup_cell_troubleshooting}"
    using that only_cifar_cells [of w g, THEN up] only_wandb_cells(1) [of w g]
      only_wandb_cells(2-5) [of w g, THEN up] only_gpu_cells [of w g, THEN up]
      only_setup_cells(1-4) [of w g, THEN up] only_setup_cells(5) [of w g]
      only_setup_cells(6) [of w g, THEN up]
    by blast
  then show ?thesis
    using assms
    by (auto simp: notebooks_def interactive_cifar10_def interactive_wandb_tutorial_def
        interactive_pytorch_gpu_def interactive_local_setup_def)
qed

text \<open>
  Where no cell runs a shell command, the host stays as it is, and the run is the plain
  sequence of the cells.
\<close>

lemma fold_host_after_ordinary: "list_all ordinary t \<Longrightarrow> fold host_after t w = w"
proof (induction t)
  case Nil
  then show ?case by simp
next
  case (Cons ev t)
  then show ?case by (cases ev) simp_all
qed

lemma run_from_ordinary:
  assumes "\<And>c w g. c \<in> set cs \<Longrightarrow> only ordinary (c w g)"
  shows "run_from cs w g = for_io (\<lambda>c. c w) cs g"
  using assms
proof (induction cs arbitrary: g)
  case Nil
  then show ?case by simp
next
  case (Cons c cs)
  have "fold host_after (fst (c w g)) w = w"
    using Cons.prems [of c w g] by (simp add: only_def fold_host_after_ordinary)
  moreover have "run_from cs w = for_io (\<lambda>c. c w) cs"
    by (rule ext, rule Cons.IH) (simp add: Cons.prems)
  ultimately show ?case by simp
qed

lemma run_cells_cifar:
  "run_cells interactive_cifar10 w = for_io (\<lambda>c. c w) interactive_cifar10 {}"
  unfolding run_cells_def
  by (rule run_from_ordinary) (auto simp: interactive_cifar10_def only_cifar_cells)

subsection \<open>\<^verbatim>\<open>train_model\<close> and the cells of the CIFAR-10 notebook\<close>

lemma unfinished_simps [simp]:
  "unfinished []"
  "unfinished (t @ t') \<longleftrightarrow> unfinished t \<and> unfinished t'"
  "unfinished (Print ps # t) \<longleftrightarrow> unfinished t"
  "unfinished (Download r b # t) \<longleftrightarrow> unfinished t"
  "unfinished (MkLoader n b m # t) \<longleftrightarrow> unfinished t"
  "unfinished (Shell c # t) \<longleftrightarrow> unfinished t"
  "unfinished (Import md # t) \<longleftrightarrow> unfinished t"
  "unfinished (Caught e # t) \<longleftrightarrow> unfinished t"
  "unfinished (Escape f e # t) \<longleftrightarrow> unfinished t"
  "unfinished (Lib f # t) \<longleftrightarrow> f \<noteq> ''wandb.finish'' \<and> unfinished t"
  by (auto simp: unfinished_def)

lemma unfinished_prefix: "prefix t t' \<Longrightarrow> unfinished t' \<Longrightarrow> unfinished t"
  by (auto simp: prefix_def)

lemma unfinished_batch_effects: "unfinished (concat (replicate n batch_effects))"
  by (induction n) (simp_all add: batch_effects_def)

lemma unfinished_window_report: "unfinished (window_report epoch i win)"
  by (simp add: window_report_def Let_def unfinished_def)

lemma unfinished_windows_trace: "unfinished (windows_trace epoch k0 bs)"
proof -
  have "unfinished (concat (map f ks))" if "\<And>k. unfinished (f k)" for f :: "nat \<Rightarrow> effect list" and ks
    using that by (induction ks) simp_all
  then show ?thesis
    by (simp add: windows_trace_def unfinished_batch_effects unfinished_window_report)
qed

lemma snd_call_undefined: "name \<notin> g \<Longrightarrow> call g name body = io_raise (NameError name)"
  by (simp add: call_def)

lemma train_epoch_undefined:
  assumes "''evaluate_model'' \<notin> g"
  shows "\<exists>e. snd (train_epoch g w epoch u) = Inl e" and "unfinished (fst (train_epoch g w epoch u))"
proof -
  let ?loop = "for_io (train_batch epoch) (enumerate 0 (train_stream w (nat epoch)))
                 \<lparr>correct = 0, total = 0, running_loss = 0\<rparr>"
  have q: "unfinished (fst ?loop)"
    using epoch_loop_trace [of epoch "train_stream w (nat epoch)"] unfinished_windows_trace
    by (blast intro: unfinished_prefix)
  show "\<exists>e. snd (train_epoch g w epoch u) = Inl e"
    by (cases "snd ?loop")
       (simp_all add: train_epoch_def snd_io_seq snd_io_bind snd_call_undefined [OF assms])
  show "unfinished (fst (train_epoch g w epoch u))"
    using q
    by (cases "snd ?loop")
       (simp_all add: train_epoch_def fst_io_seq snd_io_seq snd_call_undefined [OF assms] fst_io_bind)
qed

lemma py_range_pos: "0 < n \<Longrightarrow> \<exists>rest. py_range n = 0 # rest"
  by (cases "nat n") (simp_all add: py_range_def upt_conv_Cons del: upt_Suc)

lemma train_model_undefined:
  assumes "''evaluate_model'' \<notin> g" and "0 < epochs"
  shows "\<exists>e. snd (train_model g w epochs) = Inl e" and "unfinished (fst (train_model g w epochs))"
proof -
  from py_range_pos [OF assms(2)] obtain rest where r: "py_range epochs = 0 # rest" by blast
  from train_epoch_undefined [OF assms(1), of w 0 "()"]
  obtain e where e: "snd (train_epoch g w 0 ()) = Inl e"
    and q: "unfinished (fst (train_epoch g w 0 ()))" by blast
  show "\<exists>e. snd (train_model g w epochs) = Inl e"
    by (simp add: train_model_def r snd_io_seq snd_io_bind e)
  show "unfinished (fst (train_model g w epochs))"
    by (simp add: train_model_def r fst_io_seq snd_io_bind fst_io_bind e q)
qed

lemma cifar_cell_train_raises:
  assumes "''evaluate_model'' \<notin> g"
  shows "\<exists>e. snd (cifar_cell_train w g) = Inl e" and "unfinished (fst (cifar_cell_train w g))"
proof -
  let ?g = "insert ''train_model'' g"
  have g: "''evaluate_model'' \<notin> ?g" using assms by simp
  from train_model_undefined [OF g, of 10 w]
  obtain e where e: "snd (train_model ?g w 10) = Inl e"
    and q: "unfinished (fst (train_model ?g w 10))" by auto
  show "\<exists>e. snd (cifar_cell_train w g) = Inl e"
    by (simp add: cifar_cell_train_def Let_def snd_call snd_io_seq e)
  show "unfinished (fst (cifar_cell_train w g))"
    by (simp add: cifar_cell_train_def Let_def fst_call snd_call fst_io_seq snd_io_seq e q)
qed

lemma for_io_silent:
  assumes "\<And>x s. fst (body x s) = []"
  shows "fst (for_io body xs s) = []"
  by (induction xs arbitrary: s) (simp_all add: fst_io_bind assms split: sum.splits)

lemma fst_list_index [simp]: "fst (list_index xs i) = []"
  by (simp add: list_index_def)

lemma unfinished_import_modules [simp]: "unfinished (fst (import_modules w ms))"
  unfolding import_modules_def
  by (induction ms)
     (simp_all add: import_module_def fst_io_bind fst_io_seq split: sum.splits import_result.splits)

lemma cifar_cell_setup_keeps:
  "unfinished (fst (cifar_cell_setup w g))"
  "snd (cifar_cell_setup w g) = Inr g' \<Longrightarrow> g' = g"
  by (auto simp: cifar_cell_setup_def fst_io_seq snd_io_seq split: sum.splits if_splits)

lemma cifar_cell_data_keeps:
  "unfinished (fst (cifar_cell_data w g))"
  "snd (cifar_cell_data w g) = Inr g' \<Longrightarrow> g' = g"
  by (auto simp: cifar_cell_data_def fst_io_seq snd_io_seq)

lemma cifar_cell_preview_keeps:
  "unfinished (fst (cifar_cell_preview w g))"
  "snd (cifar_cell_preview w g) = Inr g' \<Longrightarrow> g' = insert ''imshow'' g"
proof -
  have silent: "fst (for_io (\<lambda>j names.
                     io_bind (list_index labels j) (\<lambda>k.
                     io_bind (list_index classes (labels ! k)) (\<lambda>c.
                     io_return (names @ [Str (classes ! c)])))) js ns) = []"
    for labels :: "int list" and js ns
    by (rule for_io_silent) (simp add: fst_io_bind split: sum.splits)
  show "unfinished (fst (cifar_cell_preview w g))"
    by (auto simp: cifar_cell_preview_def Let_def fst_io_seq snd_io_seq fst_io_bind snd_io_bind
        fst_call snd_call imshow_def silent split: sum.splits list.splits)
  show "snd (cifar_cell_preview w g) = Inr g' \<Longrightarrow> g' = insert ''imshow'' g"
    by (auto simp: cifar_cell_preview_def Let_def snd_io_seq snd_io_bind snd_call imshow_def
        split: sum.splits list.splits)
qed

lemma cifar_cell_model_keeps:
  "unfinished (fst (cifar_cell_model w g))"
  "snd (cifar_cell_model w g) = Inr g' \<Longrightarrow> g' = insert ''CIFAR10Net'' g"
  by (auto simp: cifar_cell_model_def Let_def fst_io_seq snd_io_seq fst_call snd_call)

lemma cells_keep:
  assumes "\<And>c g. c \<in> set cs \<Longrightarrow> P g \<Longrightarrow>
             unfinished (fst (c w g)) \<and> (\<forall>g'. snd (c w g) = Inr g' \<longrightarrow> P g')"
    and "P g"
  shows "unfinished (fst (for_io (\<lambda>c. c w) cs g))
         \<and> (\<forall>g'. snd (for_io (\<lambda>c. c w) cs g) = Inr g' \<longrightarrow> P g')"
  using assms
proof (induction cs arbitrary: g)
  case Nil
  then show ?case by simp
next
  case (Cons c cs)
  have c: "unfinished (fst (c w g))" "\<And>g'. snd (c w g) = Inr g' \<Longrightarrow> P g'"
    using Cons.prems(1) [of c g] Cons.prems(2) by simp_all
  show ?case
  proof (cases "snd (c w g)")
    case (Inl e)
    then show ?thesis using c(1) by (simp add: fst_io_bind snd_io_bind)
  next
    case (Inr g1)
    have "unfinished (fst (for_io (\<lambda>c. c w) cs g1))
          \<and> (\<forall>g'. snd (for_io (\<lambda>c. c w) cs g1) = Inr g' \<longrightarrow> P g')"
      by (rule Cons.IH) (use Cons.prems(1) c(2) Inr in auto)
    then show ?thesis using c(1) Inr by (simp add: fst_io_bind snd_io_bind)
  qed
qed

text \<open>
  Claim C5. Run from top to bottom, the CIFAR-10 notebook never gets past its training
  cell: that cell calls \<^verbatim>\<open>train_model()\<close> while \<^verbatim>\<open>evaluate_model\<close> is defined only by
  the cell after it, so the call at the end of the first epoch raises. Whatever the
  libraries return, the run ends with an exception, \<^verbatim>\<open>wandb.finish\<close> is never called and
  nothing is logged under \<^verbatim>\<open>test_accuracy\<close>.
\<close>

theorem interactive_cifar10_stops_in_training:
  "(\<exists>e. snd (run_cells interactive_cifar10 w) = Inl e)
   \<and> Lib ''wandb.finish'' \<notin> set (fst (run_cells interactive_cifar10 w))
   \<and> (\<nexists>a. WandbLog [(''test_accuracy'', a)] \<in> set (fst (run_cells interactive_cifar10 w)))"
proof -
  let ?before = "for_io (\<lambda>c. c w)
                   [cifar_cell_setup, cifar_cell_data, cifar_cell_preview, cifar_cell_model] {}"
  let ?after = "for_io (\<lambda>c. c w) [cifar_cell_evaluate, cifar_cell_predict]"
  have "run_cells interactive_cifar10 w
          = for_io (\<lambda>c. c w)
              ([cifar_cell_setup, cifar_cell_data, cifar_cell_preview, cifar_cell_model]
               @ [cifar_cell_train, cifar_cell_evaluate, cifar_cell_predict]) {}"
    unfolding run_cells_cifar by (simp add: interactive_cifar10_def)
  also have "\<dots> = io_bind ?before
                      (for_io (\<lambda>c. c w) [cifar_cell_train, cifar_cell_evaluate, cifar_cell_predict])"
    by (rule for_io_append)
  also have "for_io (\<lambda>c. c w) [cifar_cell_train, cifar_cell_evaluate, cifar_cell_predict]
               = (\<lambda>g. io_bind (cifar_cell_train w g) ?after)"
    by (rule ext) simp
  finally have run: "run_cells interactive_cifar10 w
                       = io_bind ?before (\<lambda>g. io_bind (cifar_cell_train w g) ?after)" .
  have before: "unfinished (fst ?before)
                \<and> (\<forall>g. snd ?before = Inr g \<longrightarrow> ''evaluate_model'' \<notin> g)"
  proof (rule cells_keep)
    show "''evaluate_model'' \<notin> ({} :: globals)" by simp
  next
    fix c :: cell and g :: globals
    assume "c \<in> set [cifar_cell_setup, cifar_cell_data, cifar_cell_preview, cifar_cell_model]"
      and "''evaluate_model'' \<notin> g"
    then show "unfinished (fst (c w g))
               \<and> (\<forall>g'. snd (c w g) = Inr g' \<longrightarrow> ''evaluate_model'' \<notin> g')"
      using cifar_cell_setup_keeps [of w g] cifar_cell_data_keeps [of w g]
        cifar_cell_preview_keeps [of w g] cifar_cell_model_keeps [of w g]
      by auto
  qed
  have "(\<exists>e. snd (run_cells interactive_cifar10 w) = Inl e)
        \<and> unfinished (fst (run_cells interactive_cifar10 w))"
  proof (cases "snd ?before")
    case (Inl e)
    then show ?thesis using before by (simp add: run fst_io_bind snd_io_bind)
  next
    case (Inr g)
    then have "''evaluate_model'' \<notin> g" using before by simp
    from cifar_cell_train_raises [OF this, of w]
    obtain e where "snd (cifar_cell_train w g) = Inl e"
      and "unfinished (fst (cifar_cell_train w g))" by blast
    then show ?thesis using before Inr by (simp add: run fst_io_bind snd_io_bind)
  qed
  then show ?thesis by (simp add: unfinished_def)
qed

lemma train_epoch_completes:
  assumes "''evaluate_model'' \<in> g"
    and "\<forall>b\<in>set (train_stream w e). snd b \<noteq> []"
    and "snd (evaluate_model (epoch_test_stream w e)) = Inr a"
  shows "train_epoch g w (int e) () = (epoch_trace w e, Inr ())"
proof -
  let ?loop = "for_io (train_batch (int e)) (enumerate 0 (train_stream w e))
                 \<lparr>correct = 0, total = 0, running_loss = 0\<rparr>"
  from epoch_loop_trace [of "int e" "train_stream w e"] assms(2)
  obtain s where s: "snd ?loop = Inr s" by blast
  with epoch_loop_trace [of "int e" "train_stream w e"]
  have t: "fst ?loop = windows_trace (int e) 0 (train_stream w e)" by blast
  have "fst (train_epoch g w (int e) ()) = epoch_trace w e"
    by (simp add: train_epoch_def epoch_trace_def fst_io_seq snd_io_seq fst_io_bind snd_io_bind
        fst_call snd_call assms(1,3) s t)
  moreover have "snd (train_epoch g w (int e) ()) = Inr ()"
    by (simp add: train_epoch_def snd_io_seq snd_io_bind snd_call assms(1,3) s)
  ultimately show ?thesis by (simp add: prod_eq_iff)
qed

lemma epochs_complete:
  assumes "''evaluate_model'' \<in> g"
    and "\<forall>e<n. \<forall>b\<in>set (train_stream w e). snd b \<noteq> []"
    and "\<forall>e<n. \<exists>a. snd (evaluate_model (epoch_test_stream w e)) = Inr a"
  shows "for_io (train_epoch g w) (map int [0..<n]) () = (concat (map (epoch_trace w) [0..<n]), Inr ())"
  using assms(2,3)
proof (induction n)
  case 0
  then show ?case by (simp add: io_return_def)
next
  case (Suc n)
  have IH: "for_io (train_epoch g w) (map int [0..<n]) () = (concat (map (epoch_trace w) [0..<n]), Inr ())"
    by (rule Suc.IH) (use Suc.prems in \<open>simp_all add: All_less_Suc\<close>)
  from Suc.prems(2) lessI obtain a where a: "snd (evaluate_model (epoch_test_stream w n)) = Inr a"
    by blast
  have "\<forall>b\<in>set (train_stream w n). snd b \<noteq> []" using Suc.prems(1) lessI by blast
  then have last: "train_epoch g w (int n) () = (epoch_trace w n, Inr ())"
    using a by (rule train_epoch_completes [OF assms(1)])
  show ?case
    by (simp add: for_io_append IH last io_return_def)
qed

text \<open>
  With \<^verbatim>\<open>evaluate_model\<close> defined before the call, \<^verbatim>\<open>train_model(epochs)\<close> does run
  \<open>epochs\<close> epochs, each with one pass over the training batches, one evaluation and
  one log of \<^verbatim>\<open>test_accuracy\<close>, and then calls \<^verbatim>\<open>wandb.finish\<close> once, provided that no
  training batch is empty and every evaluation returns.
\<close>

theorem train_model_completes:
  assumes "''evaluate_model'' \<in> g"
    and "\<forall>e<nat epochs. \<forall>b\<in>set (train_stream w e). snd b \<noteq> []"
    and "\<forall>e<nat epochs. \<exists>a. snd (evaluate_model (epoch_test_stream w e)) = Inr a"
  shows "train_model g w epochs
           = (concat (map (epoch_trace w) [0..<nat epochs])
              @ [Print [Lit ''Finished Training''], Lib ''wandb.finish''], Inr ())"
  using epochs_complete [OF assms]
  by (simp add: train_model_def py_range_def io_seq_def emit_def)

lemma example_test_stream:
  "concat (test_stream example_world) \<noteq> []
   \<and> (\<forall>k\<in>{0..<10}. k \<in> snd ` set (concat (test_stream example_world)))
   \<and> (\<forall>x\<in>set (concat (test_stream example_world)). 0 \<le> snd x \<and> snd x < 10)
   \<and> (\<forall>d\<in>set (test_stream example_world). 2 \<le> length d)"
proof -
  have "\<forall>k\<in>{0..<10}. k \<in> snd ` set (concat (test_stream example_world))"
  proof
    fix k :: int assume "k \<in> {0..<10}"
    then have "k = 0 \<or> k = 1 \<or> k = 2 \<or> k = 3 \<or> k = 4 \<or> k = 5 \<or> k = 6 \<or> k = 7 \<or> k = 8 \<or> k = 9"
      by simp presburger
    then show "k \<in> snd ` set (concat (test_stream example_world))"
      by (auto simp: example_world_def)
  qed
  then show ?thesis by (simp add: example_world_def)
qed

text \<open>Two epochs in the example world, with \<^verbatim>\<open>evaluate_model\<close> defined.\<close>

theorem train_model_completes_example:
  "train_model {''evaluate_model''} example_world 2
     = (epoch_trace example_world 0 @ epoch_trace example_world 1
        @ [Print [Lit ''Finished Training''], Lib ''wandb.finish''], Inr ())"
proof -
  have ts: "epoch_test_stream example_world e = test_stream example_world" for e
    by (simp add: example_world_def)
  have ev: "\<forall>e<nat 2. \<exists>a. snd (evaluate_model (epoch_test_stream example_world e)) = Inr a"
    using evaluate_model_defined(1) [OF example_test_stream] by (auto simp: ts)
  have tr: "\<forall>e<nat 2. \<forall>b\<in>set (train_stream example_world e). snd b \<noteq> []"
    by (simp add: example_world_def)
  have "[0..<nat 2] = [0, 1]" by (simp add: upt_rec)
  with train_model_completes [of "{''evaluate_model''}" 2 example_world, OF _ tr ev]
  show ?thesis by simp
qed

subsection \<open>A concrete run of the CIFAR-10 notebook\<close>

lemma import_modules_ok:
  "\<forall>m\<in>set ms. \<exists>v. module_import w m = Imported v \<Longrightarrow> snd (import_modules w ms) = Inr ()"
  unfolding import_modules_def
  by (induction ms) (auto simp: import_module_def snd_io_bind snd_io_seq)

text \<open>
  In the example world the exception is the \<^verbatim>\<open>NameError\<close> for \<^verbatim>\<open>evaluate_model\<close>.
\<close>

theorem interactive_cifar10_example:
  "snd (run_cells interactive_cifar10 example_world) = Inl (NameError ''evaluate_model'')"
proof -
  have imps: "snd (import_modules example_world ms) = Inr ()" for ms
    by (rule import_modules_ok) (simp add: example_world_def)
  have [simp]: "cuda_available example_world = False"
    "preview_stream example_world = [[6, 9, 9, 4, 1, 1, 2, 7, 8, 3, 4, 7, 7, 2, 9, 9]]"
    "train_stream example_world 0 = [(1 / 2, [(3, 3), (5, 3)])]"
    by (simp_all add: example_world_def)
  have c1: "snd (cifar_cell_setup example_world {}) = Inr {}"
    by (simp add: cifar_cell_setup_def imps snd_io_seq)
  have c2: "snd (cifar_cell_data example_world {}) = Inr {}"
    by (simp add: cifar_cell_data_def snd_io_seq)
  have c3: "snd (cifar_cell_preview example_world {}) = Inr {''imshow''}"
    by (simp add: cifar_cell_preview_def Let_def snd_io_seq snd_io_bind snd_call imshow_def
        py_range_def upt_rec list_index_def classes_def)
  have c4: "snd (cifar_cell_model example_world {''imshow''}) = Inr {''CIFAR10Net'', ''imshow''}"
    by (simp add: cifar_cell_model_def Let_def snd_io_seq snd_call)
  have r: "py_range 10 = [0, 1, 2, 3, 4, 5, 6, 7, 8, 9]"
    by (simp add: py_range_def upt_rec)
  have c5: "snd (cifar_cell_train example_world {''CIFAR10Net'', ''imshow''})
                 = Inl (NameError ''evaluate_model'')"
    by (simp add: cifar_cell_train_def Let_def snd_io_seq snd_call train_model_def r snd_io_bind
        train_epoch_def train_batch_quiet)
  show ?thesis
    unfolding run_cells_cifar by (simp add: interactive_cifar10_def snd_io_bind c1 c2 c3 c4 c5)
qed



text \<open>
  In \<^verbatim>\<open>visualize_predictions\<close> the call \<^verbatim>\<open>imshow(images[idx])\<close> resolves the name
  before it indexes the batch: with \<^verbatim>\<open>imshow\<close> undefined and an index outside the
  batch the exception is the \<^verbatim>\<open>NameError\<close>; with \<^verbatim>\<open>imshow\<close> defined it is the
  \<^verbatim>\<open>IndexError\<close>.
\<close>

lemma show_prediction_order:
  "show_prediction {} [] 0 () = ([Lib ''fig.add_subplot''], Inl (NameError ''imshow''))"
  "show_prediction {''imshow''} [] 0 () = ([Lib ''fig.add_subplot''], Inl IndexError)"
  by (simp_all add: show_prediction_def resolve_def list_index_def io_raise_def io_return_def
      io_seq_pair)

subsection \<open>The handlers of \<^verbatim>\<open>ImportError\<close>\<close>

text \<open>
  An import that fails decides the outcome of the run in which it is executed, unless a
  handler of \<^verbatim>\<open>ImportError\<close> takes it: the property \<open>imports_decide\<close> is kept by
  every way of composing statements.
\<close>

named_theorems decide_intros

lemma imports_decide_iff:
  "imports_decide w r \<longleftrightarrow>
     (\<forall>m. Import m \<in> set (fst r) \<longrightarrow>
        (case module_import w m of
           Imported v \<Rightarrow> True
         | Missing msg \<Rightarrow> snd r = Inl (ImportError msg) \<or> Caught (ImportError msg) \<in> set (fst r)
         | Broken msg \<Rightarrow> snd r = Inl (RuntimeError msg)))"
  unfolding imports_decide_def list_all_iff
  by (auto split: effect.splits)

lemma decide_return [decide_intros]: "imports_decide w (io_return v)"
  by (simp add: imports_decide_iff)

lemma decide_raise [decide_intros]: "imports_decide w (io_raise e)"
  by (simp add: imports_decide_iff)

lemma decide_emit [decide_intros]: "\<not> is_import ev \<Longrightarrow> imports_decide w (emit ev)"
  by (auto simp: imports_decide_iff)

lemma decide_say [decide_intros]: "imports_decide w (say ps)"
  by (simp add: imports_decide_iff)

lemma decide_bind [decide_intros]:
  assumes m: "imports_decide w m" and f: "\<And>x. imports_decide w (f x)"
  shows "imports_decide w (io_bind m f)"
proof (cases "snd m")
  case (Inl e)
  then have eq: "fst (io_bind m f) = fst m" "snd (io_bind m f) = Inl e"
    by (simp_all add: fst_io_bind snd_io_bind)
  show ?thesis
    using m Inl unfolding imports_decide_iff eq
    by (auto split: import_result.splits)
next
  case (Inr x)
  have eq: "fst (io_bind m f) = fst m @ fst (f x)" "snd (io_bind m f) = snd (f x)"
    using Inr by (simp_all add: fst_io_bind snd_io_bind)
  show ?thesis
    using m f [of x] Inr unfolding imports_decide_iff eq
    by (auto split: import_result.splits)
qed

lemma decide_seq [decide_intros]:
  "imports_decide w m \<Longrightarrow> imports_decide w n \<Longrightarrow> imports_decide w (io_seq m n)"
  by (simp add: io_seq_def decide_bind)

lemma decide_for [decide_intros]:
  "(\<And>x s. imports_decide w (body x s)) \<Longrightarrow> imports_decide w (for_io body xs s)"
  by (induction xs arbitrary: s) (simp_all add: decide_intros)

lemma decide_block_Nil [decide_intros]: "imports_decide w (block [])"
  by (simp add: decide_intros)

lemma decide_block_Cons [decide_intros]:
  "imports_decide w m \<Longrightarrow> imports_decide w (block ms) \<Longrightarrow> imports_decide w (block (m # ms))"
  by (simp add: decide_intros)

lemma decide_call [decide_intros]: "imports_decide w body \<Longrightarrow> imports_decide w (call g name body)"
  by (cases "snd body") (auto simp: imports_decide_iff fst_call snd_call split: import_result.splits)

lemma decide_resolve [decide_intros]: "imports_decide w (resolve g name)"
  by (simp add: imports_decide_iff)

lemma decide_except [decide_intros]:
  assumes b: "imports_decide w body" and h: "\<And>msg. imports_decide w (handler msg)"
  shows "imports_decide w (except_ImportError body handler)"
proof (cases "\<exists>msg. snd body = Inl (ImportError msg)")
  case True
  then obtain t msg where body: "body = (t, Inl (ImportError msg))"
    by (cases body) auto
  show ?thesis
    using b h [of msg] unfolding imports_decide_iff body
    by (auto split: import_result.splits)
next
  case False
  then have "except_ImportError body handler = body"
    by (cases body; cases "snd body"; cases "projl (snd body)") auto
  then show ?thesis using b by simp
qed

lemma decide_py_div [decide_intros]: "imports_decide w (py_div a b)"
  by (simp add: py_div_def decide_intros)

lemma decide_list_index [decide_intros]: "imports_decide w (list_index xs i)"
  by (simp add: list_index_def decide_intros)

lemma decide_tensor_index [decide_intros]: "imports_decide w (tensor_index c i)"
  by (simp add: tensor_index_def decide_intros split: tensor.splits)

lemma decide_import_module [decide_intros]: "imports_decide w (import_module w m)"
  unfolding import_module_def
  by (cases "module_import w m") (simp_all add: imports_decide_iff)

lemma decide_import_modules [decide_intros]: "imports_decide w (import_modules w ms)"
  unfolding import_modules_def
  by (intro decide_intros)

lemma decide_if [decide_intros]:
  "imports_decide w m \<Longrightarrow> imports_decide w n \<Longrightarrow> imports_decide w (if b then m else n)"
  by simp

lemma decide_case_prod [decide_intros]:
  "(\<And>a b. imports_decide w (f a b)) \<Longrightarrow> imports_decide w (case p of (a, b) \<Rightarrow> f a b)"
  by (cases p) simp

lemma decide_case_list [decide_intros]:
  "imports_decide w m \<Longrightarrow> (\<And>x xs. imports_decide w (f x xs))
     \<Longrightarrow> imports_decide w (case l of [] \<Rightarrow> m | x # xs \<Rightarrow> f x xs)"
  by (cases l) simp_all

lemma decide_let [decide_intros]: "imports_decide w (f v) \<Longrightarrow> imports_decide w (Let v f)"
  by simp

lemma decide_evaluate_model: "imports_decide w (evaluate_model ts)"
  unfolding evaluate_model_def eval_batch_def count_sample_def print_class_accuracy_def
  by (intro decide_intros) simp_all

lemma decide_train_model: "imports_decide w (train_model g w epochs)"
  unfolding train_model_def train_epoch_def train_batch_def
  by (intro decide_intros decide_evaluate_model) simp_all

lemma decide_visualize_predictions: "imports_decide w (visualize_predictions g w n)"
  unfolding visualize_predictions_def show_prediction_def imshow_def
  by (intro decide_intros) simp_all

lemma decide_sweep_train_model: "imports_decide w (sweep_train_model n)"
  unfolding sweep_train_model_def fit_step_def
  by (intro decide_intros) simp_all

lemma decide_cifar_cells:
  "imports_decide w (cifar_cell_setup w g)"
  "imports_decide w (cifar_cell_data w g)"
  "imports_decide w (cifar_cell_preview w g)"
  "imports_decide w (cifar_cell_model w g)"
  "imports_decide w (cifar_cell_train w g)"
  "imports_decide w (cifar_cell_evaluate w g)"
  "imports_decide w (cifar_cell_predict w g)"
  unfolding cifar_cell_setup_def cifar_cell_data_def cifar_cell_preview_def cifar_cell_model_def
    cifar_cell_train_def cifar_cell_evaluate_def cifar_cell_predict_def imshow_def
  by (intro decide_intros decide_evaluate_model decide_train_model decide_visualize_predictions;
      simp)+

lemma decide_wandb_cells:
  "imports_decide w (wandb_cell_check w g)"
  "imports_decide w (wandb_cell_login w g)"
  "imports_decide w (wandb_cell_first_experiment w g)"
  "imports_decide w (wandb_cell_tracking w g)"
  "imports_decide w (wandb_cell_sweep w g)"
  unfolding wandb_cell_check_def wandb_cell_login_def wandb_cell_first_experiment_def
    wandb_cell_tracking_def wandb_cell_sweep_def check_wandb_installation_def fit_step_def
  by (intro decide_intros decide_sweep_train_model; simp)+

lemma decide_gpu_cells:
  "imports_decide w (gpu_cell_check w g)"
  "imports_decide w (gpu_cell_operations w g)"
  "imports_decide w (gpu_cell_benchmark w g)"
  "imports_decide w (gpu_cell_memory w g)"
  "imports_decide w (gpu_cell_multi w g)"
  unfolding gpu_cell_check_def gpu_cell_operations_def gpu_cell_benchmark_def gpu_cell_memory_def
    gpu_cell_multi_def check_gpu_availability_def demonstrate_gpu_operations_def
    benchmark_operations_def benchmark_size_def demonstrate_memory_management_def
    check_multi_gpu_def
  by (intro decide_intros; simp)+

lemma decide_setup_cells:
  "imports_decide w (setup_cell_os w g)"
  "imports_decide w (setup_cell_conda w g)"
  "imports_decide w (setup_cell_environment w g)"
  "imports_decide w (setup_cell_packages w g)"
  "imports_decide w (setup_cell_verify w g)"
  "imports_decide w (setup_cell_troubleshooting w g)"
  unfolding setup_cell_os_def setup_cell_conda_def setup_cell_environment_def
    setup_cell_packages_def setup_cell_verify_def setup_cell_troubleshooting_def
    show_conda_instructions_def show_environment_setup_def show_package_installation_def
    verify_setup_def show_troubleshooting_def
  by (intro decide_intros; simp)+


lemma decide_notebooks:
  assumes "nb \<in> set notebooks" and "c \<in> set nb"
  shows "imports_decide w (c w g)"
  using assms decide_cifar_cells [of w g] decide_wandb_cells [of w g] decide_gpu_cells [of w g]
    decide_setup_cells [of w g]
  by (auto simp: notebooks_def interactive_cifar10_def interactive_wandb_tutorial_def
      interactive_pytorch_gpu_def interactive_local_setup_def)

text \<open>
  An exception that leaves a function of the repository decides the outcome of the run
  in which the function was called: the property \<open>escapes_decide\<close> is kept by every
  way of composing statements as well.
\<close>

named_theorems escape_intros

lemma escapes_decide_iff:
  "escapes_decide r \<longleftrightarrow> (\<forall>f e. Escape f e \<in> set (fst r) \<longrightarrow> snd r = Inl e)"
  unfolding escapes_decide_def list_all_iff
  by (auto split: effect.splits)

lemma escape_silent: "only (\<lambda>ev. \<not> is_escape ev) r \<Longrightarrow> escapes_decide r"
  by (auto simp: escapes_decide_iff only_def list_all_iff)

lemma escape_return [escape_intros]: "escapes_decide (io_return v)"
  by (simp add: escapes_decide_iff)

lemma escape_raise [escape_intros]: "escapes_decide (io_raise e)"
  by (simp add: escapes_decide_iff)

lemma escape_emit [escape_intros]: "\<not> is_escape ev \<Longrightarrow> escapes_decide (emit ev)"
  by (auto simp: escapes_decide_iff)

lemma escape_say [escape_intros]: "escapes_decide (say ps)"
  by (simp add: escapes_decide_iff)

lemma escape_bind [escape_intros]:
  assumes m: "escapes_decide m" and f: "\<And>x. escapes_decide (f x)"
  shows "escapes_decide (io_bind m f)"
proof (cases "snd m")
  case (Inl e)
  then have eq: "fst (io_bind m f) = fst m" "snd (io_bind m f) = Inl e"
    by (simp_all add: fst_io_bind snd_io_bind)
  show ?thesis
    using m Inl unfolding escapes_decide_iff eq by auto
next
  case (Inr x)
  have eq: "fst (io_bind m f) = fst m @ fst (f x)" "snd (io_bind m f) = snd (f x)"
    using Inr by (simp_all add: fst_io_bind snd_io_bind)
  show ?thesis
    using m f [of x] Inr unfolding escapes_decide_iff eq by auto
qed

lemma escape_seq [escape_intros]:
  "escapes_decide m \<Longrightarrow> escapes_decide n \<Longrightarrow> escapes_decide (io_seq m n)"
  by (simp add: io_seq_def escape_bind)

lemma escape_for [escape_intros]:
  "(\<And>x s. escapes_decide (body x s)) \<Longrightarrow> escapes_decide (for_io body xs s)"
  by (induction xs arbitrary: s) (simp_all add: escape_intros)

lemma escape_block_Nil [escape_intros]: "escapes_decide (block [])"
  by (simp add: escape_intros)

lemma escape_block_Cons [escape_intros]:
  "escapes_decide m \<Longrightarrow> escapes_decide (block ms) \<Longrightarrow> escapes_decide (block (m # ms))"
  by (simp add: escape_intros)

lemma escape_call [escape_intros]: "escapes_decide body \<Longrightarrow> escapes_decide (call g name body)"
  by (cases "snd body") (auto simp: escapes_decide_iff fst_call snd_call)

lemma escape_resolve [escape_intros]: "escapes_decide (resolve g name)"
  by (simp add: escapes_decide_iff)

lemma escape_except [escape_intros]:
  assumes b: "only (\<lambda>ev. \<not> is_escape ev) body" and h: "\<And>msg. escapes_decide (handler msg)"
  shows "escapes_decide (except_ImportError body handler)"
proof (cases "\<exists>msg. snd body = Inl (ImportError msg)")
  case True
  then obtain t msg where body: "body = (t, Inl (ImportError msg))"
    by (cases body) auto
  show ?thesis
    using b h [of msg] unfolding escapes_decide_iff body
    by (auto simp: only_def list_all_iff)
next
  case False
  then have "except_ImportError body handler = body"
    by (cases body; cases "snd body"; cases "projl (snd body)") auto
  then show ?thesis using b by (simp add: escape_silent)
qed

lemma escape_py_div [escape_intros]: "escapes_decide (py_div a b)"
  by (simp add: py_div_def escape_intros)

lemma escape_list_index [escape_intros]: "escapes_decide (list_index xs i)"
  by (simp add: list_index_def escape_intros)

lemma escape_tensor_index [escape_intros]: "escapes_decide (tensor_index c i)"
  by (simp add: tensor_index_def escape_intros split: tensor.splits)

lemma escape_import_module [escape_intros]: "escapes_decide (import_module w m)"
  unfolding import_module_def
  by (cases "module_import w m") (simp_all add: escapes_decide_iff)

lemma escape_import_modules [escape_intros]: "escapes_decide (import_modules w ms)"
  unfolding import_modules_def
  by (intro escape_intros)

lemma escape_if [escape_intros]:
  "escapes_decide m \<Longrightarrow> escapes_decide n \<Longrightarrow> escapes_decide (if b then m else n)"
  by simp

lemma escape_case_prod [escape_intros]:
  "(\<And>a b. escapes_decide (f a b)) \<Longrightarrow> escapes_decide (case p of (a, b) \<Rightarrow> f a b)"
  by (cases p) simp

lemma escape_case_list [escape_intros]:
  "escapes_decide m \<Longrightarrow> (\<And>x xs. escapes_decide (f x xs))
     \<Longrightarrow> escapes_decide (case l of [] \<Rightarrow> m | x # xs \<Rightarrow> f x xs)"
  by (cases l) simp_all

lemma escape_let [escape_intros]: "escapes_decide (f v) \<Longrightarrow> escapes_decide (Let v f)"
  by simp

lemma escape_evaluate_model: "escapes_decide (evaluate_model ts)"
  unfolding evaluate_model_def eval_batch_def count_sample_def print_class_accuracy_def
  by (intro escape_intros) simp_all

lemma escape_train_model: "escapes_decide (train_model g w epochs)"
  unfolding train_model_def train_epoch_def train_batch_def
  by (intro escape_intros escape_evaluate_model) simp_all

lemma escape_visualize_predictions: "escapes_decide (visualize_predictions g w n)"
  unfolding visualize_predictions_def show_prediction_def imshow_def
  by (intro escape_intros) simp_all

lemma escape_sweep_train_model: "escapes_decide (sweep_train_model n)"
  unfolding sweep_train_model_def fit_step_def
  by (intro escape_intros) simp_all

lemma escape_cifar_cells:
  "escapes_decide (cifar_cell_setup w g)"
  "escapes_decide (cifar_cell_data w g)"
  "escapes_decide (cifar_cell_preview w g)"
  "escapes_decide (cifar_cell_model w g)"
  "escapes_decide (cifar_cell_train w g)"
  "escapes_decide (cifar_cell_evaluate w g)"
  "escapes_decide (cifar_cell_predict w g)"
  unfolding cifar_cell_setup_def cifar_cell_data_def cifar_cell_preview_def cifar_cell_model_def
    cifar_cell_train_def cifar_cell_evaluate_def cifar_cell_predict_def imshow_def
  by (intro escape_intros escape_evaluate_model escape_train_model escape_visualize_predictions;
      simp)+

lemma escape_wandb_cells:
  "escapes_decide (wandb_cell_check w g)"
  "escapes_decide (wandb_cell_login w g)"
  "escapes_decide (wandb_cell_first_experiment w g)"
  "escapes_decide (wandb_cell_tracking w g)"
  "escapes_decide (wandb_cell_sweep w g)"
  unfolding wandb_cell_check_def wandb_cell_login_def wandb_cell_first_experiment_def
    wandb_cell_tracking_def wandb_cell_sweep_def check_wandb_installation_def fit_step_def
  by (intro escape_intros only_intros escape_sweep_train_model; simp)+

lemma escape_gpu_cells:
  "escapes_decide (gpu_cell_check w g)"
  "escapes_decide (gpu_cell_operations w g)"
  "escapes_decide (gpu_cell_benchmark w g)"
  "escapes_decide (gpu_cell_memory w g)"
  "escapes_decide (gpu_cell_multi w g)"
  unfolding gpu_cell_check_def gpu_cell_operations_def gpu_cell_benchmark_def gpu_cell_memory_def
    gpu_cell_multi_def check_gpu_availability_def demonstrate_gpu_operations_def
    benchmark_operations_def benchmark_size_def demonstrate_memory_management_def
    check_multi_gpu_def
  by (intro escape_intros; simp)+

lemma escape_setup_cells:
  "escapes_decide (setup_cell_os w g)"
  "escapes_decide (setup_cell_conda w g)"
  "escapes_decide (setup_cell_environment w g)"
  "escapes_decide (setup_cell_packages w g)"
  "escapes_decide (setup_cell_verify w g)"
  "escapes_decide (setup_cell_troubleshooting w g)"
  unfolding setup_cell_os_def setup_cell_conda_def setup_cell_environment_def
    setup_cell_packages_def setup_cell_verify_def setup_cell_troubleshooting_def
    show_conda_instructions_def show_environment_setup_def show_package_installation_def
    verify_setup_def show_troubleshooting_def
  by (intro escape_intros only_intros; simp)+

lemma escape_notebooks:
  assumes "nb \<in> set notebooks" and "c \<in> set nb"
  shows "escapes_decide (c w g)"
  using assms escape_cifar_cells [of w g] escape_wandb_cells [of w g] escape_gpu_cells [of w g]
    escape_setup_cells [of w g]
  by (auto simp: notebooks_def interactive_cifar10_def interactive_wandb_tutorial_def
      interactive_pytorch_gpu_def interactive_local_setup_def)

lemma check_wandb_installation_cases:
  "check_wandb_installation w =
     (case module_import w ''wandb'' of
        Imported v \<Rightarrow>
          ([Import ''wandb'', Print [Lit ''W&B is installed (version '', Str v, Lit '')'']],
           Inr True)
      | Missing msg \<Rightarrow>
          ([Import ''wandb'', Caught (ImportError msg),
            Print [Lit ''W&B is not installed. Installing now...''],
            Shell ''pip install wandb -q''], Inr False)
      | Broken msg \<Rightarrow> ([Import ''wandb''], Inl (RuntimeError msg)))"
  by (cases "module_import w ''wandb''")
     (simp_all add: check_wandb_installation_def import_module_def version_of_def io_seq_pair
        io_return_def io_raise_def)

lemma verify_setup_cases:
  "verify_setup w =
     (let imps = import_modules w [''torch'', ''torchvision'', ''matplotlib'', ''pandas'',
                                    ''sklearn'', ''wandb'']
      in case snd imps of
        Inr u \<Rightarrow>
          (fst imps
           @ [Print [Lit ''All required packages are installed!''],
              Print [Lit ''PyTorch version: '', version_of w ''torch''],
              Print [Lit ''CUDA available: '', Str (if cuda_available w then ''True'' else ''False'')]]
           @ (if cuda_available w
              then [Print [Lit ''CUDA version: '', Ext ''torch.version.cuda''],
                    Print [Lit ''GPU device: '', Ext ''torch.cuda.get_device_name(0)'']]
              else []), Inr ())
      | Inl (ImportError msg) \<Rightarrow>
          (fst imps
           @ [Caught (ImportError msg), Print [Lit ''Some packages are missing: '', Str msg],
              Print [Lit ''Please follow the installation instructions above.'']], Inr ())
      | Inl e \<Rightarrow> (fst imps, Inl e))"
proof -
  let ?imps = "import_modules w [''torch'', ''torchvision'', ''matplotlib'', ''pandas'',
                                 ''sklearn'', ''wandb'']"
  obtain t r where imps: "?imps = (t, r)" by (cases ?imps)
  show ?thesis
    unfolding verify_setup_def Let_def imps
    by (cases r) (auto simp: io_seq_pair io_return_def split: error.splits)
qed

lemma wandb_cell_login_outcome:
  "snd (wandb_cell_login w g) =
     (case module_import w ''wandb'' of
        Imported v \<Rightarrow> Inr g
      | Missing msg \<Rightarrow> Inl (ImportError msg)
      | Broken msg \<Rightarrow> Inl (RuntimeError msg))"
  by (simp add: wandb_cell_login_def import_module_def snd_io_seq split: import_result.splits)

lemma wandb_cell_check_run:
  "wandb_cell_check w g =
     (case snd (check_wandb_installation w) of
        Inl e \<Rightarrow> (fst (check_wandb_installation w) @ [Escape ''check_wandb_installation'' e],
                  Inl e)
      | Inr installed \<Rightarrow> (fst (check_wandb_installation w),
                          Inr (insert ''check_wandb_installation'' g)))"
  by (cases "check_wandb_installation w"; cases "snd (check_wandb_installation w)")
     (simp_all add: wandb_cell_check_def Let_def call_def io_seq_pair io_return_def)

lemma check_then_login:
  "snd (run_cells [wandb_cell_check, wandb_cell_login] w) =
     (case module_import w ''wandb'' of
        Imported v \<Rightarrow> Inr {''check_wandb_installation''}
      | Broken msg \<Rightarrow> Inl (RuntimeError msg)
      | Missing msg \<Rightarrow>
          (case import_after_shell w ''pip install wandb -q'' ''wandb'' of
             Imported v \<Rightarrow> Inr {''check_wandb_installation''}
           | Missing msg' \<Rightarrow> Inl (ImportError msg')
           | Broken msg' \<Rightarrow> Inl (RuntimeError msg')))"
  by (cases "module_import w ''wandb''")
     (simp_all add: run_cells_def snd_io_bind wandb_cell_check_run check_wandb_installation_cases
        wandb_cell_login_outcome split: import_result.splits)

lemma caught_in_notebooks:
  assumes "nb \<in> set notebooks" and "c \<in> set nb" and "ev \<in> set (fst (c w g))" and "is_caught ev"
  shows "(\<exists>msg. ev = Caught (ImportError msg)) \<and> (c = wandb_cell_check \<or> c = setup_cell_verify)"
proof -
  have ord: False if "only ordinary (c w g)"
    using that assms(3,4) by (cases ev) (auto simp: only_def list_all_iff)
  have lst: "\<exists>msg. ev = Caught (ImportError msg)"
    using only_notebooks [OF assms(1,2), of w g] assms(3,4)
    by (cases ev) (auto simp: only_def list_all_iff split: error.splits)
  have "c \<in> {cifar_cell_setup, cifar_cell_data, cifar_cell_preview, cifar_cell_model,
              cifar_cell_train, cifar_cell_evaluate, cifar_cell_predict,
              wandb_cell_check, wandb_cell_login, wandb_cell_first_experiment,
              wandb_cell_tracking, wandb_cell_sweep,
              gpu_cell_check, gpu_cell_operations, gpu_cell_benchmark, gpu_cell_memory,
              gpu_cell_multi,
              setup_cell_os, setup_cell_conda, setup_cell_environment, setup_cell_packages,
              setup_cell_verify, setup_cell_troubleshooting}"
    using assms(1,2)
    by (auto simp: notebooks_def interactive_cifar10_def interactive_wandb_tutorial_def
        interactive_pytorch_gpu_def interactive_local_setup_def)
  then have "c = wandb_cell_check \<or> c = setup_cell_verify"
    using ord only_cifar_cells [of w g] only_wandb_cells(2-5) [of w g] only_gpu_cells [of w g]
      only_setup_cells(1-4) [of w g] only_setup_cells(6) [of w g]
    by blast
  with lst show ?thesis by simp
qed

text \<open>
  No way of composing statements takes an exception: sequencing, loops and calls pass
  every exception on with the effects requested before it, and the handler of
  \<^verbatim>\<open>ImportError\<close> passes every other exception on. So an exception raised in a run
  either ends the run or is taken by a handler, which leaves the event \<open>Caught\<close>;
  when it ends a call of a function of the repository it leaves the event \<open>Escape\<close>.
\<close>

lemma exceptions_pass:
  "snd m = Inl e \<Longrightarrow> io_bind m f = (fst m, Inl e)"
  "snd m = Inl e \<Longrightarrow> io_seq m n = (fst m, Inl e)"
  "snd (body x s) = Inl e \<Longrightarrow> for_io body (x # xs) s = (fst (body x s), Inl e)"
  "snd (body x s) = Inr s' \<Longrightarrow> snd (for_io body xs s') = Inl e
     \<Longrightarrow> snd (for_io body (x # xs) s) = Inl e"
  "snd u = Inl e \<Longrightarrow> block (u # us) = (fst u, Inl e)"
  "snd u = Inr () \<Longrightarrow> snd (block us) = Inl e \<Longrightarrow> snd (block (u # us)) = Inl e"
  "snd m = Inl e \<Longrightarrow> name \<in> g \<Longrightarrow> call g name m = (fst m @ [Escape name e], Inl e)"
  "snd m = Inl e \<Longrightarrow> \<forall>msg. e \<noteq> ImportError msg \<Longrightarrow> except_ImportError m h = m"
proof -
  show "io_bind m f = (fst m, Inl e)" if "snd m = Inl e"
    using that by (simp add: io_bind_pair)
  show "io_seq m n = (fst m, Inl e)" if "snd m = Inl e"
    using that by (simp add: io_seq_pair)
  show "for_io body (x # xs) s = (fst (body x s), Inl e)" if "snd (body x s) = Inl e"
    using that by (simp add: io_bind_pair)
  show "snd (for_io body (x # xs) s) = Inl e"
    if "snd (body x s) = Inr s'" "snd (for_io body xs s') = Inl e"
    using that by (simp add: snd_io_bind)
  show "block (u # us) = (fst u, Inl e)" if "snd u = Inl e"
    using that by (simp add: io_seq_pair)
  show "snd (block (u # us)) = Inl e" if "snd u = Inr ()" "snd (block us) = Inl e"
    using that by (simp add: snd_io_seq)
  show "call g name m = (fst m @ [Escape name e], Inl e)" if "snd m = Inl e" "name \<in> g"
    using that by (cases m) (simp add: call_def)
  show "except_ImportError m h = m" if "snd m = Inl e" "\<forall>msg. e \<noteq> ImportError msg"
    using that by (cases m; cases e) simp_all
qed

text \<open>
  The preview cell is the only cell whose own statements raise: \<^verbatim>\<open>next\<close> on a
  loader without batches, and the two index operations.
\<close>

lemma preview_step:
  "io_bind (list_index labels (int j)) (\<lambda>k.
   io_bind (list_index classes (labels ! k)) (\<lambda>c.
   io_return (names @ [Str (classes ! c)])))
     = (if label_ok labels j then io_return (names @ [Str (classes ! class_at labels j)])
        else io_raise IndexError)"
proof -
  have len: "length classes = 10" by (simp add: classes_def)
  show ?thesis
    by (auto simp: list_index_def len label_ok_def class_at_def)
qed

lemma preview_names:
  "snd (for_io (\<lambda>j names.
                  io_bind (list_index labels j) (\<lambda>k.
                  io_bind (list_index classes (labels ! k)) (\<lambda>c.
                  io_return (names @ [Str (classes ! c)]))))
          (map int js) ns)
     = (if list_all (label_ok labels) js
        then Inr (ns @ map (\<lambda>j. Str (classes ! class_at labels j)) js)
        else Inl IndexError)"
proof (induction js arbitrary: ns)
  case Nil
  then show ?case by simp
next
  case (Cons j js)
  show ?case
  proof (cases "label_ok labels j")
    case True
    then show ?thesis
      by (simp only: list.map for_io.simps preview_step if_True io_bind_return Cons.IH
          list.pred_inject simp_thms append_Cons append_Nil append_assoc)
  next
    case False
    then show ?thesis
      by (simp only: list.map for_io.simps preview_step if_False io_bind_raise snd_io_raise
          list.pred_inject simp_thms)
  qed
qed

lemma cifar_cell_preview_outcome:
  "snd (cifar_cell_preview w g) =
     (case preview_stream w of
        [] \<Rightarrow> Inl StopIteration
      | labels # rest \<Rightarrow>
          if list_all (label_ok labels) [0..<16] then Inr (insert ''imshow'' g)
          else Inl IndexError)"
  by (cases "preview_stream w")
     (simp_all add: cifar_cell_preview_def Let_def snd_io_seq snd_io_bind snd_call imshow_def
        py_range_def preview_names del: upt_Suc)

lemma cifar_cell_evaluate_outcome:
  "snd (cifar_cell_evaluate w g) =
     (case snd (evaluate_model (test_stream w)) of
        Inl e \<Rightarrow> Inl e
      | Inr a \<Rightarrow> Inr (insert ''evaluate_model'' g))"
  by (simp add: cifar_cell_evaluate_def Let_def snd_io_bind snd_io_seq snd_call split: sum.splits)

lemma cifar_cell_train_outcome:
  "snd (cifar_cell_train w g) =
     (case snd (train_model (insert ''train_model'' g) w 10) of
        Inl e \<Rightarrow> Inl e
      | Inr u \<Rightarrow> Inr (insert ''train_model'' g))"
  by (simp add: cifar_cell_train_def Let_def snd_io_seq snd_call split: sum.splits)

text \<open>
  Claim C1, as the code has it. An exception is caught in two functions only, each with
  \<^verbatim>\<open>try\<close> and \<^verbatim>\<open>except ImportError\<close> around imports.
  \<^verbatim>\<open>check_wandb_installation\<close> imports \<^verbatim>\<open>wandb\<close>: when the import succeeds it prints
  the installed version and returns \<^verbatim>\<open>True\<close>; when the package is missing its handler
  prints that W&B is being installed, runs the shell command \<^verbatim>\<open>pip install wandb -q\<close>
  and returns \<^verbatim>\<open>False\<close>; any other exception of the import leaves the function.
  \<^verbatim>\<open>verify_setup\<close> imports six packages: when all imports succeed it prints the
  versions; when one is missing its handler prints the message of the exception and a
  pointer to the installation instructions; any other exception leaves the function.
  In every cell of the four notebooks and in every world, a handler is entered only in the
  cells that call these two functions, and only for an \<^verbatim>\<open>ImportError\<close>. Every other
  exception goes on to the end of its cell: every import that fails in a cell ends the
  cell with the exception it raised, an \<^verbatim>\<open>ImportError\<close> included, unless one of the
  two handlers took it, and every exception that leaves a function of the repository ends
  the cell in which the function was called, as an exception of \<^verbatim>\<open>train_model\<close> or
  of \<^verbatim>\<open>evaluate_model\<close> ends the training cell or the evaluation cell. The one
  cell whose own statements raise, the preview cell of the CIFAR-10 notebook, ends with
  \<^verbatim>\<open>StopIteration\<close> when the loader has no batch and with \<^verbatim>\<open>IndexError\<close> when
  one of the first sixteen labels is missing or is no index of \<^verbatim>\<open>classes\<close>.
  The shell command of the handler is a recovery: the import of \<^verbatim>\<open>wandb\<close> in the
  next cell has the outcome that the host gives after the command, so the run goes on
  when the installation succeeded.
\<close>

theorem import_error_handling:
  "check_wandb_installation w =
     (case module_import w ''wandb'' of
        Imported v \<Rightarrow>
          ([Import ''wandb'', Print [Lit ''W&B is installed (version '', Str v, Lit '')'']],
           Inr True)
      | Missing msg \<Rightarrow>
          ([Import ''wandb'', Caught (ImportError msg),
            Print [Lit ''W&B is not installed. Installing now...''],
            Shell ''pip install wandb -q''], Inr False)
      | Broken msg \<Rightarrow> ([Import ''wandb''], Inl (RuntimeError msg)))
   \<and> verify_setup w =
     (let imps = import_modules w [''torch'', ''torchvision'', ''matplotlib'', ''pandas'',
                                    ''sklearn'', ''wandb'']
      in case snd imps of
        Inr u \<Rightarrow>
          (fst imps
           @ [Print [Lit ''All required packages are installed!''],
              Print [Lit ''PyTorch version: '', version_of w ''torch''],
              Print [Lit ''CUDA available: '', Str (if cuda_available w then ''True'' else ''False'')]]
           @ (if cuda_available w
              then [Print [Lit ''CUDA version: '', Ext ''torch.version.cuda''],
                    Print [Lit ''GPU device: '', Ext ''torch.cuda.get_device_name(0)'']]
              else []), Inr ())
      | Inl (ImportError msg) \<Rightarrow>
          (fst imps
           @ [Caught (ImportError msg), Print [Lit ''Some packages are missing: '', Str msg],
              Print [Lit ''Please follow the installation instructions above.'']], Inr ())
      | Inl e \<Rightarrow> (fst imps, Inl e))
   \<and> (\<forall>nb\<in>set notebooks. \<forall>c\<in>set nb. \<forall>ev\<in>set (fst (c w g)).
         is_caught ev \<longrightarrow>
         (\<exists>msg. ev = Caught (ImportError msg)) \<and> (c = wandb_cell_check \<or> c = setup_cell_verify))
   \<and> (\<forall>nb\<in>set notebooks. \<forall>c\<in>set nb. imports_decide w (c w g))
   \<and> (\<forall>nb\<in>set notebooks. \<forall>c\<in>set nb. escapes_decide (c w g))
   \<and> snd (cifar_cell_preview w g) =
     (case preview_stream w of
        [] \<Rightarrow> Inl StopIteration
      | labels # rest \<Rightarrow>
          if list_all (label_ok labels) [0..<16] then Inr (insert ''imshow'' g)
          else Inl IndexError)
   \<and> snd (cifar_cell_train w g) =
     (case snd (train_model (insert ''train_model'' g) w 10) of
        Inl e \<Rightarrow> Inl e
      | Inr u \<Rightarrow> Inr (insert ''train_model'' g))
   \<and> snd (cifar_cell_evaluate w g) =
     (case snd (evaluate_model (test_stream w)) of
        Inl e \<Rightarrow> Inl e
      | Inr a \<Rightarrow> Inr (insert ''evaluate_model'' g))
   \<and> snd (run_cells [wandb_cell_check, wandb_cell_login] w) =
     (case module_import w ''wandb'' of
        Imported v \<Rightarrow> Inr {''check_wandb_installation''}
      | Broken msg \<Rightarrow> Inl (RuntimeError msg)
      | Missing msg \<Rightarrow>
          (case import_after_shell w ''pip install wandb -q'' ''wandb'' of
             Imported v \<Rightarrow> Inr {''check_wandb_installation''}
           | Missing msg' \<Rightarrow> Inl (ImportError msg')
           | Broken msg' \<Rightarrow> Inl (RuntimeError msg')))"
proof -
  have caught: "\<forall>nb\<in>set notebooks. \<forall>c\<in>set nb. \<forall>ev\<in>set (fst (c w g)).
         is_caught ev \<longrightarrow>
         (\<exists>msg. ev = Caught (ImportError msg)) \<and> (c = wandb_cell_check \<or> c = setup_cell_verify)"
    using caught_in_notebooks [where w = w and g = g] by blast
  have decide: "\<forall>nb\<in>set notebooks. \<forall>c\<in>set nb. imports_decide w (c w g)"
    using decide_notebooks [where w = w and g = g] by blast
  have escape: "\<forall>nb\<in>set notebooks. \<forall>c\<in>set nb. escapes_decide (c w g)"
    using escape_notebooks [where w = w and g = g] by blast
  show ?thesis
    by (intro conjI check_wandb_installation_cases verify_setup_cases caught decide escape
        cifar_cell_preview_outcome cifar_cell_train_outcome cifar_cell_evaluate_outcome
        check_then_login)
qed

theorem import_error_handling_witness:
  "interactive_wandb_tutorial \<in> set notebooks
   \<and> wandb_cell_check \<in> set interactive_wandb_tutorial
   \<and> Caught (ImportError ''No module named wandb'')
        \<in> set (fst (wandb_cell_check no_wandb_world {}))
   \<and> is_caught (Caught (ImportError ''No module named wandb''))
   \<and> imports_decide no_wandb_world (wandb_cell_check no_wandb_world {})
   \<and> snd (run_cells [wandb_cell_check, wandb_cell_login] no_wandb_world)
       = Inr {''check_wandb_installation''}
   \<and> check_wandb_installation broken_wandb_world
       = ([Import ''wandb''], Inl (RuntimeError ''partially initialized module''))
   \<and> escapes_decide (wandb_cell_check broken_wandb_world {})"
proof -
  have nb: "interactive_wandb_tutorial \<in> set notebooks"
    and c: "wandb_cell_check \<in> set interactive_wandb_tutorial"
    by (simp_all add: notebooks_def interactive_wandb_tutorial_def)
  have m: "module_import no_wandb_world ''wandb'' = Missing ''No module named wandb''"
    "import_after_shell no_wandb_world ''pip install wandb -q'' ''wandb'' = Imported ''1.0''"
    by (simp_all add: no_wandb_world_def example_world_def)
  note run = import_error_handling [where w = no_wandb_world and g = "{}"]
  from run have "check_wandb_installation no_wandb_world
      = ([Import ''wandb'', Caught (ImportError ''No module named wandb''),
          Print [Lit ''W&B is not installed. Installing now...''],
          Shell ''pip install wandb -q''], Inr False)"
    by (simp add: m)
  then have ev: "Caught (ImportError ''No module named wandb'')
                   \<in> set (fst (wandb_cell_check no_wandb_world {}))"
    by (simp add: wandb_cell_check_run)
  from run nb c have d: "imports_decide no_wandb_world (wandb_cell_check no_wandb_world {})"
    by blast
  from run have r: "snd (run_cells [wandb_cell_check, wandb_cell_login] no_wandb_world)
                   = Inr {''check_wandb_installation''}"
    by (simp add: m)
  have b: "module_import broken_wandb_world ''wandb'' = Broken ''partially initialized module''"
    by (simp add: broken_wandb_world_def)
  note broken = import_error_handling [where w = broken_wandb_world and g = "{}"]
  from broken have f: "check_wandb_installation broken_wandb_world
       = ([Import ''wandb''], Inl (RuntimeError ''partially initialized module''))"
    by (simp add: b)
  from broken nb c have e: "escapes_decide (wandb_cell_check broken_wandb_world {})"
    by blast
  from nb c ev d r f e show ?thesis by simp
qed

text \<open>
  With such a package the exception leaves \<^verbatim>\<open>check_wandb_installation\<close> and ends the
  cell.
\<close>

lemma wandb_cell_check_broken:
  "wandb_cell_check broken_wandb_world {}
     = ([Import ''wandb'',
         Escape ''check_wandb_installation'' (RuntimeError ''partially initialized module'')],
        Inl (RuntimeError ''partially initialized module''))"
  by (simp add: wandb_cell_check_run check_wandb_installation_cases broken_wandb_world_def)

text \<open>
  The claim as stated, that the handler does nothing beyond printing, fails when the
  package is missing: the last effect of the handler is the shell command.
\<close>

theorem check_wandb_installation_installs:
  "check_wandb_installation no_wandb_world
     = ([Import ''wandb'', Caught (ImportError ''No module named wandb''),
         Print [Lit ''W&B is not installed. Installing now...''],
         Shell ''pip install wandb -q''], Inr False)
   \<and> filter is_shell (fst (check_wandb_installation no_wandb_world))
       = [Shell ''pip install wandb -q'']"
  by (simp add: check_wandb_installation_def import_module_def no_wandb_world_def
      example_world_def io_seq_pair io_return_def io_raise_def)


subsection \<open>What the cells ask of the host\<close>

lemma listed_cases:
  "listed ev \<Longrightarrow>
     (case ev of
        MkLoader bsize shuf workers \<Rightarrow> ev \<in> {MkLoader 128 True 2, MkLoader 100 False 2}
      | Download dir train \<Rightarrow> dir = ''./data''
      | Shell cmd \<Rightarrow> cmd = ''pip install wandb -q''
      | Lib f \<Rightarrow> f \<in> set library_functions
      | Import m \<Rightarrow> m \<in> set imported_modules
      | Caught e \<Rightarrow> (\<exists>msg. e = ImportError msg)
      | _ \<Rightarrow> True)"
  by (cases ev) (auto split: error.splits)

lemma names_not_concurrent:
  "list_all (\<lambda>n. \<not> concurrency_name n) (library_functions @ imported_modules)"
  by (simp add: library_functions_def imported_modules_def concurrency_name_def
      concurrency_modules_def in_module_def)

lemma names_not_files:
  "list_all (\<lambda>n. \<not> file_name n) (library_functions @ imported_modules)"
  by (simp add: library_functions_def imported_modules_def file_name_def file_functions_def
      file_modules_def in_module_def)

lemma pip_iff_missing:
  "Shell ''pip install wandb -q'' \<in> set (fst (check_wandb_installation w))
     \<longleftrightarrow> (\<exists>msg. module_import w ''wandb'' = Missing msg)"
  by (cases "module_import w ''wandb''") (simp_all add: check_wandb_installation_cases)

lemma shell_of_wandb_cell_check:
  "filter is_shell (fst (wandb_cell_check w g))
     = (case module_import w ''wandb'' of
          Missing msg \<Rightarrow> [Shell ''pip install wandb -q''] | _ \<Rightarrow> [])"
  by (cases "module_import w ''wandb''")
     (simp_all add: wandb_cell_check_run check_wandb_installation_cases)

text \<open>
  Claim C2, as the code has it. The data loading of the CIFAR-10 notebook is not
  single-process: the cell that builds \<^verbatim>\<open>trainloader\<close> and \<^verbatim>\<open>testloader\<close> passes
  \<^verbatim>\<open>num_workers=2\<close> to both, which asks the library for two worker processes per
  loader (the library starts them when a loader is iterated). One more request for a
  process exists: \<^verbatim>\<open>check_wandb_installation\<close> runs the shell command
  \<^verbatim>\<open>pip install wandb -q\<close> exactly when \<^verbatim>\<open>wandb\<close> is missing. Apart from these, in
  every cell of the four notebooks and in every world, a data loader is built nowhere
  else and with no other number of workers, no other shell command is run, every module
  imported is one of \<open>imported_modules\<close> and every library function called for its
  effect is one of \<open>library_functions\<close>; none of these names lies in a module for
  threads, processes or asynchronous tasks (\<open>concurrency_modules\<close>). What a called
  library does inside is not part of the statement.
\<close>

theorem concurrency_requests:
  "(\<forall>nb\<in>set notebooks. \<forall>c\<in>set nb. \<forall>ev\<in>set (fst (c w g)).
      case ev of
        MkLoader bsize shuf workers \<Rightarrow> ev \<in> {MkLoader 128 True 2, MkLoader 100 False 2}
      | Shell cmd \<Rightarrow> cmd = ''pip install wandb -q''
      | Lib f \<Rightarrow> f \<in> set library_functions
      | Import m \<Rightarrow> m \<in> set imported_modules
      | _ \<Rightarrow> True)
   \<and> list_all (\<lambda>n. \<not> concurrency_name n) (library_functions @ imported_modules)
   \<and> filter is_loader (fst (cifar_cell_data w g)) = [MkLoader 128 True 2, MkLoader 100 False 2]
   \<and> (Shell ''pip install wandb -q'' \<in> set (fst (check_wandb_installation w))
        \<longleftrightarrow> (\<exists>msg. module_import w ''wandb'' = Missing msg))"
proof -
  have cells: "\<forall>nb\<in>set notebooks. \<forall>c\<in>set nb. \<forall>ev\<in>set (fst (c w g)).
      case ev of
        MkLoader bsize shuf workers \<Rightarrow> ev \<in> {MkLoader 128 True 2, MkLoader 100 False 2}
      | Shell cmd \<Rightarrow> cmd = ''pip install wandb -q''
      | Lib f \<Rightarrow> f \<in> set library_functions
      | Import m \<Rightarrow> m \<in> set imported_modules
      | _ \<Rightarrow> True"
  proof (intro ballI)
    fix nb c ev
    assume "nb \<in> set notebooks" "c \<in> set nb" "ev \<in> set (fst (c w g))"
    then have "listed ev"
      using only_notebooks [of nb c w g] by (simp add: only_def list_all_iff)
    from listed_cases [OF this]
    show "case ev of
        MkLoader bsize shuf workers \<Rightarrow> ev \<in> {MkLoader 128 True 2, MkLoader 100 False 2}
      | Shell cmd \<Rightarrow> cmd = ''pip install wandb -q''
      | Lib f \<Rightarrow> f \<in> set library_functions
      | Import m \<Rightarrow> m \<in> set imported_modules
      | _ \<Rightarrow> True"
      by (cases ev) simp_all
  qed
  have loaders: "filter is_loader (fst (cifar_cell_data w g))
                   = [MkLoader 128 True 2, MkLoader 100 False 2]"
    by (simp add: cifar_cell_data_def fst_io_seq)
  show ?thesis
    by (intro conjI cells names_not_concurrent loaders pip_iff_missing)
qed

theorem concurrency_requests_witness:
  "interactive_cifar10 \<in> set notebooks
   \<and> cifar_cell_data \<in> set interactive_cifar10
   \<and> MkLoader 100 False 2 \<in> set (fst (cifar_cell_data example_world {}))
   \<and> MkLoader 100 False 2 \<in> {MkLoader 128 True 2, MkLoader 100 False 2}
   \<and> Shell ''pip install wandb -q'' \<in> set (fst (check_wandb_installation no_wandb_world))
   \<and> Shell ''pip install wandb -q'' \<notin> set (fst (check_wandb_installation example_world))"
proof -
  have nb: "interactive_cifar10 \<in> set notebooks"
    and c: "cifar_cell_data \<in> set interactive_cifar10"
    by (simp_all add: notebooks_def interactive_cifar10_def)
  have ev: "MkLoader 100 False 2 \<in> set (fst (cifar_cell_data example_world {}))"
    by (simp add: cifar_cell_data_def fst_io_seq)
  have m: "module_import no_wandb_world ''wandb'' = Missing ''No module named wandb''"
    "module_import example_world ''wandb'' = Imported ''1.0''"
    by (simp_all add: no_wandb_world_def example_world_def)
  from concurrency_requests [where w = example_world and g = "{}"] nb c ev
  have "case MkLoader 100 False 2 of
          MkLoader bsize shuf workers \<Rightarrow>
            MkLoader 100 False 2 \<in> {MkLoader 128 True 2, MkLoader 100 False 2}
        | Shell cmd \<Rightarrow> cmd = ''pip install wandb -q''
        | Lib f \<Rightarrow> f \<in> set library_functions
        | Import m \<Rightarrow> m \<in> set imported_modules
        | _ \<Rightarrow> True"
    by blast
  then have l: "MkLoader 100 False 2 \<in> {MkLoader 128 True 2, MkLoader 100 False 2}"
    by simp
  from concurrency_requests [where w = no_wandb_world and g = "{}"]
  have p: "Shell ''pip install wandb -q'' \<in> set (fst (check_wandb_installation no_wandb_world))"
    by (simp add: m)
  from concurrency_requests [where w = example_world and g = "{}"]
  have q: "Shell ''pip install wandb -q'' \<notin> set (fst (check_wandb_installation example_world))"
    by (simp add: m)
  from nb c ev l p q show ?thesis by simp
qed

text \<open>
  The claim as stated fails at the data loading pipeline itself: both loaders of the
  cell that builds \<^verbatim>\<open>trainloader\<close> and \<^verbatim>\<open>testloader\<close> are given two worker
  processes.
\<close>

theorem loaders_use_worker_processes:
  "fst (cifar_cell_data example_world {})
     = [Download ''./data'' True, MkLoader 128 True 2, Download ''./data'' False,
        MkLoader 100 False 2]"
  by (simp add: cifar_cell_data_def fst_io_seq)

text \<open>
  Claim C7, as the code has it. Repository code names one directory and one command: both
  datasets are constructed with the root \<^verbatim>\<open>./data\<close> and \<^verbatim>\<open>download=True\<close>, in the
  data cell of the CIFAR-10 notebook, and \<^verbatim>\<open>check_wandb_installation\<close> runs
  \<^verbatim>\<open>pip install wandb -q\<close> exactly when \<^verbatim>\<open>wandb\<close> is missing, which installs a
  package: state on disk that is neither the dataset cache nor run metadata. In every cell
  of the four notebooks and in every world no other dataset root and no other shell
  command occurs, every module imported is one of \<open>imported_modules\<close> and every library
  function called for its effect is one of \<open>library_functions\<close> (the run metadata is
  written inside the \<^verbatim>\<open>wandb\<close> functions among them and inside \<^verbatim>\<open>wandb.log\<close>);
  none of these names is a function or a module for files or the network
  (\<open>file_functions\<close>, \<open>file_modules\<close>). What a called library writes on its own is not
  part of the statement.
\<close>

theorem disk_requests:
  "(\<forall>nb\<in>set notebooks. \<forall>c\<in>set nb. \<forall>ev\<in>set (fst (c w g)).
      case ev of
        Download dir train \<Rightarrow> dir = ''./data''
      | Shell cmd \<Rightarrow> cmd = ''pip install wandb -q''
      | Lib f \<Rightarrow> f \<in> set library_functions
      | Import m \<Rightarrow> m \<in> set imported_modules
      | _ \<Rightarrow> True)
   \<and> list_all (\<lambda>n. \<not> file_name n) (library_functions @ imported_modules)
   \<and> filter (prefix ''wandb.'') library_functions
       = [''wandb.init'', ''wandb.login'', ''wandb.watch'', ''wandb.sweep'', ''wandb.agent'',
          ''wandb.finish'']
   \<and> filter is_download (fst (cifar_cell_data w g))
       = [Download ''./data'' True, Download ''./data'' False]
   \<and> filter is_shell (fst (wandb_cell_check w g))
       = (case module_import w ''wandb'' of
            Missing msg \<Rightarrow> [Shell ''pip install wandb -q''] | _ \<Rightarrow> [])"
proof -
  have cells: "\<forall>nb\<in>set notebooks. \<forall>c\<in>set nb. \<forall>ev\<in>set (fst (c w g)).
      case ev of
        Download dir train \<Rightarrow> dir = ''./data''
      | Shell cmd \<Rightarrow> cmd = ''pip install wandb -q''
      | Lib f \<Rightarrow> f \<in> set library_functions
      | Import m \<Rightarrow> m \<in> set imported_modules
      | _ \<Rightarrow> True"
  proof (intro ballI)
    fix nb c ev
    assume "nb \<in> set notebooks" "c \<in> set nb" "ev \<in> set (fst (c w g))"
    then have "listed ev"
      using only_notebooks [of nb c w g] by (simp add: only_def list_all_iff)
    from listed_cases [OF this]
    show "case ev of
        Download dir train \<Rightarrow> dir = ''./data''
      | Shell cmd \<Rightarrow> cmd = ''pip install wandb -q''
      | Lib f \<Rightarrow> f \<in> set library_functions
      | Import m \<Rightarrow> m \<in> set imported_modules
      | _ \<Rightarrow> True"
      by (cases ev) simp_all
  qed
  have wandb: "filter (prefix ''wandb.'') library_functions
       = [''wandb.init'', ''wandb.login'', ''wandb.watch'', ''wandb.sweep'', ''wandb.agent'',
          ''wandb.finish'']"
    by (simp add: library_functions_def)
  have data: "filter is_download (fst (cifar_cell_data w g))
                = [Download ''./data'' True, Download ''./data'' False]"
    by (simp add: cifar_cell_data_def fst_io_seq)
  show ?thesis
    by (intro conjI cells names_not_files wandb data shell_of_wandb_cell_check)
qed

theorem disk_requests_witness:
  "interactive_wandb_tutorial \<in> set notebooks
   \<and> wandb_cell_check \<in> set interactive_wandb_tutorial
   \<and> Shell ''pip install wandb -q'' \<in> set (fst (wandb_cell_check no_wandb_world {}))
   \<and> filter is_shell (fst (wandb_cell_check example_world {})) = []
   \<and> filter is_download (fst (cifar_cell_data example_world {}))
       = [Download ''./data'' True, Download ''./data'' False]"
proof -
  have nb: "interactive_wandb_tutorial \<in> set notebooks"
    and c: "wandb_cell_check \<in> set interactive_wandb_tutorial"
    by (simp_all add: notebooks_def interactive_wandb_tutorial_def)
  have m: "module_import no_wandb_world ''wandb'' = Missing ''No module named wandb''"
    "module_import example_world ''wandb'' = Imported ''1.0''"
    by (simp_all add: no_wandb_world_def example_world_def)
  from disk_requests [where w = no_wandb_world and g = "{}"]
  have "filter is_shell (fst (wandb_cell_check no_wandb_world {})) = [Shell ''pip install wandb -q'']"
    by (simp add: m)
  then have "set (filter is_shell (fst (wandb_cell_check no_wandb_world {})))
               = {Shell ''pip install wandb -q''}"
    by simp
  then have ev: "Shell ''pip install wandb -q'' \<in> set (fst (wandb_cell_check no_wandb_world {}))"
    by auto
  from disk_requests [where w = example_world and g = "{}"]
  have q: "filter is_shell (fst (wandb_cell_check example_world {})) = []"
    and d: "filter is_download (fst (cifar_cell_data example_world {}))
              = [Download ''./data'' True, Download ''./data'' False]"
    by (simp_all add: m)
  from nb c ev q d show ?thesis by simp
qed

text \<open>
  The claim as stated, that nothing but the dataset cache and the run metadata is
  touched, fails in the first cell of the W&B notebook when the package is missing: the
  cell installs a package.
\<close>

theorem pip_install_touches_disk:
  "fst (wandb_cell_check no_wandb_world {})
     = [Import ''wandb'', Caught (ImportError ''No module named wandb''),
        Print [Lit ''W&B is not installed. Installing now...''],
        Shell ''pip install wandb -q'']"
  by (simp add: wandb_cell_check_def Let_def call_def check_wandb_installation_def
      import_module_def no_wandb_world_def example_world_def io_seq_pair io_return_def io_raise_def)


subsection \<open>Independence of the environment and the command line\<close>

lemma env_import_module [simp]:
  "import_module (w\<lparr>environ := env, argv := args\<rparr>) m = import_module w m"
  by (simp add: import_module_def)

lemma env_import_modules [simp]:
  "import_modules (w\<lparr>environ := env, argv := args\<rparr>) ms = import_modules w ms"
  by (simp add: import_modules_def)

lemma env_version_of [simp]:
  "version_of (w\<lparr>environ := env, argv := args\<rparr>) m = version_of w m"
  by (simp add: version_of_def)

lemma env_train_epoch [simp]:
  "train_epoch g (w\<lparr>environ := env, argv := args\<rparr>) = train_epoch g w"
  by (intro ext) (simp add: train_epoch_def)

lemma env_benchmark_size [simp]:
  "benchmark_size (w\<lparr>environ := env, argv := args\<rparr>) = benchmark_size w"
  by (intro ext) (simp add: benchmark_size_def)

lemma env_functions:
  "train_model g (w\<lparr>environ := env, argv := args\<rparr>) epochs = train_model g w epochs"
  "visualize_predictions g (w\<lparr>environ := env, argv := args\<rparr>) n = visualize_predictions g w n"
  "check_wandb_installation (w\<lparr>environ := env, argv := args\<rparr>) = check_wandb_installation w"
  "check_gpu_availability (w\<lparr>environ := env, argv := args\<rparr>) = check_gpu_availability w"
  "demonstrate_gpu_operations (w\<lparr>environ := env, argv := args\<rparr>) = demonstrate_gpu_operations w"
  "benchmark_operations (w\<lparr>environ := env, argv := args\<rparr>) = benchmark_operations w"
  "demonstrate_memory_management (w\<lparr>environ := env, argv := args\<rparr>)
     = demonstrate_memory_management w"
  "check_multi_gpu (w\<lparr>environ := env, argv := args\<rparr>) = check_multi_gpu w"
  "get_os_info (w\<lparr>environ := env, argv := args\<rparr>) = get_os_info w"
  "show_conda_instructions g (w\<lparr>environ := env, argv := args\<rparr>) = show_conda_instructions g w"
  "show_package_installation g (w\<lparr>environ := env, argv := args\<rparr>)
     = show_package_installation g w"
  "verify_setup (w\<lparr>environ := env, argv := args\<rparr>) = verify_setup w"
  "show_troubleshooting g (w\<lparr>environ := env, argv := args\<rparr>) = show_troubleshooting g w"
  by (simp_all add: train_model_def visualize_predictions_def
      check_wandb_installation_def check_gpu_availability_def demonstrate_gpu_operations_def
      benchmark_operations_def demonstrate_memory_management_def
      check_multi_gpu_def get_os_info_def show_conda_instructions_def
      show_package_installation_def verify_setup_def show_troubleshooting_def
      del: block_simps)

lemma env_cells:
  assumes "nb \<in> set notebooks" and "c \<in> set nb"
  shows "c (w\<lparr>environ := env, argv := args\<rparr>) g = c w g"
proof -
  have "c \<in> {cifar_cell_setup, cifar_cell_data, cifar_cell_preview, cifar_cell_model,
              cifar_cell_train, cifar_cell_evaluate, cifar_cell_predict,
              wandb_cell_check, wandb_cell_login, wandb_cell_first_experiment,
              wandb_cell_tracking, wandb_cell_sweep,
              gpu_cell_check, gpu_cell_operations, gpu_cell_benchmark, gpu_cell_memory,
              gpu_cell_multi,
              setup_cell_os, setup_cell_conda, setup_cell_environment, setup_cell_packages,
              setup_cell_verify, setup_cell_troubleshooting}"
    using assms
    by (auto simp: notebooks_def interactive_cifar10_def interactive_wandb_tutorial_def
        interactive_pytorch_gpu_def interactive_local_setup_def)
  then show ?thesis
    by (auto simp: env_functions cifar_cell_setup_def cifar_cell_data_def cifar_cell_preview_def
        cifar_cell_model_def cifar_cell_train_def cifar_cell_evaluate_def cifar_cell_predict_def
        wandb_cell_check_def wandb_cell_login_def wandb_cell_first_experiment_def
        wandb_cell_tracking_def wandb_cell_sweep_def
        gpu_cell_check_def gpu_cell_operations_def gpu_cell_benchmark_def gpu_cell_memory_def
        gpu_cell_multi_def
        setup_cell_os_def setup_cell_conda_def setup_cell_environment_def setup_cell_packages_def
        setup_cell_verify_def setup_cell_troubleshooting_def
        simp del: insert_iff block_simps)
qed



text \<open>
  Claim C6. No cell and no function of the repository reads the environment variables
  or the command line: two runs in worlds that differ only in \<open>environ\<close> and
  \<open>argv\<close> request the same effects and have the same outcome. This holds for every
  cell of the four notebooks and for every function that receives the world; the other
  functions (\<^verbatim>\<open>evaluate_model\<close>, the sweep's \<^verbatim>\<open>train_model\<close>, \<^verbatim>\<open>imshow\<close>,
  \<^verbatim>\<open>show_environment_setup\<close>, \<^verbatim>\<open>CIFAR10Net.forward\<close>) do not receive it at all.
\<close>

theorem environment_not_read:
  "(\<forall>nb\<in>set notebooks. \<forall>c\<in>set nb. c (w\<lparr>environ := env, argv := args\<rparr>) g = c w g)
   \<and> train_model g (w\<lparr>environ := env, argv := args\<rparr>) epochs = train_model g w epochs
   \<and> visualize_predictions g (w\<lparr>environ := env, argv := args\<rparr>) n = visualize_predictions g w n
   \<and> check_wandb_installation (w\<lparr>environ := env, argv := args\<rparr>) = check_wandb_installation w
   \<and> check_gpu_availability (w\<lparr>environ := env, argv := args\<rparr>) = check_gpu_availability w
   \<and> demonstrate_gpu_operations (w\<lparr>environ := env, argv := args\<rparr>)
       = demonstrate_gpu_operations w
   \<and> benchmark_operations (w\<lparr>environ := env, argv := args\<rparr>) = benchmark_operations w
   \<and> demonstrate_memory_management (w\<lparr>environ := env, argv := args\<rparr>)
       = demonstrate_memory_management w
   \<and> check_multi_gpu (w\<lparr>environ := env, argv := args\<rparr>) = check_multi_gpu w
   \<and> get_os_info (w\<lparr>environ := env, argv := args\<rparr>) = get_os_info w
   \<and> show_conda_instructions g (w\<lparr>environ := env, argv := args\<rparr>)
       = show_conda_instructions g w
   \<and> show_package_installation g (w\<lparr>environ := env, argv := args\<rparr>)
       = show_package_installation g w
   \<and> verify_setup (w\<lparr>environ := env, argv := args\<rparr>) = verify_setup w
   \<and> show_troubleshooting g (w\<lparr>environ := env, argv := args\<rparr>) = show_troubleshooting g w"
  using env_cells [where w = w and env = env and args = args and g = g]
  by (simp add: env_functions)

theorem environment_not_read_witness:
  "interactive_cifar10 \<in> set notebooks
   \<and> cifar_cell_train \<in> set interactive_cifar10
   \<and> cifar_cell_train
         (example_world\<lparr>environ := [''WANDB_API_KEY'' \<mapsto> ''secret''],
                         argv := [''--epochs'', ''3'']\<rparr>) {}
       = cifar_cell_train example_world {}"
proof -
  have "interactive_cifar10 \<in> set notebooks" "cifar_cell_train \<in> set interactive_cifar10"
    by (simp_all add: notebooks_def interactive_cifar10_def)
  with environment_not_read [where w = example_world and g = "{}"
      and env = "[''WANDB_API_KEY'' \<mapsto> ''secret'']" and args = "[''--epochs'', ''3'']"]
  show ?thesis by blast
qed

subsection \<open>Termination of the loops\<close>

text \<open>
  Every loop of the repository is a \<^verbatim>\<open>for\<close> statement or a comprehension, over
  \<^verbatim>\<open>range(n)\<close>, over a list, over a data loader, or over \<^verbatim>\<open>enumerate\<close> or
  \<^verbatim>\<open>zip\<close> of these; there is no \<^verbatim>\<open>while\<close> and no recursion. The statement run
  against an iterator, \<open>for_statement\<close>, can fail to end. It ends for every iterator
  that is exhausted after finitely many items, and then it is the loop \<open>for_io\<close> over
  these items, which is how the functions of the notebooks are written above.
\<close>

lemma for_loop_finite:
  assumes "it n = None" and "\<forall>i<n. it i \<noteq> None"
  shows "i \<le> n \<Longrightarrow>
         for_loop body it i t s
           = Some (t @ fst (for_io body (map (\<lambda>j. the (it j)) [i..<n]) s),
                   snd (for_io body (map (\<lambda>j. the (it j)) [i..<n]) s))"
proof (induction "n - i" arbitrary: i t s)
  case 0
  then have "i = n" by simp
  then show ?case
    by (subst for_loop.simps) (simp add: assms(1))
next
  case (Suc k)
  then have lt: "i < n" by simp
  with assms(2) obtain x where x: "it i = Some x" by auto
  have items: "map (\<lambda>j. the (it j)) [i..<n] = x # map (\<lambda>j. the (it j)) [Suc i..<n]"
    using lt x by (simp add: upt_conv_Cons)
  obtain t' r where b: "body x s = (t', r)" by (cases "body x s")
  show ?case
  proof (cases r)
    case (Inl e)
    then show ?thesis
      by (subst for_loop.simps) (simp add: x b items)
  next
    case (Inr s')
    have "for_loop body it (Suc i) (t @ t') s'
            = Some ((t @ t') @ fst (for_io body (map (\<lambda>j. the (it j)) [Suc i..<n]) s'),
                    snd (for_io body (map (\<lambda>j. the (it j)) [Suc i..<n]) s'))"
      by (rule Suc.hyps(1)) (use Suc.hyps(2) lt in simp_all)
    then show ?thesis
      by (subst for_loop.simps) (simp add: x b Inr items)
  qed
qed

lemma for_statement_finite:
  assumes "it n = None" and "\<forall>i<n. it i \<noteq> None"
  shows "for_statement body it s = Some (for_io body (map (\<lambda>i. the (it i)) [0..<n]) s)"
  unfolding for_statement_def
  by (subst for_loop_finite [OF assms, of 0]) simp_all

lemma for_statement_range:
  "for_statement body (range_iter m) s = Some (for_io body (py_range m) s)"
proof -
  have "for_statement body (range_iter m) s
          = Some (for_io body (map (\<lambda>i. the (range_iter m i)) [0..<nat m]) s)"
    by (rule for_statement_finite) (auto simp: range_iter_def)
  moreover have "map (\<lambda>i. the (range_iter m i)) [0..<nat m] = py_range m"
    by (rule nth_equalityI) (auto simp: py_range_def range_iter_def)
  ultimately show ?thesis by simp
qed

lemma for_statement_list:
  "for_statement body (list_iter xs) s = Some (for_io body xs s)"
proof -
  have "for_statement body (list_iter xs) s
          = Some (for_io body (map (\<lambda>i. the (list_iter xs i)) [0..<length xs]) s)"
    by (rule for_statement_finite) (auto simp: list_iter_def)
  moreover have "map (\<lambda>i. the (list_iter xs i)) [0..<length xs] = xs"
    by (rule nth_equalityI) (simp_all add: list_iter_def)
  ultimately show ?thesis by simp
qed

lemma for_statement_enumerate:
  "for_statement body (enumerate_iter (list_iter xs) k) s = Some (for_io body (enumerate k xs) s)"
proof -
  let ?it = "enumerate_iter (list_iter xs) k"
  have "for_statement body ?it s
          = Some (for_io body (map (\<lambda>i. the (?it i)) [0..<length xs]) s)"
    by (rule for_statement_finite) (auto simp: list_iter_def enumerate_iter_def)
  moreover have "map (\<lambda>i. the (?it i)) [0..<length xs] = enumerate k xs"
    by (rule nth_equalityI) (simp_all add: list_iter_def enumerate_iter_def nth_enumerate_eq)
  ultimately show ?thesis by simp
qed

text \<open>
  Against an iterator that is never exhausted, a statement whose body never raises does
  not end.
\<close>

lemma for_loop_endless:
  assumes "\<forall>i. it i \<noteq> None" and "\<forall>x s. \<exists>s'. snd (body x s) = Inr s'"
  shows "for_loop body it i t s = None"
proof -
  have "\<not> ((\<forall>i. it i \<noteq> None) \<and> (\<forall>x s. \<exists>s'. snd (body x s) = Inr s'))"
    if "for_loop body it i t s = Some r" for r
  proof (rule for_loop.raw_induct
      [where P = "\<lambda>body it i t s r.
                    \<not> ((\<forall>i. it i \<noteq> None) \<and> (\<forall>x s. \<exists>s'. snd (body x s) = Inr s'))",
       OF _ that])
    fix loop :: "('a \<Rightarrow> 'b \<Rightarrow> 'b io) \<Rightarrow> 'a iterator \<Rightarrow> nat \<Rightarrow> effect list \<Rightarrow> 'b \<Rightarrow> 'b io option"
      and body :: "'a \<Rightarrow> 'b \<Rightarrow> 'b io" and it :: "'a iterator" and i t s r
    assume IH: "\<And>body it i t s r. loop body it i t s = Some r \<Longrightarrow>
                  \<not> ((\<forall>i. it i \<noteq> None) \<and> (\<forall>x s. \<exists>s'. snd (body x s) = Inr s'))"
      and step: "(case it i of
                    None \<Rightarrow> Some (t, Inr s)
                  | Some x \<Rightarrow>
                      (case body x s of
                         (t', Inl e) \<Rightarrow> Some (t @ t', Inl e)
                       | (t', Inr s') \<Rightarrow> loop body it (Suc i) (t @ t') s')) = Some r"
    show "\<not> ((\<forall>i. it i \<noteq> None) \<and> (\<forall>x s. \<exists>s'. snd (body x s) = Inr s'))"
    proof
      assume a: "(\<forall>i. it i \<noteq> None) \<and> (\<forall>x s. \<exists>s'. snd (body x s) = Inr s')"
      then have "it i \<noteq> None" by blast
      then obtain x where x: "it i = Some x" by (cases "it i") simp_all
      from a obtain s' where "snd (body x s) = Inr s'" by blast
      then obtain t' where b: "body x s = (t', Inr s')" by (cases "body x s") simp
      from step have "loop body it (Suc i) (t @ t') s' = Some r"
        by (simp add: x b)
      from IH [OF this] a show False by blast
    qed
  qed
  with assms show ?thesis by (cases "for_loop body it i t s") auto
qed

lemma for_statement_endless_example:
  "for_statement (\<lambda>x s. emit (Print [Lit ''again''])) (\<lambda>i. Some i) () = None"
  unfolding for_statement_def by (rule for_loop_endless) simp_all

lemma train_model_loop:
  "\<exists>r. for_statement (train_epoch g w) (range_iter epochs) () = Some r
       \<and> train_model g w epochs
           = io_seq r (io_seq (emit (Print [Lit ''Finished Training'']))
                              (emit (Lib ''wandb.finish'')))"
  by (simp add: for_statement_range train_model_def)

lemma train_epoch_loop:
  "\<exists>r. for_statement (train_batch epoch)
          (enumerate_iter (list_iter (train_stream w (nat epoch))) 0)
          \<lparr>correct = 0, total = 0, running_loss = 0\<rparr> = Some r
       \<and> train_epoch g w epoch u
           = io_seq (emit (Lib ''model.train''))
            (io_seq r
            (io_bind (call g ''evaluate_model'' (evaluate_model (epoch_test_stream w (nat epoch))))
               (\<lambda>test_accuracy.
             io_seq (emit (WandbLog [(''test_accuracy'', Num test_accuracy)]))
                    (emit (Print [Lit ''Epoch '', Num (of_int (epoch + 1)),
                                  Lit '' Test Accuracy: '', Num test_accuracy, Lit ''%''])))))"
  by (simp only: for_statement_enumerate train_epoch_def option.inject simp_thms ex_simps)

lemma evaluate_model_loop:
  "\<exists>r. for_statement eval_batch (list_iter testloader)
          \<lparr>correct = 0, total = 0,
           class_correct = replicate 10 0, class_total = replicate 10 0\<rparr> = Some r
       \<and> evaluate_model testloader
           = io_seq (emit (Lib ''model.eval''))
            (io_bind r (\<lambda>s.
             io_seq (for_io (print_class_accuracy s) [0..<10] ())
            (py_div (100 * of_int (correct s)) (of_int (total s)))))"
  by (simp only: for_statement_list evaluate_model_def option.inject simp_thms ex_simps)

lemma benchmark_operations_loop:
  "\<exists>r. for_statement (benchmark_size w) (list_iter [1000, 2000, 4000]) [] = Some r
       \<and> benchmark_operations w
           = io_bind r (\<lambda>results.
             block [say [Lit ''Matrix Multiplication Performance Comparison:''],
                    say [Lit ''Size  CPU (s)  GPU (s)  Speedup''],
                    say [Lit (replicate 60 (CHR ''-''))],
                    for_io (\<lambda>r u. say [Num (of_int r), Lit ''x'', Num (of_int r), Ext ''cpu_time'',
                                        Ext ''gpu_time'', Ext ''speedup'', Lit ''x''])
                      results ()])"
  by (simp only: for_statement_list benchmark_operations_def option.inject simp_thms ex_simps)

text \<open>
  Claim C3. A \<^verbatim>\<open>for\<close> statement over an iterator that is exhausted after \<open>n\<close>
  items ends, whatever its body does, with the result of the loop over these items; so
  does every statement over \<^verbatim>\<open>range(m)\<close>, over a list and over \<^verbatim>\<open>enumerate\<close> of a
  list, which are the iterators of all loops of the repository, a data loader being an
  iterator over the finitely many batches of its dataset. The loops of the two functions
  that the claim cites are instances: the epoch loop and the batch loop of
  \<^verbatim>\<open>train_model\<close>, the loop over the test batches in \<^verbatim>\<open>evaluate_model\<close>, which
  \<^verbatim>\<open>train_model\<close> calls, and the loop over the sizes in \<^verbatim>\<open>benchmark_operations\<close>
  end, and the value of each function is built from the result of its loop. Library calls
  are taken to return, as the claim assumes.
\<close>

theorem loops_terminate:
  "(it n = None \<and> (\<forall>i<n. it i \<noteq> None)
      \<longrightarrow> for_statement body it s = Some (for_io body (map (\<lambda>i. the (it i)) [0..<n]) s))
   \<and> for_statement body1 (range_iter m) s1 = Some (for_io body1 (py_range m) s1)
   \<and> for_statement body2 (list_iter xs) s2 = Some (for_io body2 xs s2)
   \<and> for_statement body3 (enumerate_iter (list_iter ys) k) s3
       = Some (for_io body3 (enumerate k ys) s3)
   \<and> (\<exists>r. for_statement (train_epoch g w) (range_iter epochs) () = Some r
          \<and> train_model g w epochs
              = io_seq r (io_seq (emit (Print [Lit ''Finished Training'']))
                                 (emit (Lib ''wandb.finish''))))
   \<and> (\<exists>r. for_statement (train_batch epoch)
             (enumerate_iter (list_iter (train_stream w (nat epoch))) 0)
             \<lparr>correct = 0, total = 0, running_loss = 0\<rparr> = Some r
          \<and> train_epoch g w epoch u
              = io_seq (emit (Lib ''model.train''))
               (io_seq r
               (io_bind (call g ''evaluate_model''
                           (evaluate_model (epoch_test_stream w (nat epoch))))
                  (\<lambda>test_accuracy.
                io_seq (emit (WandbLog [(''test_accuracy'', Num test_accuracy)]))
                       (emit (Print [Lit ''Epoch '', Num (of_int (epoch + 1)),
                                     Lit '' Test Accuracy: '', Num test_accuracy, Lit ''%'']))))))
   \<and> (\<exists>r. for_statement eval_batch (list_iter testloader)
             \<lparr>correct = 0, total = 0,
              class_correct = replicate 10 0, class_total = replicate 10 0\<rparr> = Some r
          \<and> evaluate_model testloader
              = io_seq (emit (Lib ''model.eval''))
               (io_bind r (\<lambda>s.
                io_seq (for_io (print_class_accuracy s) [0..<10] ())
               (py_div (100 * of_int (correct s)) (of_int (total s))))))
   \<and> (\<exists>r. for_statement (benchmark_size w) (list_iter [1000, 2000, 4000]) [] = Some r
          \<and> benchmark_operations w
              = io_bind r (\<lambda>results.
                block [say [Lit ''Matrix Multiplication Performance Comparison:''],
                       say [Lit ''Size  CPU (s)  GPU (s)  Speedup''],
                       say [Lit (replicate 60 (CHR ''-''))],
                       for_io (\<lambda>r u. say [Num (of_int r), Lit ''x'', Num (of_int r),
                                           Ext ''cpu_time'', Ext ''gpu_time'', Ext ''speedup'',
                                           Lit ''x''])
                         results ()]))"
proof -
  have finite: "it n = None \<and> (\<forall>i<n. it i \<noteq> None)
      \<longrightarrow> for_statement body it s = Some (for_io body (map (\<lambda>i. the (it i)) [0..<n]) s)"
    using for_statement_finite [of it n body s] by blast
  show ?thesis
    by (intro conjI finite for_statement_range for_statement_list for_statement_enumerate
        train_model_loop train_epoch_loop evaluate_model_loop benchmark_operations_loop)
qed

theorem loops_terminate_witness:
  "list_iter (test_stream example_world) 2 = None
   \<and> list_iter (test_stream example_world) 0 \<noteq> None
   \<and> list_iter (test_stream example_world) 1 \<noteq> None
   \<and> for_statement eval_batch (list_iter (test_stream example_world))
        \<lparr>correct = 0, total = 0,
         class_correct = replicate 10 0, class_total = replicate 10 0\<rparr>
       = Some (for_io eval_batch
                 [the (list_iter (test_stream example_world) 0),
                  the (list_iter (test_stream example_world) 1)]
                 \<lparr>correct = 0, total = 0,
                  class_correct = replicate 10 0, class_total = replicate 10 0\<rparr>)"
proof -
  have a: "list_iter (test_stream example_world) 2 = None"
    and b: "list_iter (test_stream example_world) 0 \<noteq> None"
    and c: "list_iter (test_stream example_world) 1 \<noteq> None"
    by (simp_all add: list_iter_def example_world_def)
  have all: "\<forall>i<2. list_iter (test_stream example_world) i \<noteq> None"
    using b c by (simp add: less_2_cases_iff)
  have two: "[0..<2] = [0, 1]" by (simp add: upt_rec)
  from loops_terminate [where it = "list_iter (test_stream example_world)" and n = 2
      and body = eval_batch
      and s = "\<lparr>correct = 0, total = 0,
                class_correct = replicate 10 0, class_total = replicate 10 0\<rparr>"]
  have "list_iter (test_stream example_world) 2 = None
        \<and> (\<forall>i<2. list_iter (test_stream example_world) i \<noteq> None)
        \<longrightarrow> for_statement eval_batch (list_iter (test_stream example_world))
              \<lparr>correct = 0, total = 0,
               class_correct = replicate 10 0, class_total = replicate 10 0\<rparr>
            = Some (for_io eval_batch
                      (map (\<lambda>i. the (list_iter (test_stream example_world) i)) [0..<2])
                      \<lparr>correct = 0, total = 0,
                       class_correct = replicate 10 0, class_total = replicate 10 0\<rparr>)"
    by (rule conjunct1)
  with a all
  have "for_statement eval_batch (list_iter (test_stream example_world))
        \<lparr>correct = 0, total = 0,
         class_correct = replicate 10 0, class_total = replicate 10 0\<rparr>
       = Some (for_io eval_batch
                 [the (list_iter (test_stream example_world) 0),
                  the (list_iter (test_stream example_world) 1)]
                 \<lparr>correct = 0, total = 0,
                  class_correct = replicate 10 0, class_total = replicate 10 0\<rparr>)"
    unfolding two by simp
  with a b c show ?thesis by simp
qed


end
